theory Spec2Isabelle
  imports Main "HOL-Library.Char_ord" "HOL-Library.List_Lexorder"
begin

section \<open>Strings as the commands use them\<close>

text \<open>
  The commands compare names with \<^verbatim>\<open>str.lower()\<close>, split endpoint lists with
  \<^verbatim>\<open>str.split()\<close> and build keys with \<^verbatim>\<open>str.join\<close>. Names of Azure resources
  and of their sub-entities are ASCII, and a \<^typ>\<open>string\<close> here is a list of such characters:
  \<open>lower\<close> maps the letters A to Z to a to z and leaves every other character alone.
\<close>

definition lower_char :: "char \<Rightarrow> char" where
  "lower_char c =
     (case map_of (zip ''ABCDEFGHIJKLMNOPQRSTUVWXYZ'' ''abcdefghijklmnopqrstuvwxyz'') c of
        None \<Rightarrow> c
      | Some l \<Rightarrow> l)"

definition lower :: "string \<Rightarrow> string" where
  "lower s = map lower_char s"

text \<open>
  The ASCII characters for which \<^verbatim>\<open>str.isspace\<close> holds: tab, line feed, vertical tab, form
  feed, carriage return, the four separators 0x1C to 0x1F, and the space.
\<close>

definition isspace :: "char \<Rightarrow> bool" where
  "isspace c =
     (c \<in> set [CHR 0x09, CHR 0x0A, CHR 0x0B, CHR 0x0C, CHR 0x0D,
                CHR 0x1C, CHR 0x1D, CHR 0x1E, CHR 0x1F, CHR 0x20])"

text \<open>\<^verbatim>\<open>s.split()\<close>: the maximal runs of characters that are not white space.\<close>

fun split_words :: "string \<Rightarrow> string \<Rightarrow> string list" where
  "split_words w [] = (if w = [] then [] else [w])"
| "split_words w (c # cs) =
     (if isspace c
      then (if w = [] then split_words [] cs else w # split_words [] cs)
      else split_words (w @ [c]) cs)"

definition split :: "string \<Rightarrow> string list" where
  "split s = split_words [] s"

text \<open>\<^verbatim>\<open>sep.join(xs)\<close>.\<close>

fun join :: "string \<Rightarrow> string list \<Rightarrow> string" where
  "join sep [] = []"
| "join sep [x] = x"
| "join sep (x # y # ys) = x @ sep @ join sep (y # ys)"

text \<open>The apostrophe that some messages put around a name.\<close>

definition apostrophe :: string where
  "apostrophe = [CHR 0x27]"

text \<open>Python's truthiness of an optional string: \<^verbatim>\<open>None\<close> and \<^verbatim>\<open>''\<close> are false.\<close>

fun truthy :: "string option \<Rightarrow> bool" where
  "truthy None = False"
| "truthy (Some s) = (s \<noteq> [])"

section \<open>Errors\<close>

text \<open>
  Every failure the commands raise themselves is a \<^verbatim>\<open>CLIError(message)\<close>. The constructor
  records which condition raised it and carries the message: \<open>AlreadyExists\<close> for a
  duplicate name on create, \<open>NotFound\<close> for an absent resource or sub-entity,
  \<open>InvalidArgument\<close> for missing or conflicting flags, \<open>NameNotAvailable\<close> for the
  message of a failed name-availability check. \<open>KeyError\<close>, \<open>IndexError\<close>, \<open>TypeError\<close> and
  \<open>AttributeError\<close> are the Python exceptions of a missing dictionary key, of an index
  beyond a list, of iterating \<^verbatim>\<open>None\<close> and of reading an attribute of \<^verbatim>\<open>None\<close>. \<open>ServiceError\<close> is any
  exception that a call of the management SDK raises; the commands never catch it.
\<close>

datatype error =
    AlreadyExists string
  | NotFound string
  | InvalidArgument string
  | NameNotAvailable string
  | KeyError string
  | IndexError
  | TypeError
  | AttributeError
  | ServiceError string

section \<open>The data model\<close>

text \<open>
  One record for each class of the management SDK that the commands read or build. A field
  keeps the name it has in the SDK behind a prefix that tells the class (\<open>pol_\<close>, \<open>lh_\<close>,
  \<open>rt_\<close>, \<open>ep_\<close>, \<open>sc_\<close>, \<open>enr_\<close>, \<open>rp_\<close>, \<open>h_\<close>, \<open>hp_\<close>, \<open>d_\<close>, \<open>dp_\<close>, \<open>ctd_\<close>, ...), since the same
  field names occur in several classes and as parameters of the commands. A field is
  optional where the commands themselves build an object of the class without it or test
  it for \<^verbatim>\<open>None\<close>; every other field is typed as the service fills it.
\<close>

text \<open>\<^verbatim>\<open>datetime.timedelta\<close>, built from whole seconds or whole hours only.\<close>

datatype timedelta = Timedelta (td_seconds: int)

definition timedelta_seconds :: "int \<Rightarrow> timedelta" where
  "timedelta_seconds n = Timedelta n"

definition timedelta_hours :: "int \<Rightarrow> timedelta" where
  "timedelta_hours n = Timedelta (n * 3600)"

text \<open>
  \<^verbatim>\<open>SharedAccessSignatureAuthorizationRule\<close> of an IoT hub (rights: \<^verbatim>\<open>AccessRights\<close>) and
  \<^verbatim>\<open>SharedAccessSignatureAuthorizationRuleAccessRightsDescription\<close> of a provisioning
  service (rights: a comma-separated string).
\<close>

record 'r policy =
  pol_key_name :: string
  pol_rights :: 'r
  pol_primary_key :: "string option"
  pol_secondary_key :: "string option"

datatype AccessRights =
    registry_read
  | registry_write
  | service_connect
  | device_connect
  | registry_read_registry_write
  | registry_read_service_connect
  | registry_read_device_connect
  | registry_write_service_connect
  | registry_write_device_connect
  | service_connect_device_connect
  | registry_read_registry_write_service_connect
  | registry_read_registry_write_device_connect
  | registry_read_service_connect_device_connect
  | registry_write_service_connect_device_connect
  | registry_read_registry_write_service_connect_device_connect

text \<open>\<^verbatim>\<open>IotHubDefinitionDescription\<close>: a hub linked to a provisioning service.\<close>

record linked_hub =
  lh_name :: "string option"
  lh_connection_string :: string
  lh_location :: string
  lh_apply_allocation_policy :: "bool option"
  lh_allocation_weight :: "int option"

text \<open>\<^verbatim>\<open>IotDpsSkuInfo\<close> and \<^verbatim>\<open>IotHubSkuInfo\<close>.\<close>

record sku_info =
  sku_name :: string
  sku_capacity :: int

text \<open>\<^verbatim>\<open>IotDpsPropertiesDescription\<close> and \<^verbatim>\<open>ProvisioningServiceDescription\<close>.\<close>

record dps_properties =
  dp_iot_hubs :: "linked_hub list"
  dp_allocation_policy :: string
  dp_authorization_policies :: "string policy list"

record dps =
  d_name :: "string option"
  d_etag :: "string option"
  d_location :: string
  d_properties :: dps_properties
  d_sku :: sku_info

text \<open>\<^verbatim>\<open>RouteProperties\<close>.\<close>

record route =
  rt_name :: string
  rt_source :: string
  rt_endpoint_names :: "string list"
  rt_condition :: string
  rt_is_enabled :: bool

text \<open>
  \<^verbatim>\<open>RoutingEventHubProperties\<close>, \<^verbatim>\<open>RoutingServiceBusQueueEndpointProperties\<close> and
  \<^verbatim>\<open>RoutingServiceBusTopicEndpointProperties\<close> have the same four fields;
  \<^verbatim>\<open>RoutingStorageContainerProperties\<close> extends them.
\<close>

record endpoint =
  ep_name :: string
  ep_connection_string :: string
  ep_subscription_id :: string
  ep_resource_group :: string

record storage_container = endpoint +
  sc_container_name :: string
  sc_encoding :: string
  sc_file_name_format :: string
  sc_batch_frequency_in_seconds :: int
  sc_max_chunk_size_in_bytes :: int

text \<open>\<^verbatim>\<open>RoutingEndpoints\<close>, \<^verbatim>\<open>EnrichmentProperties\<close>, \<^verbatim>\<open>RoutingProperties\<close>.\<close>

record routing_endpoints =
  service_bus_queues :: "endpoint list"
  service_bus_topics :: "endpoint list"
  event_hubs :: "endpoint list"
  storage_containers :: "storage_container list"

record enrichment =
  enr_key :: string
  enr_value :: string
  enr_endpoint_names :: "string list"

record routing =
  rp_endpoints :: routing_endpoints
  rp_routes :: "route list"
  rp_enrichments :: "enrichment list option"

text \<open>
  \<^verbatim>\<open>EventHubProperties\<close>, \<^verbatim>\<open>FeedbackProperties\<close>, \<^verbatim>\<open>CloudToDeviceProperties\<close>,
  \<^verbatim>\<open>MessagingEndpointProperties\<close>, \<^verbatim>\<open>StorageEndpointProperties\<close>.
\<close>

record event_hub_properties =
  eh_retention_time_in_days :: int
  eh_partition_count :: int

record feedback_properties =
  fb_lock_duration_as_iso8601 :: timedelta
  fb_ttl_as_iso8601 :: timedelta
  fb_max_delivery_count :: int

record cloud_to_device_properties =
  ctd_max_delivery_count :: int
  ctd_default_ttl_as_iso8601 :: timedelta
  ctd_feedback :: feedback_properties

record messaging_endpoint_properties =
  me_max_delivery_count :: int
  me_ttl_as_iso8601 :: timedelta

record storage_endpoint_properties =
  se_sas_ttl_as_iso8601 :: timedelta
  se_connection_string :: string
  se_container_name :: string

text \<open>\<^verbatim>\<open>IotHubProperties\<close> and \<^verbatim>\<open>IotHubDescription\<close>; the three dictionaries are maps.\<close>

record hub_properties =
  hp_authorization_policies :: "AccessRights policy list option"
  hp_routing :: "routing option"
  hp_event_hub_endpoints :: "string \<rightharpoonup> event_hub_properties"
  hp_messaging_endpoints :: "string \<rightharpoonup> messaging_endpoint_properties"
  hp_storage_endpoints :: "string \<rightharpoonup> storage_endpoint_properties"
  hp_cloud_to_device :: cloud_to_device_properties
  hp_enable_file_upload_notifications :: bool

record hub =
  h_name :: "string option"
  h_etag :: "string option"
  h_location :: string
  h_sku :: sku_info
  h_additional_properties :: "string \<rightharpoonup> string"
  h_properties :: hub_properties

text \<open>The answer of a name-availability check, and the resource group of \<^verbatim>\<open>resource_groups.get\<close>.\<close>

record name_availability =
  na_name_available :: bool
  na_message :: string

record resource_group =
  rg_location :: string

text \<open>
  The values of the enumeration \<^verbatim>\<open>EndpointType\<close>, which \<^verbatim>\<open>shared.py\<close> declares. The
  functions that compare against them take them as a parameter.
\<close>

record EndpointType =
  EventHub :: string
  ServiceBusQueue :: string
  ServiceBusTopic :: string
  AzureStorageContainer :: string

text \<open>The values of the enumeration \<^verbatim>\<open>RenewKeyType\<close> of \<^verbatim>\<open>shared.py\<close>, a parameter as well.\<close>

record RenewKeyType =
  Primary :: string
  Secondary :: string
  Swap :: string

section \<open>The management SDK and the calls made on it\<close>

text \<open>
  The SDK clients are external: what a call answers, and what it does to the service, is
  not decided by the commands. A client is therefore a record of methods over an arbitrary
  service state \<open>'s\<close>; each method may fail (any exception of the SDK) and may change the
  state. A command is a function from the service state to its result, the new state and
  the list of the client calls it made, in order.
\<close>

datatype poller = Poller nat

datatype call =
    Dps_list_by_subscription
  | Dps_list_by_resource_group string
  | Dps_get string string
  | Dps_list_keys string string
  | Dps_list_keys_for_key_name string string string
  | Dps_create_or_update string string dps "(string \<times> string option) list option"
  | Dps_set_api_version string
  | Hub_list_by_subscription
  | Hub_list_by_resource_group string
  | Hub_check_name_availability string
  | Hub_get string string
  | Hub_list_keys string string
  | Hub_get_keys_for_key_name string string string
  | Hub_create_or_update string string hub "(string \<times> string option) list option"
  | Resource_groups_check_existence string
  | Resource_groups_get string
  | Long_running_operation poller

text \<open>
  The arguments of a call are those of the source, in its order. The last argument of
  \<open>Hub_create_or_update\<close> and of \<open>Dps_create_or_update\<close> is the dictionary of headers
  that the source passes as fourth argument, \<open>None\<close> where the source passes three
  arguments only.
\<close>

record 's sdk =
  dps_list_by_subscription :: "'s \<Rightarrow> (error + dps list option) \<times> 's"
  dps_list_by_resource_group :: "string \<Rightarrow> 's \<Rightarrow> (error + dps list option) \<times> 's"
  dps_get :: "string \<Rightarrow> string \<Rightarrow> 's \<Rightarrow> (error + dps) \<times> 's"
  dps_list_keys :: "string \<Rightarrow> string \<Rightarrow> 's \<Rightarrow> (error + string policy list) \<times> 's"
  dps_list_keys_for_key_name ::
    "string \<Rightarrow> string \<Rightarrow> string \<Rightarrow> 's \<Rightarrow> (error + string policy) \<times> 's"
  dps_create_or_update ::
    "string \<Rightarrow> string \<Rightarrow> dps \<Rightarrow> (string \<times> string option) list option \<Rightarrow> 's
       \<Rightarrow> (error + poller) \<times> 's"
  dps_set_api_version :: "string \<Rightarrow> 's \<Rightarrow> 's"
  hub_list_by_subscription :: "'s \<Rightarrow> (error + hub list option) \<times> 's"
  hub_list_by_resource_group :: "string \<Rightarrow> 's \<Rightarrow> (error + hub list option) \<times> 's"
  hub_check_name_availability :: "string \<Rightarrow> 's \<Rightarrow> (error + name_availability option) \<times> 's"
  hub_get :: "string \<Rightarrow> string \<Rightarrow> 's \<Rightarrow> (error + hub) \<times> 's"
  hub_list_keys :: "string \<Rightarrow> string \<Rightarrow> 's \<Rightarrow> (error + AccessRights policy list) \<times> 's"
  hub_get_keys_for_key_name ::
    "string \<Rightarrow> string \<Rightarrow> string \<Rightarrow> 's \<Rightarrow> (error + AccessRights policy) \<times> 's"
  hub_create_or_update ::
    "string \<Rightarrow> string \<Rightarrow> hub \<Rightarrow> (string \<times> string option) list option \<Rightarrow> 's
       \<Rightarrow> (error + poller) \<times> 's"
  resource_groups_check_existence :: "string \<Rightarrow> 's \<Rightarrow> (error + bool) \<times> 's"
  resource_groups_get :: "string \<Rightarrow> 's \<Rightarrow> (error + resource_group) \<times> 's"
  long_running_operation :: "poller \<Rightarrow> 's \<Rightarrow> (error + unit) \<times> 's"

type_synonym ('s, 'a) cli = "'s \<Rightarrow> (error + 'a) \<times> 's \<times> call list"

definition cli_return :: "'a \<Rightarrow> ('s, 'a) cli" where
  "cli_return x = (\<lambda>s. (Inr x, s, []))"

definition cli_raise :: "error \<Rightarrow> ('s, 'a) cli" where
  "cli_raise e = (\<lambda>s. (Inl e, s, []))"

definition cli_bind :: "('s, 'a) cli \<Rightarrow> ('a \<Rightarrow> ('s, 'b) cli) \<Rightarrow> ('s, 'b) cli" where
  "cli_bind m f =
     (\<lambda>s. case m s of
        (Inl e, s1, t1) \<Rightarrow> (Inl e, s1, t1)
      | (Inr x, s1, t1) \<Rightarrow> (case f x s1 of (r, s2, t2) \<Rightarrow> (r, s2, t1 @ t2)))"

text \<open>One call of a client method: the call is recorded, the method decides the rest.\<close>

definition invoke :: "call \<Rightarrow> ('s \<Rightarrow> (error + 'a) \<times> 's) \<Rightarrow> ('s, 'a) cli" where
  "invoke c method = (\<lambda>s. case method s of (r, s1) \<Rightarrow> (r, s1, [c]))"

definition outcome :: "(error + 'a) \<times> 's \<times> call list \<Rightarrow> error + 'a" where
  "outcome x = fst x"

definition calls :: "(error + 'a) \<times> 's \<times> call list \<Rightarrow> call list" where
  "calls x = snd (snd x)"

text \<open>
  A resubmission is a \<^verbatim>\<open>create_or_update\<close> of a parent resource; \<open>if_match\<close> is the
  value passed under the header \<^verbatim>\<open>IF-MATCH\<close>, \<open>None\<close> when the call passes no such header.
\<close>

fun is_resubmission :: "call \<Rightarrow> bool" where
  "is_resubmission (Dps_create_or_update g n d headers) = True"
| "is_resubmission (Hub_create_or_update g n h headers) = True"
| "is_resubmission _ = False"

definition resubmissions :: "call list \<Rightarrow> call list" where
  "resubmissions t = filter is_resubmission t"

fun if_match :: "call \<Rightarrow> string option option" where
  "if_match (Hub_create_or_update g n h (Some headers)) = map_of headers ''IF-MATCH''"
| "if_match (Dps_create_or_update g n d (Some headers)) = map_of headers ''IF-MATCH''"
| "if_match _ = None"

text \<open>
  What a command returns when it may or may not wait: the poller of the started operation
  under \<^verbatim>\<open>no_wait\<close>, the value read back after the wait otherwise.
\<close>

datatype 'a returned = NoWait poller | Waited 'a

definition LongRunningOperation :: "'s sdk \<Rightarrow> poller \<Rightarrow> ('s, unit) cli" where
  "LongRunningOperation client p = invoke (Long_running_operation p) (long_running_operation client p)"

section \<open>Helpers of \<^verbatim>\<open>custom.py\<close>\<close>

text \<open>
  The names are those of the source without the leading underscore.
  \<^verbatim>\<open>_is_policy_existed\<close>: the lowered name is looked up in the set of the lowered key names.
\<close>

definition is_policy_existed :: "'r policy list \<Rightarrow> string \<Rightarrow> bool" where
  "is_policy_existed policies policy_name =
     (let policy_set = set (map (\<lambda>p. lower (pol_key_name p)) policies)
      in lower policy_name \<in> policy_set)"

text \<open>
  \<^verbatim>\<open>_is_linked_hub_existed\<close>: the same over linked hubs. The set comprehension reads
  \<^verbatim>\<open>h.name.lower()\<close> of every hub first, which raises \<^verbatim>\<open>AttributeError\<close> on a hub without name.
\<close>

definition is_linked_hub_existed :: "linked_hub list \<Rightarrow> string \<Rightarrow> error + bool" where
  "is_linked_hub_existed hubs hub_name =
     (case those (map lh_name hubs) of
        None \<Rightarrow> Inl AttributeError
      | Some names \<Rightarrow> Inr (lower hub_name \<in> set (map lower names)))"

text \<open>
  \<^verbatim>\<open>_convert_rights_to_access_rights\<close>: \<^verbatim>\<open>",".join(list(set(right_list)))\<close>. Python does
  not fix the order in which a set is listed; the model lists the rights in the order of
  their first occurrence.
\<close>

definition convert_rights_to_access_rights :: "string list \<Rightarrow> string" where
  "convert_rights_to_access_rights right_list =
     (let right_set = remdups right_list in join '','' right_set)"

text \<open>\<^verbatim>\<open>_convert_perms_to_access_rights\<close>: a missing key of the mapping is a \<^verbatim>\<open>KeyError\<close>.\<close>

definition access_rights_mapping :: "(string \<times> AccessRights) list" where
  "access_rights_mapping =
     [(''registryread'', registry_read),
      (''registrywrite'', registry_write),
      (''serviceconnect'', service_connect),
      (''deviceconnect'', device_connect),
      (''registryread_registrywrite'', registry_read_registry_write),
      (''registryread_serviceconnect'', registry_read_service_connect),
      (''deviceconnect_registryread'', registry_read_device_connect),
      (''registrywrite_serviceconnect'', registry_write_service_connect),
      (''deviceconnect_registrywrite'', registry_write_device_connect),
      (''deviceconnect_serviceconnect'', service_connect_device_connect),
      (''registryread_registrywrite_serviceconnect'', registry_read_registry_write_service_connect),
      (''deviceconnect_registryread_registrywrite'', registry_read_registry_write_device_connect),
      (''deviceconnect_registryread_serviceconnect'', registry_read_service_connect_device_connect),
      (''deviceconnect_registrywrite_serviceconnect'', registry_write_service_connect_device_connect),
      (''deviceconnect_registryread_registrywrite_serviceconnect'',
         registry_read_registry_write_service_connect_device_connect)]"

definition convert_perms_to_access_rights :: "string list \<Rightarrow> error + AccessRights" where
  "convert_perms_to_access_rights perm_list =
     (let sorted_perm_list = sort (remdups perm_list);
          perm_key = join ''_'' sorted_perm_list
      in case map_of access_rights_mapping perm_key of
           None \<Rightarrow> Inl (KeyError perm_key)
         | Some r \<Rightarrow> Inr r)"

text \<open>
  \<^verbatim>\<open>next(x for x in xs if n.lower() == x.name.lower())\<close> over resources whose name may be
  missing: \<open>Inr None\<close> is \<^verbatim>\<open>StopIteration\<close>.
\<close>

fun next_by_name :: "('a \<Rightarrow> string option) \<Rightarrow> string \<Rightarrow> 'a list \<Rightarrow> error + 'a option" where
  "next_by_name name_of n [] = Inr None"
| "next_by_name name_of n (x # xs) =
     (case name_of x of
        None \<Rightarrow> Inl AttributeError
      | Some m \<Rightarrow> if lower n = lower m then Inr (Some x) else next_by_name name_of n xs)"

text \<open>\<^verbatim>\<open>[p for p in hubs if p.name.lower() != linked_hub.lower()]\<close>.\<close>

fun without_linked_hub :: "string \<Rightarrow> linked_hub list \<Rightarrow> error + linked_hub list" where
  "without_linked_hub linked_hub [] = Inr []"
| "without_linked_hub linked_hub (p # ps) =
     (case lh_name p of
        None \<Rightarrow> Inl AttributeError
      | Some n \<Rightarrow>
          (case without_linked_hub linked_hub ps of
             Inl e \<Rightarrow> Inl e
           | Inr rest \<Rightarrow> Inr (if lower n \<noteq> lower linked_hub then p # rest else rest)))"

text \<open>
  The first element that satisfies a test, changed in place
  (\<^verbatim>\<open>x = next((y for y in ys if test(y)), None)\<close>, then assignments to the fields of \<^verbatim>\<open>x\<close>);
  \<open>None\<close> when no element satisfies the test.
\<close>

fun update_first :: "('a \<Rightarrow> bool) \<Rightarrow> ('a \<Rightarrow> 'a) \<Rightarrow> 'a list \<Rightarrow> 'a list option" where
  "update_first test change [] = None"
| "update_first test change (y # ys) =
     (if test y then Some (change y # ys)
      else map_option (\<lambda>zs. y # zs) (update_first test change ys))"

section \<open>Provisioning services\<close>

definition iot_dps_list :: "'s sdk \<Rightarrow> string option \<Rightarrow> ('s, dps list option) cli" where
  "iot_dps_list client resource_group_name =
     (case resource_group_name of
        None \<Rightarrow> invoke Dps_list_by_subscription (dps_list_by_subscription client)
      | Some g \<Rightarrow> invoke (Dps_list_by_resource_group g) (dps_list_by_resource_group client g))"

definition get_iot_dps_by_name :: "'s sdk \<Rightarrow> string \<Rightarrow> string option \<Rightarrow> ('s, dps) cli" where
  "get_iot_dps_by_name client dps_name resource_group =
     cli_bind (iot_dps_list client resource_group) (\<lambda>all_dps.
       case all_dps of
         None \<Rightarrow> cli_raise (NotFound ''No DPS found in current subscription.'')
       | Some xs \<Rightarrow>
           (case next_by_name d_name dps_name xs of
              Inl e \<Rightarrow> cli_raise e
            | Inr None \<Rightarrow>
                cli_raise (NotFound (''No DPS found with name '' @ dps_name @ '' in current subscription.''))
            | Inr (Some target_dps) \<Rightarrow> cli_return target_dps))"

definition iot_dps_get :: "'s sdk \<Rightarrow> string \<Rightarrow> string option \<Rightarrow> ('s, dps) cli" where
  "iot_dps_get client dps_name resource_group_name =
     (case resource_group_name of
        None \<Rightarrow> get_iot_dps_by_name client dps_name resource_group_name
      | Some g \<Rightarrow> invoke (Dps_get dps_name g) (dps_get client dps_name g))"

subsection \<open>Access policies of a provisioning service\<close>

definition iot_dps_access_policy_list :: "'s sdk \<Rightarrow> string \<Rightarrow> string \<Rightarrow> ('s, string policy list) cli" where
  "iot_dps_access_policy_list client dps_name resource_group_name =
     cli_bind (iot_dps_get client dps_name (Some resource_group_name)) (\<lambda>_.
       invoke (Dps_list_keys dps_name resource_group_name)
         (dps_list_keys client dps_name resource_group_name))"

definition iot_dps_access_policy_get ::
  "'s sdk \<Rightarrow> string \<Rightarrow> string \<Rightarrow> string \<Rightarrow> ('s, string policy) cli" where
  "iot_dps_access_policy_get client dps_name resource_group_name access_policy_name =
     cli_bind (iot_dps_get client dps_name (Some resource_group_name)) (\<lambda>_.
       invoke (Dps_list_keys_for_key_name dps_name access_policy_name resource_group_name)
         (dps_list_keys_for_key_name client dps_name access_policy_name resource_group_name))"

text \<open>
  The end that every command on a provisioning service shares: the description is sent
  with \<^verbatim>\<open>create_or_update(resource_group_name, dps_name, dps_description)\<close>; under
  \<^verbatim>\<open>no_wait\<close> its poller is returned, otherwise the command waits and reads back.
\<close>

definition dps_submit ::
  "'s sdk \<Rightarrow> string \<Rightarrow> string \<Rightarrow> dps \<Rightarrow> bool \<Rightarrow> ('s, 'a) cli \<Rightarrow> ('s, 'a returned) cli" where
  "dps_submit client resource_group_name dps_name dps_description no_wait read_back =
     (if no_wait
      then cli_bind
             (invoke (Dps_create_or_update resource_group_name dps_name dps_description None)
                (dps_create_or_update client resource_group_name dps_name dps_description None))
             (\<lambda>p. cli_return (NoWait p))
      else cli_bind
             (invoke (Dps_create_or_update resource_group_name dps_name dps_description None)
                (dps_create_or_update client resource_group_name dps_name dps_description None))
             (\<lambda>p. cli_bind (LongRunningOperation client p) (\<lambda>_.
                cli_bind read_back (\<lambda>r. cli_return (Waited r)))))"

text \<open>
  \<^verbatim>\<open>ProvisioningServiceDescription(location=dps.location, properties=dps_property, sku=dps.sku)\<close>:
  the description that is sent has neither name nor entity tag.
\<close>

definition dps_description_of :: "dps \<Rightarrow> dps_properties \<Rightarrow> dps" where
  "dps_description_of d dps_property =
     \<lparr>d_name = None, d_etag = None, d_location = d_location d,
      d_properties = dps_property, d_sku = d_sku d\<rparr>"

definition iot_dps_access_policy_create ::
  "'s sdk \<Rightarrow> string \<Rightarrow> string \<Rightarrow> string \<Rightarrow> string list \<Rightarrow> string option \<Rightarrow> string option \<Rightarrow> bool
     \<Rightarrow> ('s, string policy returned) cli" where
  "iot_dps_access_policy_create client dps_name resource_group_name access_policy_name rights
      primary_key secondary_key no_wait =
     cli_bind (iot_dps_access_policy_list client dps_name resource_group_name) (\<lambda>listed.
       let dps_access_policies = [] @ listed
       in if is_policy_existed dps_access_policies access_policy_name
          then cli_raise (AlreadyExists (''Access policy '' @ access_policy_name @ '' already existed.''))
          else
            let access_policy_rights = convert_rights_to_access_rights rights;
                dps_access_policies = dps_access_policies @
                  [\<lparr>pol_key_name = access_policy_name, pol_rights = access_policy_rights,
                    pol_primary_key = primary_key, pol_secondary_key = secondary_key\<rparr>]
            in cli_bind (iot_dps_get client dps_name (Some resource_group_name)) (\<lambda>d.
                 let dps_property =
                       \<lparr>dp_iot_hubs = dp_iot_hubs (d_properties d),
                        dp_allocation_policy = dp_allocation_policy (d_properties d),
                        dp_authorization_policies = dps_access_policies\<rparr>;
                     dps_description = dps_description_of d dps_property
                 in dps_submit client resource_group_name dps_name dps_description no_wait
                      (iot_dps_access_policy_get client dps_name resource_group_name access_policy_name)))"

text \<open>The body of the loop of \<^verbatim>\<open>iot_dps_access_policy_update\<close> over the listed policies.\<close>

definition access_policy_assign ::
  "string \<Rightarrow> string option \<Rightarrow> string option \<Rightarrow> string list option \<Rightarrow> string policy \<Rightarrow> string policy" where
  "access_policy_assign access_policy_name primary_key secondary_key rights p =
     (if pol_key_name p = access_policy_name
      then
        (let p1 = (case primary_key of None \<Rightarrow> p | Some k \<Rightarrow> p\<lparr>pol_primary_key := Some k\<rparr>);
             p2 = (case secondary_key of None \<Rightarrow> p1 | Some k \<Rightarrow> p1\<lparr>pol_secondary_key := Some k\<rparr>);
             p3 = (case rights of None \<Rightarrow> p2
                   | Some r \<Rightarrow> p2\<lparr>pol_rights := convert_rights_to_access_rights r\<rparr>)
         in p3)
      else p)"

definition iot_dps_access_policy_update ::
  "'s sdk \<Rightarrow> string \<Rightarrow> string \<Rightarrow> string \<Rightarrow> string option \<Rightarrow> string option \<Rightarrow> string list option \<Rightarrow> bool
     \<Rightarrow> ('s, string policy returned) cli" where
  "iot_dps_access_policy_update client dps_name resource_group_name access_policy_name
      primary_key secondary_key rights no_wait =
     cli_bind (iot_dps_access_policy_list client dps_name resource_group_name) (\<lambda>listed.
       let dps_access_policies = [] @ listed
       in if \<not> is_policy_existed dps_access_policies access_policy_name
          then cli_raise (NotFound (''Access policy '' @ access_policy_name @ '' doesn't exist.''))
          else
            let dps_access_policies =
                  map (access_policy_assign access_policy_name primary_key secondary_key rights)
                    dps_access_policies
            in cli_bind (iot_dps_get client dps_name (Some resource_group_name)) (\<lambda>d.
                 let dps_property =
                       \<lparr>dp_iot_hubs = dp_iot_hubs (d_properties d),
                        dp_allocation_policy = dp_allocation_policy (d_properties d),
                        dp_authorization_policies = dps_access_policies\<rparr>;
                     dps_description = dps_description_of d dps_property
                 in dps_submit client resource_group_name dps_name dps_description no_wait
                      (iot_dps_access_policy_get client dps_name resource_group_name access_policy_name)))"

definition iot_dps_access_policy_delete ::
  "'s sdk \<Rightarrow> string \<Rightarrow> string \<Rightarrow> string \<Rightarrow> bool \<Rightarrow> ('s, string policy list returned) cli" where
  "iot_dps_access_policy_delete client dps_name resource_group_name access_policy_name no_wait =
     cli_bind (iot_dps_access_policy_list client dps_name resource_group_name) (\<lambda>listed.
       let dps_access_policies = [] @ listed
       in if \<not> is_policy_existed dps_access_policies access_policy_name
          then cli_raise (NotFound (''Access policy '' @ access_policy_name @ '' doesn't existed.''))
          else
            let updated_policies =
                  filter (\<lambda>p. lower (pol_key_name p) \<noteq> lower access_policy_name) dps_access_policies
            in cli_bind (iot_dps_get client dps_name (Some resource_group_name)) (\<lambda>d.
                 let dps_property =
                       \<lparr>dp_iot_hubs = dp_iot_hubs (d_properties d),
                        dp_allocation_policy = dp_allocation_policy (d_properties d),
                        dp_authorization_policies = updated_policies\<rparr>;
                     dps_description = dps_description_of d dps_property
                 in dps_submit client resource_group_name dps_name dps_description no_wait
                      (iot_dps_access_policy_list client dps_name resource_group_name)))"

subsection \<open>Linked hubs of a provisioning service\<close>

definition iot_dps_linked_hub_list :: "'s sdk \<Rightarrow> string \<Rightarrow> string \<Rightarrow> ('s, linked_hub list) cli" where
  "iot_dps_linked_hub_list client dps_name resource_group_name =
     cli_bind (iot_dps_get client dps_name (Some resource_group_name)) (\<lambda>d.
       cli_return (dp_iot_hubs (d_properties d)))"

definition iot_dps_linked_hub_get :: "'s sdk \<Rightarrow> string \<Rightarrow> string \<Rightarrow> string \<Rightarrow> ('s, linked_hub) cli" where
  "iot_dps_linked_hub_get client dps_name resource_group_name linked_hub =
     cli_bind (iot_dps_get client dps_name (Some resource_group_name)) (\<lambda>d.
       case find (\<lambda>h. lh_name h = Some linked_hub) (dp_iot_hubs (d_properties d)) of
         Some h \<Rightarrow> cli_return h
       | None \<Rightarrow>
           cli_raise (NotFound (''Linked hub '' @ apostrophe @ linked_hub @ apostrophe @
             '' does not exist. Use '' @ apostrophe @ ''iot dps linked-hub show to see all linked hubs.'')))"

definition iot_dps_linked_hub_create ::
  "'s sdk \<Rightarrow> string \<Rightarrow> string \<Rightarrow> string \<Rightarrow> string \<Rightarrow> bool option \<Rightarrow> int option \<Rightarrow> bool
     \<Rightarrow> ('s, linked_hub list returned) cli" where
  "iot_dps_linked_hub_create client dps_name resource_group_name connection_string location
      apply_allocation_policy allocation_weight no_wait =
     cli_bind (iot_dps_linked_hub_list client dps_name resource_group_name) (\<lambda>listed.
       let dps_linked_hubs = [] @ listed
       in cli_bind
            (invoke (Dps_set_api_version ''2017-11-15'')
               (\<lambda>s. (Inr (), dps_set_api_version client ''2017-11-15'' s)))
            (\<lambda>_.
          let dps_linked_hubs = dps_linked_hubs @
                [\<lparr>lh_name = None, lh_connection_string = connection_string, lh_location = location,
                  lh_apply_allocation_policy = apply_allocation_policy,
                  lh_allocation_weight = allocation_weight\<rparr>]
          in cli_bind (iot_dps_get client dps_name (Some resource_group_name)) (\<lambda>d.
               let dps_property =
                     \<lparr>dp_iot_hubs = dps_linked_hubs,
                      dp_allocation_policy = dp_allocation_policy (d_properties d),
                      dp_authorization_policies = dp_authorization_policies (d_properties d)\<rparr>;
                   dps_description = dps_description_of d dps_property
               in dps_submit client resource_group_name dps_name dps_description no_wait
                    (iot_dps_linked_hub_list client dps_name resource_group_name))))"

text \<open>The body of the loop of \<^verbatim>\<open>iot_dps_linked_hub_update\<close> over the listed hubs.\<close>

definition linked_hub_assign :: "string \<Rightarrow> bool option \<Rightarrow> int option \<Rightarrow> linked_hub \<Rightarrow> linked_hub" where
  "linked_hub_assign linked_hub apply_allocation_policy allocation_weight h =
     (if lh_name h = Some linked_hub
      then
        (let h1 = (case apply_allocation_policy of None \<Rightarrow> h
                   | Some b \<Rightarrow> h\<lparr>lh_apply_allocation_policy := Some b\<rparr>);
             h2 = (case allocation_weight of None \<Rightarrow> h1
                   | Some w \<Rightarrow> h1\<lparr>lh_allocation_weight := Some w\<rparr>)
         in h2)
      else h)"

definition iot_dps_linked_hub_update ::
  "'s sdk \<Rightarrow> string \<Rightarrow> string \<Rightarrow> string \<Rightarrow> bool option \<Rightarrow> int option \<Rightarrow> bool
     \<Rightarrow> ('s, linked_hub returned) cli" where
  "iot_dps_linked_hub_update client dps_name resource_group_name linked_hub
      apply_allocation_policy allocation_weight no_wait =
     cli_bind (iot_dps_linked_hub_list client dps_name resource_group_name) (\<lambda>listed.
       let dps_linked_hubs = [] @ listed
       in case is_linked_hub_existed dps_linked_hubs linked_hub of
            Inl e \<Rightarrow> cli_raise e
          | Inr existed \<Rightarrow>
              if \<not> existed
              then cli_raise (NotFound (''Access policy '' @ linked_hub @ '' doesn't existed.''))
              else
                let dps_linked_hubs =
                      map (linked_hub_assign linked_hub apply_allocation_policy allocation_weight)
                        dps_linked_hubs
                in cli_bind (iot_dps_get client dps_name (Some resource_group_name)) (\<lambda>d.
                     let dps_property =
                           \<lparr>dp_iot_hubs = dps_linked_hubs,
                            dp_allocation_policy = dp_allocation_policy (d_properties d),
                            dp_authorization_policies = dp_authorization_policies (d_properties d)\<rparr>;
                         dps_description = dps_description_of d dps_property
                     in dps_submit client resource_group_name dps_name dps_description no_wait
                          (iot_dps_linked_hub_get client dps_name resource_group_name linked_hub)))"

definition iot_dps_linked_hub_delete ::
  "'s sdk \<Rightarrow> string \<Rightarrow> string \<Rightarrow> string \<Rightarrow> bool \<Rightarrow> ('s, linked_hub list returned) cli" where
  "iot_dps_linked_hub_delete client dps_name resource_group_name linked_hub no_wait =
     cli_bind (iot_dps_linked_hub_list client dps_name resource_group_name) (\<lambda>listed.
       let dps_linked_hubs = [] @ listed
       in case is_linked_hub_existed dps_linked_hubs linked_hub of
            Inl e \<Rightarrow> cli_raise e
          | Inr existed \<Rightarrow>
              if \<not> existed
              then cli_raise (NotFound (''Linked hub '' @ linked_hub @ '' doesn't existed.''))
              else
                (case without_linked_hub linked_hub dps_linked_hubs of
                   Inl e \<Rightarrow> cli_raise e
                 | Inr updated_hub \<Rightarrow>
                     cli_bind (iot_dps_get client dps_name (Some resource_group_name)) (\<lambda>d.
                       let dps_property =
                             \<lparr>dp_iot_hubs = updated_hub,
                              dp_allocation_policy = dp_allocation_policy (d_properties d),
                              dp_authorization_policies = dp_authorization_policies (d_properties d)\<rparr>;
                           dps_description = dps_description_of d dps_property
                       in dps_submit client resource_group_name dps_name dps_description no_wait
                            (iot_dps_linked_hub_list client dps_name resource_group_name))))"

section \<open>IoT hubs\<close>

definition iot_hub_list :: "'s sdk \<Rightarrow> string option \<Rightarrow> ('s, hub list option) cli" where
  "iot_hub_list client resource_group_name =
     (case resource_group_name of
        None \<Rightarrow> invoke Hub_list_by_subscription (hub_list_by_subscription client)
      | Some g \<Rightarrow> invoke (Hub_list_by_resource_group g) (hub_list_by_resource_group client g))"

definition get_iot_hub_by_name :: "'s sdk \<Rightarrow> string \<Rightarrow> ('s, hub) cli" where
  "get_iot_hub_by_name client hub_name =
     cli_bind (iot_hub_list client None) (\<lambda>all_hubs.
       case all_hubs of
         None \<Rightarrow> cli_raise (NotFound ''No IoT Hub found in current subscription.'')
       | Some xs \<Rightarrow>
           (case next_by_name h_name hub_name xs of
              Inl e \<Rightarrow> cli_raise e
            | Inr None \<Rightarrow>
                cli_raise (NotFound (''No IoT Hub found with name '' @ hub_name @ '' in current subscription.''))
            | Inr (Some target_hub) \<Rightarrow> cli_return target_hub))"

definition ensure_resource_group_existence :: "'s sdk \<Rightarrow> string \<Rightarrow> ('s, bool) cli" where
  "ensure_resource_group_existence client resource_group_name =
     invoke (Resource_groups_check_existence resource_group_name)
       (resource_groups_check_existence client resource_group_name)"

definition ensure_location :: "'s sdk \<Rightarrow> string \<Rightarrow> string option \<Rightarrow> ('s, string) cli" where
  "ensure_location client resource_group_name location =
     (case location of
        None \<Rightarrow>
          cli_bind
            (invoke (Resource_groups_get resource_group_name) (resource_groups_get client resource_group_name))
            (\<lambda>g. cli_return (rg_location g))
      | Some l \<Rightarrow> cli_return l)"

definition check_name_availability :: "'s sdk \<Rightarrow> string \<Rightarrow> ('s, unit) cli" where
  "check_name_availability client hub_name =
     cli_bind (invoke (Hub_check_name_availability hub_name) (hub_check_name_availability client hub_name))
       (\<lambda>availability.
          case availability of
            None \<Rightarrow> cli_return ()
          | Some a \<Rightarrow>
              if \<not> na_name_available a then cli_raise (NameNotAvailable (na_message a))
              else cli_return ())"

definition iot_hub_get :: "'s sdk \<Rightarrow> string \<Rightarrow> string option \<Rightarrow> ('s, hub) cli" where
  "iot_hub_get client hub_name resource_group_name =
     (case resource_group_name of
        None \<Rightarrow> get_iot_hub_by_name client hub_name
      | Some g \<Rightarrow>
          cli_bind (ensure_resource_group_existence client g) (\<lambda>existence.
            if \<not> existence
            then cli_raise (NotFound (''Resource group '' @ apostrophe @ g @ apostrophe @
                              '' could not be found.''))
            else
              cli_bind
                (invoke (Hub_check_name_availability hub_name) (hub_check_name_availability client hub_name))
                (\<lambda>availability.
                   if (case availability of None \<Rightarrow> False | Some a \<Rightarrow> na_name_available a)
                   then cli_raise (NotFound (''An IotHub '' @ apostrophe @ hub_name @ apostrophe @
                                     '' under resource group '' @ apostrophe @ g @ apostrophe @
                                     '' was not found.''))
                   else invoke (Hub_get g hub_name) (hub_get client g hub_name))))"

text \<open>\<^verbatim>\<open>hub.additional_properties['resourcegroup']\<close>.\<close>

definition resourcegroup_of :: "hub \<Rightarrow> ('s, string) cli" where
  "resourcegroup_of h =
     (case h_additional_properties h ''resourcegroup'' of
        None \<Rightarrow> cli_raise (KeyError ''resourcegroup'')
      | Some g \<Rightarrow> cli_return g)"

definition ensure_resource_group_name :: "'s sdk \<Rightarrow> string option \<Rightarrow> string \<Rightarrow> ('s, string) cli" where
  "ensure_resource_group_name client resource_group_name hub_name =
     (case resource_group_name of
        None \<Rightarrow> cli_bind (get_iot_hub_by_name client hub_name) resourcegroup_of
      | Some g \<Rightarrow> cli_return g)"

text \<open>
  \<^verbatim>\<open>create_or_update(resource_group, hub_name, hub, {'IF-MATCH': hub.etag})\<close>: the
  resubmission of a hub that every command on a part of a hub ends with.
\<close>

definition hub_resubmit :: "'s sdk \<Rightarrow> string \<Rightarrow> string \<Rightarrow> hub \<Rightarrow> ('s, poller) cli" where
  "hub_resubmit client resource_group_name hub_name h =
     invoke (Hub_create_or_update resource_group_name hub_name h (Some [(''IF-MATCH'', h_etag h)]))
       (hub_create_or_update client resource_group_name hub_name h (Some [(''IF-MATCH'', h_etag h)]))"

subsection \<open>Shared access policies of a hub\<close>

definition iot_hub_policy_list ::
  "'s sdk \<Rightarrow> string \<Rightarrow> string option \<Rightarrow> ('s, AccessRights policy list) cli" where
  "iot_hub_policy_list client hub_name resource_group_name =
     cli_bind (ensure_resource_group_name client resource_group_name hub_name) (\<lambda>g.
       invoke (Hub_list_keys g hub_name) (hub_list_keys client g hub_name))"

definition iot_hub_policy_get ::
  "'s sdk \<Rightarrow> string \<Rightarrow> string \<Rightarrow> string option \<Rightarrow> ('s, AccessRights policy) cli" where
  "iot_hub_policy_get client hub_name policy_name resource_group_name =
     cli_bind (ensure_resource_group_name client resource_group_name hub_name) (\<lambda>g.
       invoke (Hub_get_keys_for_key_name g hub_name policy_name)
         (hub_get_keys_for_key_name client g hub_name policy_name))"

definition iot_hub_policy_create ::
  "'s sdk \<Rightarrow> string \<Rightarrow> string \<Rightarrow> string list \<Rightarrow> string option \<Rightarrow> ('s, poller) cli" where
  "iot_hub_policy_create client hub_name policy_name permissions resource_group_name =
     (case convert_perms_to_access_rights permissions of
        Inl e \<Rightarrow> cli_raise e
      | Inr rights \<Rightarrow>
          cli_bind (iot_hub_get client hub_name resource_group_name) (\<lambda>h.
            cli_bind (resourcegroup_of h) (\<lambda>g.
              cli_bind (iot_hub_policy_list client hub_name (Some g)) (\<lambda>listed.
                let policies = [] @ listed
                in if is_policy_existed policies policy_name
                   then cli_raise (AlreadyExists (''Policy '' @ policy_name @ '' already existed.''))
                   else
                     let policies = policies @
                           [\<lparr>pol_key_name = policy_name, pol_rights = rights,
                             pol_primary_key = None, pol_secondary_key = None\<rparr>];
                         h = h\<lparr>h_properties := (h_properties h)\<lparr>hp_authorization_policies := Some policies\<rparr>\<rparr>
                     in cli_bind (resourcegroup_of h) (\<lambda>g. hub_resubmit client g hub_name h)))))"

definition iot_hub_policy_delete ::
  "'s sdk \<Rightarrow> string \<Rightarrow> string \<Rightarrow> string option \<Rightarrow> ('s, poller) cli" where
  "iot_hub_policy_delete client hub_name policy_name resource_group_name =
     cli_bind (iot_hub_get client hub_name resource_group_name) (\<lambda>h.
       cli_bind (resourcegroup_of h) (\<lambda>g.
         cli_bind (iot_hub_policy_list client hub_name (Some g)) (\<lambda>policies.
           if \<not> is_policy_existed policies policy_name
           then cli_raise (NotFound (''Policy '' @ policy_name @ '' not found.''))
           else
             let updated_policies =
                   filter (\<lambda>p. lower (pol_key_name p) \<noteq> lower policy_name) policies;
                 h = h\<lparr>h_properties := (h_properties h)\<lparr>hp_authorization_policies := Some updated_policies\<rparr>\<rparr>
             in cli_bind (resourcegroup_of h) (\<lambda>g. hub_resubmit client g hub_name h))))"

text \<open>
  \<^verbatim>\<open>generateKey\<close> of \<^verbatim>\<open>_utils.py\<close> draws a fresh key; it is a parameter that reads and changes
  the state outside the command and is no client call.
\<close>

definition iot_hub_policy_key_renew ::
  "'s sdk \<Rightarrow> RenewKeyType \<Rightarrow> ('s \<Rightarrow> string \<times> 's) \<Rightarrow> string \<Rightarrow> string \<Rightarrow> string \<Rightarrow> string option
     \<Rightarrow> bool \<Rightarrow> ('s, AccessRights policy returned) cli" where
  "iot_hub_policy_key_renew client RenewKeyType_values generateKey hub_name policy_name regenerate_key
      resource_group_name no_wait =
     cli_bind (iot_hub_get client hub_name resource_group_name) (\<lambda>h.
       cli_bind (resourcegroup_of h) (\<lambda>g.
         cli_bind (iot_hub_policy_list client hub_name (Some g)) (\<lambda>listed.
           let policies = [] @ listed
           in if \<not> is_policy_existed policies policy_name
              then cli_raise (NotFound (''Policy '' @ policy_name @ '' not found.''))
              else
                let updated_policies =
                      filter (\<lambda>p. lower (pol_key_name p) \<noteq> lower policy_name) policies;
                    requested_policy =
                      filter (\<lambda>p. lower (pol_key_name p) = lower policy_name) policies
                in case requested_policy of
                     [] \<Rightarrow> cli_raise IndexError
                   | requested # _ \<Rightarrow>
                       cli_bind
                         (if regenerate_key = Primary RenewKeyType_values
                          then (\<lambda>s. case generateKey s of
                                  (k, s1) \<Rightarrow> (Inr (requested\<lparr>pol_primary_key := Some k\<rparr>), s1, []))
                          else cli_return requested) (\<lambda>requested.
                       cli_bind
                         (if regenerate_key = Secondary RenewKeyType_values
                          then (\<lambda>s. case generateKey s of
                                  (k, s1) \<Rightarrow> (Inr (requested\<lparr>pol_secondary_key := Some k\<rparr>), s1, []))
                          else cli_return requested) (\<lambda>requested.
                         let requested =
                               (if regenerate_key = Swap RenewKeyType_values
                                then (let temp = pol_primary_key requested
                                      in requested\<lparr>pol_primary_key := pol_secondary_key requested,
                                                   pol_secondary_key := temp\<rparr>)
                                else requested);
                             updated_policies = updated_policies @
                               [\<lparr>pol_key_name = pol_key_name requested,
                                 pol_rights = pol_rights requested,
                                 pol_primary_key = pol_primary_key requested,
                                 pol_secondary_key = pol_secondary_key requested\<rparr>];
                             h = h\<lparr>h_properties :=
                                   (h_properties h)\<lparr>hp_authorization_policies := Some updated_policies\<rparr>\<rparr>
                         in cli_bind (resourcegroup_of h) (\<lambda>g.
                              if no_wait
                              then cli_bind (hub_resubmit client g hub_name h) (\<lambda>p. cli_return (NoWait p))
                              else cli_bind (hub_resubmit client g hub_name h) (\<lambda>p.
                                     cli_bind (LongRunningOperation client p) (\<lambda>_.
                                       cli_bind (iot_hub_policy_get client hub_name policy_name
                                                   resource_group_name)
                                         (\<lambda>r. cli_return (Waited r))))))))))"

subsection \<open>Routing of a hub\<close>

text \<open>
  \<^verbatim>\<open>hub.properties.routing\<close> read for one of its attributes: an \<^verbatim>\<open>AttributeError\<close> on a hub
  without routing. \<open>set_routing\<close> is the hub after an assignment below
  \<^verbatim>\<open>hub.properties.routing\<close>.
\<close>

definition routing_of :: "hub \<Rightarrow> ('s, routing) cli" where
  "routing_of h =
     (case hp_routing (h_properties h) of
        None \<Rightarrow> cli_raise AttributeError
      | Some r \<Rightarrow> cli_return r)"

definition set_routing :: "hub \<Rightarrow> routing \<Rightarrow> hub" where
  "set_routing h r = h\<lparr>h_properties := (h_properties h)\<lparr>hp_routing := Some r\<rparr>\<rparr>"

definition iot_hub_routing_endpoint_create ::
  "'s sdk \<Rightarrow> EndpointType \<Rightarrow> string \<Rightarrow> string \<Rightarrow> string \<Rightarrow> string \<Rightarrow> string \<Rightarrow> string \<Rightarrow> string
     \<Rightarrow> string option \<Rightarrow> string option \<Rightarrow> string option \<Rightarrow> int \<Rightarrow> int \<Rightarrow> string \<Rightarrow> ('s, poller) cli" where
  "iot_hub_routing_endpoint_create client EndpointType_values EncodingFormat_AVRO hub_name endpoint_name
      endpoint_type endpoint_resource_group endpoint_subscription_id connection_string container_name
      encoding resource_group_name batch_frequency chunk_size_window file_name_format =
     cli_bind (ensure_resource_group_name client resource_group_name hub_name) (\<lambda>resource_group_name.
       cli_bind (iot_hub_get client hub_name (Some resource_group_name)) (\<lambda>h.
         let new_endpoint =
               \<lparr>ep_name = endpoint_name, ep_connection_string = connection_string,
                ep_subscription_id = endpoint_subscription_id,
                ep_resource_group = endpoint_resource_group\<rparr>
         in cli_bind
              (if EventHub EndpointType_values = lower endpoint_type
               then cli_bind (routing_of h) (\<lambda>r.
                      cli_return (set_routing h (r\<lparr>rp_endpoints :=
                        (rp_endpoints r)\<lparr>event_hubs := event_hubs (rp_endpoints r) @ [new_endpoint]\<rparr>\<rparr>)))
               else if ServiceBusQueue EndpointType_values = lower endpoint_type
               then cli_bind (routing_of h) (\<lambda>r.
                      cli_return (set_routing h (r\<lparr>rp_endpoints :=
                        (rp_endpoints r)\<lparr>service_bus_queues :=
                           service_bus_queues (rp_endpoints r) @ [new_endpoint]\<rparr>\<rparr>)))
               else if ServiceBusTopic EndpointType_values = lower endpoint_type
               then cli_bind (routing_of h) (\<lambda>r.
                      cli_return (set_routing h (r\<lparr>rp_endpoints :=
                        (rp_endpoints r)\<lparr>service_bus_topics :=
                           service_bus_topics (rp_endpoints r) @ [new_endpoint]\<rparr>\<rparr>)))
               else if AzureStorageContainer EndpointType_values = lower endpoint_type
               then (if \<not> truthy container_name
                     then cli_raise (InvalidArgument ''Container name is required.'')
                     else cli_bind (routing_of h) (\<lambda>r.
                       cli_return (set_routing h (r\<lparr>rp_endpoints :=
                         (rp_endpoints r)\<lparr>storage_containers := storage_containers (rp_endpoints r) @
                           [\<lparr>ep_name = endpoint_name, ep_connection_string = connection_string,
                             ep_subscription_id = endpoint_subscription_id,
                             ep_resource_group = endpoint_resource_group,
                             sc_container_name = the container_name,
                             sc_encoding = (if truthy encoding then lower (the encoding)
                                            else EncodingFormat_AVRO),
                             sc_file_name_format = file_name_format,
                             sc_batch_frequency_in_seconds = batch_frequency,
                             sc_max_chunk_size_in_bytes = chunk_size_window * 1048576\<rparr>]\<rparr>\<rparr>))))
               else cli_return h)
              (\<lambda>h. hub_resubmit client resource_group_name hub_name h)))"

text \<open>\<^verbatim>\<open>_delete_routing_endpoints\<close>, statement by statement.\<close>

definition delete_routing_endpoints ::
  "EndpointType \<Rightarrow> string option \<Rightarrow> string option \<Rightarrow> routing_endpoints \<Rightarrow> routing_endpoints" where
  "delete_routing_endpoints EndpointType_values endpoint_name endpoint_type endpoints =
     (let endpoints1 =
            (if truthy endpoint_type
             then (if ServiceBusQueue EndpointType_values = lower (the endpoint_type)
                   then endpoints\<lparr>service_bus_queues := []\<rparr>
                   else if ServiceBusTopic EndpointType_values = lower (the endpoint_type)
                   then endpoints\<lparr>service_bus_topics := []\<rparr>
                   else if AzureStorageContainer EndpointType_values = lower (the endpoint_type)
                   then endpoints\<lparr>storage_containers := []\<rparr>
                   else if EventHub EndpointType_values = lower (the endpoint_type)
                   then endpoints\<lparr>event_hubs := []\<rparr>
                   else endpoints)
             else endpoints);
          endpoints2 =
            (if truthy endpoint_name
             then (if list_ex (\<lambda>e. lower (ep_name e) = lower (the endpoint_name)) (service_bus_queues endpoints1)
                   then endpoints1\<lparr>service_bus_queues :=
                          filter (\<lambda>e. lower (ep_name e) \<noteq> lower (the endpoint_name)) (service_bus_queues endpoints1)\<rparr>
                   else if list_ex (\<lambda>e. lower (ep_name e) = lower (the endpoint_name)) (service_bus_topics endpoints1)
                   then endpoints1\<lparr>service_bus_topics :=
                          filter (\<lambda>e. lower (ep_name e) \<noteq> lower (the endpoint_name)) (service_bus_topics endpoints1)\<rparr>
                   else if list_ex (\<lambda>e. lower (ep_name e) = lower (the endpoint_name)) (storage_containers endpoints1)
                   then endpoints1\<lparr>storage_containers :=
                          filter (\<lambda>e. lower (ep_name e) \<noteq> lower (the endpoint_name)) (storage_containers endpoints1)\<rparr>
                   else if list_ex (\<lambda>e. lower (ep_name e) = lower (the endpoint_name)) (event_hubs endpoints1)
                   then endpoints1\<lparr>event_hubs :=
                          filter (\<lambda>e. lower (ep_name e) \<noteq> lower (the endpoint_name)) (event_hubs endpoints1)\<rparr>
                   else endpoints1)
             else endpoints1);
          endpoints3 =
            (if \<not> truthy endpoint_type \<and> \<not> truthy endpoint_name
             then endpoints2\<lparr>service_bus_queues := [], service_bus_topics := [],
                    storage_containers := [], event_hubs := []\<rparr>
             else endpoints2)
      in endpoints3)"

definition iot_hub_routing_endpoint_delete ::
  "'s sdk \<Rightarrow> EndpointType \<Rightarrow> string \<Rightarrow> string option \<Rightarrow> string option \<Rightarrow> string option
     \<Rightarrow> ('s, poller) cli" where
  "iot_hub_routing_endpoint_delete client EndpointType_values hub_name endpoint_name endpoint_type
      resource_group_name =
     cli_bind (ensure_resource_group_name client resource_group_name hub_name) (\<lambda>resource_group_name.
       cli_bind (iot_hub_get client hub_name (Some resource_group_name)) (\<lambda>h.
         cli_bind (routing_of h) (\<lambda>r.
           let h = set_routing h (r\<lparr>rp_endpoints :=
                     delete_routing_endpoints EndpointType_values endpoint_name endpoint_type (rp_endpoints r)\<rparr>)
           in hub_resubmit client resource_group_name hub_name h)))"

subsection \<open>Routes of a hub\<close>

definition iot_hub_route_create ::
  "'s sdk \<Rightarrow> string \<Rightarrow> string \<Rightarrow> string \<Rightarrow> string \<Rightarrow> bool option \<Rightarrow> string option \<Rightarrow> string option
     \<Rightarrow> ('s, poller) cli" where
  "iot_hub_route_create client hub_name route_name source_type endpoint_name enabled condition
      resource_group_name =
     cli_bind (ensure_resource_group_name client resource_group_name hub_name) (\<lambda>resource_group_name.
       cli_bind (iot_hub_get client hub_name (Some resource_group_name)) (\<lambda>h.
         cli_bind (routing_of h) (\<lambda>r.
           let h = set_routing h (r\<lparr>rp_routes := rp_routes r @
                     [\<lparr>rt_name = route_name,
                       rt_source = source_type,
                       rt_endpoint_names = split endpoint_name,
                       rt_condition = (case condition of None \<Rightarrow> ''true'' | Some c \<Rightarrow> c),
                       rt_is_enabled = (case enabled of None \<Rightarrow> True | Some b \<Rightarrow> b)\<rparr>]\<rparr>)
           in hub_resubmit client resource_group_name hub_name h)))"

definition iot_hub_route_delete ::
  "'s sdk \<Rightarrow> string \<Rightarrow> string option \<Rightarrow> string option \<Rightarrow> string option \<Rightarrow> ('s, poller) cli" where
  "iot_hub_route_delete client hub_name route_name source_type resource_group_name =
     cli_bind (ensure_resource_group_name client resource_group_name hub_name) (\<lambda>resource_group_name.
       cli_bind (iot_hub_get client hub_name (Some resource_group_name)) (\<lambda>h.
         cli_bind (routing_of h) (\<lambda>r.
           let routes1 = (if \<not> truthy route_name \<and> \<not> truthy source_type then [] else rp_routes r);
               routes2 = (if truthy route_name
                          then filter (\<lambda>route. lower (rt_name route) \<noteq> lower (the route_name)) routes1
                          else routes1);
               routes3 = (if truthy source_type
                          then filter (\<lambda>route. lower (rt_source route) \<noteq> lower (the source_type)) routes2
                          else routes2);
               h = set_routing h (r\<lparr>rp_routes := routes3\<rparr>)
           in hub_resubmit client resource_group_name hub_name h)))"

text \<open>The four assignments of \<^verbatim>\<open>iot_hub_route_update\<close> to the route it found.\<close>

definition route_assign ::
  "string option \<Rightarrow> string option \<Rightarrow> bool option \<Rightarrow> string option \<Rightarrow> route \<Rightarrow> route" where
  "route_assign source_type endpoint_name enabled condition updated_route =
     updated_route
       \<lparr>rt_source := (case source_type of None \<Rightarrow> rt_source updated_route | Some s \<Rightarrow> s),
        rt_endpoint_names :=
          (case endpoint_name of None \<Rightarrow> rt_endpoint_names updated_route | Some n \<Rightarrow> split n),
        rt_condition := (case condition of None \<Rightarrow> rt_condition updated_route | Some c \<Rightarrow> c),
        rt_is_enabled := (case enabled of None \<Rightarrow> rt_is_enabled updated_route | Some b \<Rightarrow> b)\<rparr>"

definition iot_hub_route_update ::
  "'s sdk \<Rightarrow> string \<Rightarrow> string \<Rightarrow> string option \<Rightarrow> string option \<Rightarrow> bool option \<Rightarrow> string option
     \<Rightarrow> string option \<Rightarrow> ('s, poller) cli" where
  "iot_hub_route_update client hub_name route_name source_type endpoint_name enabled condition
      resource_group_name =
     cli_bind (ensure_resource_group_name client resource_group_name hub_name) (\<lambda>resource_group_name.
       cli_bind (iot_hub_get client hub_name (Some resource_group_name)) (\<lambda>h.
         cli_bind (routing_of h) (\<lambda>r.
           case update_first (\<lambda>route. lower (rt_name route) = lower route_name)
                  (route_assign source_type endpoint_name enabled condition) (rp_routes r) of
             Some routes \<Rightarrow>
               hub_resubmit client resource_group_name hub_name (set_routing h (r\<lparr>rp_routes := routes\<rparr>))
           | None \<Rightarrow> cli_raise (NotFound ''No route found.''))))"

subsection \<open>Message enrichments of a hub\<close>

definition iot_message_enrichment_create ::
  "'s sdk \<Rightarrow> string \<Rightarrow> string \<Rightarrow> string \<Rightarrow> string list \<Rightarrow> string option \<Rightarrow> ('s, poller) cli" where
  "iot_message_enrichment_create client hub_name key value endpoints resource_group_name =
     cli_bind (ensure_resource_group_name client resource_group_name hub_name) (\<lambda>resource_group_name.
       cli_bind (iot_hub_get client hub_name (Some resource_group_name)) (\<lambda>h.
         cli_bind (routing_of h) (\<lambda>r.
           let enrichments = (case rp_enrichments r of None \<Rightarrow> [] | Some es \<Rightarrow> es);
               h = set_routing h (r\<lparr>rp_enrichments := Some (enrichments @
                     [\<lparr>enr_key = key, enr_value = value, enr_endpoint_names = endpoints\<rparr>])\<rparr>)
           in hub_resubmit client resource_group_name hub_name h)))"

definition iot_message_enrichment_update ::
  "'s sdk \<Rightarrow> string \<Rightarrow> string \<Rightarrow> string \<Rightarrow> string list \<Rightarrow> string option \<Rightarrow> ('s, poller) cli" where
  "iot_message_enrichment_update client hub_name key value endpoints resource_group_name =
     cli_bind (ensure_resource_group_name client resource_group_name hub_name) (\<lambda>resource_group_name.
       cli_bind (iot_hub_get client hub_name (Some resource_group_name)) (\<lambda>h.
         cli_bind (routing_of h) (\<lambda>r.
           case rp_enrichments r of
             None \<Rightarrow> cli_raise TypeError
           | Some es \<Rightarrow>
               (case update_first (\<lambda>endpoint. enr_key endpoint = key)
                       (\<lambda>to_update. to_update\<lparr>enr_key := key, enr_value := value,
                                       enr_endpoint_names := endpoints\<rparr>) es of
                  Some updated \<Rightarrow>
                    hub_resubmit client resource_group_name hub_name
                      (set_routing h (r\<lparr>rp_enrichments := Some updated\<rparr>))
                | None \<Rightarrow> cli_raise (NotFound ''No message enrichment with that key exists'')))))"

definition iot_message_enrichment_delete ::
  "'s sdk \<Rightarrow> string \<Rightarrow> string \<Rightarrow> string option \<Rightarrow> ('s, poller) cli" where
  "iot_message_enrichment_delete client hub_name key resource_group_name =
     cli_bind (ensure_resource_group_name client resource_group_name hub_name) (\<lambda>resource_group_name.
       cli_bind (iot_hub_get client hub_name (Some resource_group_name)) (\<lambda>h.
         cli_bind (routing_of h) (\<lambda>r.
           case rp_enrichments r of
             None \<Rightarrow> cli_raise TypeError
           | Some es \<Rightarrow>
               (case find (\<lambda>endpoint. enr_key endpoint = key) es of
                  Some to_remove \<Rightarrow>
                    hub_resubmit client resource_group_name hub_name
                      (set_routing h (r\<lparr>rp_enrichments := Some (remove1 to_remove es)\<rparr>))
                | None \<Rightarrow> cli_raise (NotFound ''No message enrichment with that key exists'')))))"

subsection \<open>Creating and updating a hub\<close>

definition iot_hub_create ::
  "'s sdk \<Rightarrow> string \<Rightarrow> string \<Rightarrow> string option \<Rightarrow> string \<Rightarrow> int \<Rightarrow> int \<Rightarrow> int \<Rightarrow> int \<Rightarrow> int \<Rightarrow> int \<Rightarrow> int
     \<Rightarrow> int \<Rightarrow> bool \<Rightarrow> int \<Rightarrow> int \<Rightarrow> string option \<Rightarrow> string option \<Rightarrow> int \<Rightarrow> ('s, poller) cli" where
  "iot_hub_create client hub_name resource_group_name location sku unit partition_count retention_day
      c2d_ttl c2d_max_delivery_count feedback_lock_duration feedback_ttl feedback_max_delivery_count
      enable_fileupload_notifications fileupload_notification_max_delivery_count
      fileupload_notification_ttl fileupload_storage_connectionstring
      fileupload_storage_container_name fileupload_sas_ttl =
     (if enable_fileupload_notifications \<and>
         (\<not> truthy fileupload_storage_connectionstring \<or> \<not> truthy fileupload_storage_container_name)
      then cli_raise (InvalidArgument
             ''Please specify storage endpoint(storage connection string and storage container name).'')
      else if truthy fileupload_storage_connectionstring \<and> \<not> truthy fileupload_storage_container_name
      then cli_raise (InvalidArgument ''Please mention storage container name.'')
      else if truthy fileupload_storage_container_name \<and> \<not> truthy fileupload_storage_connectionstring
      then cli_raise (InvalidArgument ''Please mention storage connection string.'')
      else
        cli_bind (check_name_availability client hub_name) (\<lambda>_.
          cli_bind (ensure_location client resource_group_name location) (\<lambda>location.
            let sku = \<lparr>sku_name = sku, sku_capacity = unit\<rparr>;
                event_hub_dic =
                  [''events'' \<mapsto> \<lparr>eh_retention_time_in_days = retention_day,
                                  eh_partition_count = partition_count\<rparr>];
                feedback_Properties =
                  \<lparr>fb_lock_duration_as_iso8601 = timedelta_seconds feedback_lock_duration,
                   fb_ttl_as_iso8601 = timedelta_hours feedback_ttl,
                   fb_max_delivery_count = feedback_max_delivery_count\<rparr>;
                cloud_to_device_properties =
                  \<lparr>ctd_max_delivery_count = c2d_max_delivery_count,
                   ctd_default_ttl_as_iso8601 = timedelta_hours c2d_ttl,
                   ctd_feedback = feedback_Properties\<rparr>;
                msg_endpoint_dic =
                  [''fileNotifications'' \<mapsto>
                     \<lparr>me_max_delivery_count = fileupload_notification_max_delivery_count,
                      me_ttl_as_iso8601 = timedelta_hours fileupload_notification_ttl\<rparr>];
                storage_endpoint_dic =
                  [''$default'' \<mapsto>
                     \<lparr>se_sas_ttl_as_iso8601 = timedelta_hours fileupload_sas_ttl,
                      se_connection_string =
                        (if truthy fileupload_storage_connectionstring
                         then the fileupload_storage_connectionstring else ''''),
                      se_container_name =
                        (if truthy fileupload_storage_container_name
                         then the fileupload_storage_container_name else '''')\<rparr>];
                properties =
                  \<lparr>hp_authorization_policies = None,
                   hp_routing = None,
                   hp_event_hub_endpoints = event_hub_dic,
                   hp_messaging_endpoints = msg_endpoint_dic,
                   hp_storage_endpoints = storage_endpoint_dic,
                   hp_cloud_to_device = cloud_to_device_properties,
                   hp_enable_file_upload_notifications = enable_fileupload_notifications\<rparr>;
                hub_description =
                  \<lparr>h_name = None, h_etag = None, h_location = location, h_sku = sku,
                   h_additional_properties = Map.empty, h_properties = properties\<rparr>
            in invoke (Hub_create_or_update resource_group_name hub_name hub_description None)
                 (hub_create_or_update client resource_group_name hub_name hub_description None))))"

text \<open>
  \<^verbatim>\<open>update_iot_hub_custom\<close> works on the instance that the generic update command has read
  and calls no client: it is a function from the instance to the changed instance or an
  error. Its statements run in the order of the source; \<open>and_then\<close> is the sequencing of
  two statements of which the first may raise.
\<close>

definition and_then :: "error + 'a \<Rightarrow> ('a \<Rightarrow> error + 'b) \<Rightarrow> error + 'b" where
  "and_then r f = (case r of Inl e \<Rightarrow> Inl e | Inr x \<Rightarrow> f x)"

definition lookup :: "('k \<rightharpoonup> 'v) \<Rightarrow> 'k \<Rightarrow> string \<Rightarrow> error + 'v" where
  "lookup m k shown = (case m k of None \<Rightarrow> Inl (KeyError shown) | Some v \<Rightarrow> Inr v)"

definition update_iot_hub_custom ::
  "hub \<Rightarrow> string option \<Rightarrow> int option \<Rightarrow> int option \<Rightarrow> int option \<Rightarrow> int option \<Rightarrow> int option
     \<Rightarrow> int option \<Rightarrow> int option \<Rightarrow> bool option \<Rightarrow> int option \<Rightarrow> int option \<Rightarrow> string option
     \<Rightarrow> string option \<Rightarrow> int option \<Rightarrow> error + hub" where
  "update_iot_hub_custom instance sku unit retention_day c2d_ttl c2d_max_delivery_count
      feedback_lock_duration feedback_ttl feedback_max_delivery_count
      enable_fileupload_notifications fileupload_notification_max_delivery_count
      fileupload_notification_ttl fileupload_storage_connectionstring
      fileupload_storage_container_name fileupload_sas_ttl =
     and_then (Inr (case sku of None \<Rightarrow> instance
                    | Some v \<Rightarrow> instance\<lparr>h_sku := (h_sku instance)\<lparr>sku_name := v\<rparr>\<rparr>)) (\<lambda>i.
     and_then (Inr (case unit of None \<Rightarrow> i
                    | Some v \<Rightarrow> i\<lparr>h_sku := (h_sku i)\<lparr>sku_capacity := v\<rparr>\<rparr>)) (\<lambda>i.
     and_then (case retention_day of None \<Rightarrow> Inr i
               | Some v \<Rightarrow>
                   and_then (lookup (hp_event_hub_endpoints (h_properties i)) ''events'' ''events'') (\<lambda>e.
                     Inr (i\<lparr>h_properties := (h_properties i)\<lparr>hp_event_hub_endpoints :=
                            (hp_event_hub_endpoints (h_properties i))
                              (''events'' \<mapsto> e\<lparr>eh_retention_time_in_days := v\<rparr>)\<rparr>\<rparr>))) (\<lambda>i.
     and_then (Inr (case c2d_ttl of None \<Rightarrow> i
                    | Some v \<Rightarrow> i\<lparr>h_properties := (h_properties i)\<lparr>hp_cloud_to_device :=
                        (hp_cloud_to_device (h_properties i))
                          \<lparr>ctd_default_ttl_as_iso8601 := timedelta_hours v\<rparr>\<rparr>\<rparr>)) (\<lambda>i.
     and_then (Inr (case c2d_max_delivery_count of None \<Rightarrow> i
                    | Some v \<Rightarrow> i\<lparr>h_properties := (h_properties i)\<lparr>hp_cloud_to_device :=
                        (hp_cloud_to_device (h_properties i))\<lparr>ctd_max_delivery_count := v\<rparr>\<rparr>\<rparr>)) (\<lambda>i.
     and_then (Inr (case feedback_lock_duration of None \<Rightarrow> i
                    | Some v \<Rightarrow>
                        (let duration = timedelta_seconds v
                         in i\<lparr>h_properties := (h_properties i)\<lparr>hp_cloud_to_device :=
                              (hp_cloud_to_device (h_properties i))\<lparr>ctd_feedback :=
                                (ctd_feedback (hp_cloud_to_device (h_properties i)))
                                  \<lparr>fb_lock_duration_as_iso8601 := duration\<rparr>\<rparr>\<rparr>\<rparr>))) (\<lambda>i.
     and_then (Inr (case feedback_ttl of None \<Rightarrow> i
                    | Some v \<Rightarrow> i\<lparr>h_properties := (h_properties i)\<lparr>hp_cloud_to_device :=
                        (hp_cloud_to_device (h_properties i))\<lparr>ctd_feedback :=
                          (ctd_feedback (hp_cloud_to_device (h_properties i)))
                            \<lparr>fb_ttl_as_iso8601 := timedelta_hours v\<rparr>\<rparr>\<rparr>\<rparr>)) (\<lambda>i.
     and_then (Inr (case feedback_max_delivery_count of None \<Rightarrow> i
                    | Some v \<Rightarrow> i\<lparr>h_properties := (h_properties i)\<lparr>hp_cloud_to_device :=
                        (hp_cloud_to_device (h_properties i))\<lparr>ctd_feedback :=
                          (ctd_feedback (hp_cloud_to_device (h_properties i)))
                            \<lparr>fb_max_delivery_count := v\<rparr>\<rparr>\<rparr>\<rparr>)) (\<lambda>i.
     and_then (Inr (case enable_fileupload_notifications of None \<Rightarrow> i
                    | Some v \<Rightarrow> i\<lparr>h_properties := (h_properties i)
                        \<lparr>hp_enable_file_upload_notifications := v\<rparr>\<rparr>)) (\<lambda>i.
     and_then (case fileupload_notification_max_delivery_count of None \<Rightarrow> Inr i
               | Some v \<Rightarrow>
                   (let count = v
                    in and_then (lookup (hp_messaging_endpoints (h_properties i))
                                   ''fileNotifications'' ''fileNotifications'') (\<lambda>m.
                         Inr (i\<lparr>h_properties := (h_properties i)\<lparr>hp_messaging_endpoints :=
                                (hp_messaging_endpoints (h_properties i))
                                  (''fileNotifications'' \<mapsto> m\<lparr>me_max_delivery_count := count\<rparr>)\<rparr>\<rparr>)))) (\<lambda>i.
     and_then (case fileupload_notification_ttl of None \<Rightarrow> Inr i
               | Some v \<Rightarrow>
                   (let ttl = timedelta_hours v
                    in and_then (lookup (hp_messaging_endpoints (h_properties i))
                                   ''fileNotifications'' ''fileNotifications'') (\<lambda>m.
                         Inr (i\<lparr>h_properties := (h_properties i)\<lparr>hp_messaging_endpoints :=
                                (hp_messaging_endpoints (h_properties i))
                                  (''fileNotifications'' \<mapsto> m\<lparr>me_ttl_as_iso8601 := ttl\<rparr>)\<rparr>\<rparr>)))) (\<lambda>i.
     and_then (if fileupload_storage_connectionstring \<noteq> None \<and> fileupload_storage_container_name \<noteq> None
               then and_then (lookup (hp_storage_endpoints (h_properties i)) ''$default'' ''$default'') (\<lambda>d.
                      Inr (i\<lparr>h_properties := (h_properties i)\<lparr>hp_storage_endpoints :=
                             (hp_storage_endpoints (h_properties i))
                               (''$default'' \<mapsto>
                                  d\<lparr>se_connection_string := the fileupload_storage_connectionstring,
                                    se_container_name := the fileupload_storage_container_name\<rparr>)\<rparr>\<rparr>))
               else if fileupload_storage_connectionstring \<noteq> None
               then Inl (InvalidArgument ''Please mention storage container name.'')
               else if fileupload_storage_container_name \<noteq> None
               then Inl (InvalidArgument ''Please mention storage connection string.'')
               else Inr i) (\<lambda>i.
     and_then (case fileupload_sas_ttl of None \<Rightarrow> Inr i
               | Some v \<Rightarrow>
                   and_then (lookup (hp_storage_endpoints (h_properties i)) ''$default'' ''$default'') (\<lambda>d.
                     Inr (i\<lparr>h_properties := (h_properties i)\<lparr>hp_storage_endpoints :=
                            (hp_storage_endpoints (h_properties i))
                              (''$default'' \<mapsto> d\<lparr>se_sas_ttl_as_iso8601 := timedelta_hours v\<rparr>)\<rparr>\<rparr>)))
       (\<lambda>i. Inr i)))))))))))))"

definition iot_hub_update :: "'s sdk \<Rightarrow> string \<Rightarrow> hub \<Rightarrow> string option \<Rightarrow> ('s, poller) cli" where
  "iot_hub_update client hub_name parameters resource_group_name =
     cli_bind (ensure_resource_group_name client resource_group_name hub_name) (\<lambda>resource_group_name.
       hub_resubmit client resource_group_name hub_name parameters)"

section \<open>Reading a run of a command\<close>

text \<open>
  \<open>emits P m\<close>: every client call that the command \<open>m\<close> makes, from whatever state of the
  service, satisfies \<open>P\<close>.
\<close>

definition emits :: "(call \<Rightarrow> bool) \<Rightarrow> ('s, 'a) cli \<Rightarrow> bool" where
  "emits P m = (\<forall>s. list_all P (calls (m s)))"

text \<open>The hubs and the provisioning-service descriptions that a run resubmitted, in order.\<close>

fun resubmitted_hub :: "call \<Rightarrow> hub option" where
  "resubmitted_hub (Hub_create_or_update g n h headers) = Some h"
| "resubmitted_hub _ = None"

definition resubmitted_hubs :: "call list \<Rightarrow> hub list" where
  "resubmitted_hubs t = List.map_filter resubmitted_hub t"

fun resubmitted_description :: "call \<Rightarrow> dps option" where
  "resubmitted_description (Dps_create_or_update g n d headers) = Some d"
| "resubmitted_description _ = None"

definition resubmitted_descriptions :: "call list \<Rightarrow> dps list" where
  "resubmitted_descriptions t = List.map_filter resubmitted_description t"

text \<open>
  The two reads that every command on the routing of a hub starts with: the resource group
  is resolved, then the hub is read from it.
\<close>

definition fetch_hub :: "'s sdk \<Rightarrow> string \<Rightarrow> string option \<Rightarrow> ('s, string \<times> hub) cli" where
  "fetch_hub client hub_name resource_group_name =
     cli_bind (ensure_resource_group_name client resource_group_name hub_name) (\<lambda>g.
       cli_bind (iot_hub_get client hub_name (Some g)) (\<lambda>h. cli_return (g, h)))"

text \<open>
  The reads that the two commands on the policies of a hub start with: the hub, its
  resource group, the list of its policies.
\<close>

definition fetch_hub_policies ::
  "'s sdk \<Rightarrow> string \<Rightarrow> string option \<Rightarrow> ('s, string \<times> hub \<times> AccessRights policy list) cli" where
  "fetch_hub_policies client hub_name resource_group_name =
     cli_bind (iot_hub_get client hub_name resource_group_name) (\<lambda>h.
       cli_bind (resourcegroup_of h) (\<lambda>g.
         cli_bind (iot_hub_policy_list client hub_name (Some g)) (\<lambda>listed. cli_return (g, h, listed))))"

text \<open>Entries whose name is the given one up to the case of letters, and the others.\<close>

definition named :: "string \<Rightarrow> 'a endpoint_scheme list \<Rightarrow> bool" where
  "named n es = list_ex (\<lambda>e. lower (ep_name e) = lower n) es"

definition unnamed :: "string \<Rightarrow> 'a endpoint_scheme list \<Rightarrow> 'a endpoint_scheme list" where
  "unnamed n es = filter (\<lambda>e. lower (ep_name e) \<noteq> lower n) es"

text \<open>
  \<open>refused m r\<close>: the result \<open>r\<close> of \<open>update_iot_hub_custom\<close> is a failure, either the
  \<open>InvalidArgument\<close> with the message \<open>m\<close> or the \<^verbatim>\<open>KeyError\<close> of an instance that lacks the
  entry \<^verbatim>\<open>events\<close> or \<^verbatim>\<open>fileNotifications\<close> of its dictionaries.
\<close>

definition refused :: "string \<Rightarrow> error + hub \<Rightarrow> bool" where
  "refused m r =
     (case r of
        Inl (InvalidArgument m') \<Rightarrow> m' = m
      | Inl (KeyError k) \<Rightarrow> k = ''events'' \<or> k = ''fileNotifications''
      | _ \<Rightarrow> False)"

section \<open>A small service to run the commands on\<close>

text \<open>
  One hub \<open>hub1\<close> and one provisioning service \<open>dps1\<close> in the resource group \<open>rg1\<close>. The
  state of the service counts the operations it has started; every read answers with the
  same resources.
\<close>

definition demo_types :: EndpointType where
  "demo_types =
     \<lparr>EventHub = ''eventhub'', ServiceBusQueue = ''servicebusqueue'',
      ServiceBusTopic = ''servicebustopic'', AzureStorageContainer = ''azurestoragecontainer''\<rparr>"

definition demo_endpoint :: "string \<Rightarrow> endpoint" where
  "demo_endpoint n =
     \<lparr>ep_name = n, ep_connection_string = ''Endpoint=sb://x'', ep_subscription_id = ''sub1'',
      ep_resource_group = ''rg1''\<rparr>"

definition demo_endpoints :: routing_endpoints where
  "demo_endpoints =
     \<lparr>service_bus_queues = [demo_endpoint ''Q1''], service_bus_topics = [],
      event_hubs = [demo_endpoint ''E1'', demo_endpoint ''E2''], storage_containers = []\<rparr>"

definition demo_route :: route where
  "demo_route =
     \<lparr>rt_name = ''route1'', rt_source = ''DeviceMessages'', rt_endpoint_names = [''E1''],
      rt_condition = ''true'', rt_is_enabled = True\<rparr>"

definition demo_enrichment :: enrichment where
  "demo_enrichment = \<lparr>enr_key = ''k1'', enr_value = ''v1'', enr_endpoint_names = [''E1'']\<rparr>"

definition demo_routing :: routing where
  "demo_routing =
     \<lparr>rp_endpoints = demo_endpoints, rp_routes = [demo_route],
      rp_enrichments = Some [demo_enrichment]\<rparr>"

definition demo_hub :: hub where
  "demo_hub =
     \<lparr>h_name = Some ''hub1'', h_etag = Some ''AAAAAAAAAAA='', h_location = ''westus'',
      h_sku = \<lparr>sku_name = ''S1'', sku_capacity = 1\<rparr>,
      h_additional_properties = [''resourcegroup'' \<mapsto> ''rg1''],
      h_properties =
        \<lparr>hp_authorization_policies = None,
         hp_routing = Some demo_routing,
         hp_event_hub_endpoints =
           [''events'' \<mapsto> \<lparr>eh_retention_time_in_days = 1, eh_partition_count = 4\<rparr>],
         hp_messaging_endpoints =
           [''fileNotifications'' \<mapsto>
              \<lparr>me_max_delivery_count = 10, me_ttl_as_iso8601 = timedelta_hours 1\<rparr>],
         hp_storage_endpoints =
           [''$default'' \<mapsto>
              \<lparr>se_sas_ttl_as_iso8601 = timedelta_hours 1, se_connection_string = '''',
               se_container_name = ''''\<rparr>],
         hp_cloud_to_device =
           \<lparr>ctd_max_delivery_count = 10, ctd_default_ttl_as_iso8601 = timedelta_hours 1,
            ctd_feedback =
              \<lparr>fb_lock_duration_as_iso8601 = timedelta_seconds 5,
               fb_ttl_as_iso8601 = timedelta_hours 1, fb_max_delivery_count = 10\<rparr>\<rparr>,
         hp_enable_file_upload_notifications = False\<rparr>\<rparr>"

definition demo_hub_policy :: "AccessRights policy" where
  "demo_hub_policy =
     \<lparr>pol_key_name = ''iothubowner'',
      pol_rights = registry_read_registry_write_service_connect_device_connect,
      pol_primary_key = Some ''P'', pol_secondary_key = Some ''S''\<rparr>"

definition demo_dps_policy :: "string policy" where
  "demo_dps_policy =
     \<lparr>pol_key_name = ''policy1'', pol_rights = ''ServiceConfig'',
      pol_primary_key = Some ''A'', pol_secondary_key = Some ''B''\<rparr>"

definition demo_linked_hub :: linked_hub where
  "demo_linked_hub =
     \<lparr>lh_name = Some ''hub1.azure-devices.net'', lh_connection_string = ''HostName=hub1'',
      lh_location = ''westus'', lh_apply_allocation_policy = Some True,
      lh_allocation_weight = Some 1\<rparr>"

definition demo_dps :: dps where
  "demo_dps =
     \<lparr>d_name = Some ''dps1'', d_etag = Some ''BBBBBBBBBBB='', d_location = ''westus'',
      d_properties =
        \<lparr>dp_iot_hubs = [demo_linked_hub], dp_allocation_policy = ''Hashed'',
         dp_authorization_policies = [demo_dps_policy]\<rparr>,
      d_sku = \<lparr>sku_name = ''S1'', sku_capacity = 1\<rparr>\<rparr>"

definition demo_sdk :: "nat sdk" where
  "demo_sdk =
     \<lparr>dps_list_by_subscription = (\<lambda>s. (Inr (Some [demo_dps]), s)),
      dps_list_by_resource_group = (\<lambda>g s. (Inr (Some [demo_dps]), s)),
      dps_get = (\<lambda>n g s. (Inr demo_dps, s)),
      dps_list_keys = (\<lambda>n g s. (Inr [demo_dps_policy], s)),
      dps_list_keys_for_key_name = (\<lambda>n k g s. (Inr demo_dps_policy, s)),
      dps_create_or_update = (\<lambda>g n d headers s. (Inr (Poller s), Suc s)),
      dps_set_api_version = (\<lambda>v s. s),
      hub_list_by_subscription = (\<lambda>s. (Inr (Some [demo_hub]), s)),
      hub_list_by_resource_group = (\<lambda>g s. (Inr (Some [demo_hub]), s)),
      hub_check_name_availability =
        (\<lambda>n s. (Inr (Some \<lparr>na_name_available = False, na_message = ''in use''\<rparr>), s)),
      hub_get = (\<lambda>g n s. (Inr demo_hub, s)),
      hub_list_keys = (\<lambda>g n s. (Inr [demo_hub_policy], s)),
      hub_get_keys_for_key_name = (\<lambda>g n k s. (Inr demo_hub_policy, s)),
      hub_create_or_update = (\<lambda>g n h headers s. (Inr (Poller s), Suc s)),
      resource_groups_check_existence = (\<lambda>g s. (Inr True, s)),
      resource_groups_get = (\<lambda>g s. (Inr \<lparr>rg_location = ''westus''\<rparr>, s)),
      long_running_operation = (\<lambda>p s. (Inr (), s))\<rparr>"

text \<open>
  A subscription that lists three hubs and three provisioning services: one of another
  name first, then two whose names differ in case only.
\<close>

definition demo_hubs :: "hub list" where
  "demo_hubs =
     [demo_hub\<lparr>h_name := Some ''hub0''\<rparr>, demo_hub,
      demo_hub\<lparr>h_name := Some ''HUB1'', h_location := ''eastus''\<rparr>]"

definition demo_services :: "dps list" where
  "demo_services =
     [demo_dps\<lparr>d_name := Some ''dps0''\<rparr>, demo_dps,
      demo_dps\<lparr>d_name := Some ''DPS1'', d_location := ''eastus''\<rparr>]"

definition demo_subscription :: "nat sdk" where
  "demo_subscription =
     demo_sdk\<lparr>hub_list_by_subscription := (\<lambda>s. (Inr (Some demo_hubs), s)),
              dps_list_by_subscription := (\<lambda>s. (Inr (Some demo_services), s))\<rparr>"

text \<open>Endpoints of one name in two lists: a queue and an event hub both called \<open>Q1\<close>.\<close>

definition demo_endpoints_twice :: routing_endpoints where
  "demo_endpoints_twice =
     \<lparr>service_bus_queues = [demo_endpoint ''Q1''], service_bus_topics = [],
      event_hubs = [demo_endpoint ''Q1''], storage_containers = []\<rparr>"



section \<open>Laws of sequencing and of the record of calls\<close>

lemma cli_bind_return: "cli_bind (cli_return x) f = f x"
  by (rule ext) (simp add: cli_bind_def cli_return_def split: prod.splits)

lemma cli_bind_raise: "cli_bind (cli_raise e) f = cli_raise e"
  by (rule ext) (simp add: cli_bind_def cli_raise_def)

lemma cli_bind_assoc: "cli_bind (cli_bind m f) g = cli_bind m (\<lambda>x. cli_bind (f x) g)"
  by (rule ext) (simp add: cli_bind_def split: prod.splits sum.splits)

lemma run_bind_ok:
  "m s = (Inr x, s1, t1) \<Longrightarrow> cli_bind m f s = (case f x s1 of (r, s2, t2) \<Rightarrow> (r, s2, t1 @ t2))"
  by (simp add: cli_bind_def)

lemma run_bind_err: "m s = (Inl e, s1, t1) \<Longrightarrow> cli_bind m f s = (Inl e, s1, t1)"
  by (simp add: cli_bind_def)

lemma emits_return: "emits P (cli_return x)"
  by (simp add: emits_def cli_return_def calls_def)

lemma emits_raise: "emits P (cli_raise e)"
  by (simp add: emits_def cli_raise_def calls_def)

lemma emits_invoke: "P c \<Longrightarrow> emits P (invoke c method)"
  by (simp add: emits_def invoke_def calls_def split: prod.splits)

lemma emits_bind:
  assumes "emits P m" and "\<And>x. emits P (f x)"
  shows "emits P (cli_bind m f)"
proof -
  have "list_all P (calls (cli_bind m f s))" for s
  proof (cases "m s")
    case (fields r s1 t1)
    have "list_all P (calls (m s))"
      using assms(1) by (simp add: emits_def)
    then have t1: "list_all P t1"
      using fields by (simp add: calls_def)
    show ?thesis
    proof (cases r)
      case (Inl e)
      then show ?thesis
        using fields t1 by (simp add: cli_bind_def calls_def)
    next
      case (Inr x)
      obtain r2 s2 t2 where f: "f x s1 = (r2, s2, t2)"
        by (cases "f x s1")
      have "list_all P (calls (f x s1))"
        using assms(2) [of x] by (simp add: emits_def)
      then have "list_all P t2"
        using f by (simp add: calls_def)
      then show ?thesis
        using fields Inr f t1 by (simp add: cli_bind_def calls_def)
    qed
  qed
  then show ?thesis
    by (simp add: emits_def)
qed

lemmas emits_intros = emits_return emits_raise emits_invoke emits_bind

lemma emits_calls: "emits P m \<Longrightarrow> m s = (r, s1, t1) \<Longrightarrow> list_all P t1"
  by (auto simp: emits_def calls_def dest: spec [of _ s])

lemma no_resubmission_hubs:
  "list_all (\<lambda>c. \<not> is_resubmission c) t \<Longrightarrow> resubmitted_hubs t = []"
  by (induction t) (auto simp: resubmitted_hubs_def List.map_filter_simps elim: is_resubmission.elims split: option.splits)

lemma resubmitted_hubs_append: "resubmitted_hubs (t @ u) = resubmitted_hubs t @ resubmitted_hubs u"
  by (simp add: resubmitted_hubs_def List.map_filter_def)

lemma emits_fetch_hub: "emits (\<lambda>c. \<not> is_resubmission c) (fetch_hub client n g)"
  by (auto simp: fetch_hub_def ensure_resource_group_name_def get_iot_hub_by_name_def iot_hub_list_def
      iot_hub_get_def ensure_resource_group_existence_def resourcegroup_of_def
      intro!: emits_intros split: option.splits sum.splits)

lemma iot_hub_routing_endpoint_delete_fetch:
  "iot_hub_routing_endpoint_delete client ET hub_name endpoint_name endpoint_type resource_group_name =
     cli_bind (fetch_hub client hub_name resource_group_name) (\<lambda>(g, h).
       cli_bind (routing_of h) (\<lambda>r.
         hub_resubmit client g hub_name
           (set_routing h (r\<lparr>rp_endpoints :=
              delete_routing_endpoints ET endpoint_name endpoint_type (rp_endpoints r)\<rparr>))))"
  by (simp add: iot_hub_routing_endpoint_delete_def fetch_hub_def cli_bind_assoc cli_bind_return)

lemma calls_hub_resubmit:
  "calls (hub_resubmit client g n h s) = [Hub_create_or_update g n h (Some [(''IF-MATCH'', h_etag h)])]"
  by (simp add: hub_resubmit_def invoke_def calls_def split: prod.splits)

lemma no_resubmission_descriptions:
  "list_all (\<lambda>c. \<not> is_resubmission c) t \<Longrightarrow> resubmitted_descriptions t = []"
  by (induction t)
     (auto simp: resubmitted_descriptions_def List.map_filter_simps elim: is_resubmission.elims
       split: option.splits)

lemma resubmitted_descriptions_append:
  "resubmitted_descriptions (t @ u) = resubmitted_descriptions t @ resubmitted_descriptions u"
  by (simp add: resubmitted_descriptions_def List.map_filter_def)

lemma calls_bind:
  "calls (cli_bind m f s) =
     (case m s of (Inl e, s1, t1) \<Rightarrow> t1 | (Inr x, s1, t1) \<Rightarrow> t1 @ calls (f x s1))"
  by (simp add: cli_bind_def calls_def split: prod.splits sum.splits)

lemma calls_bind_invoke:
  "calls (cli_bind (invoke c method) f s) =
     (case method s of (Inl e, s1) \<Rightarrow> [c] | (Inr x, s1) \<Rightarrow> c # calls (f x s1))"
  by (simp add: cli_bind_def invoke_def calls_def split: prod.splits sum.splits)

lemma quiet_descriptions:
  "emits (\<lambda>c. \<not> is_resubmission c) m \<Longrightarrow> resubmitted_descriptions (calls (m s)) = []"
  by (simp add: emits_def no_resubmission_descriptions)

lemma quiet_hubs:
  "emits (\<lambda>c. \<not> is_resubmission c) m \<Longrightarrow> resubmitted_hubs (calls (m s)) = []"
  by (simp add: emits_def no_resubmission_hubs)

lemma calls_extend: "calls (case x of (r, s, t) \<Rightarrow> (r, s, f t)) = f (calls x)"
  by (simp add: calls_def split: prod.splits)

lemma outcome_extend: "outcome (case x of (r, s, t) \<Rightarrow> (r, s, f t)) = outcome x"
  by (simp add: outcome_def split: prod.splits)

section \<open>Deleting routing endpoints\<close>

lemma routing_endpoint_delete_resubmits:
  assumes "fetch_hub client hub_name resource_group_name s = (Inr (g, h), s1, t1)"
    and "hp_routing (h_properties h) = Some r"
  shows "resubmitted_hubs (calls (iot_hub_routing_endpoint_delete client ET hub_name endpoint_name
             endpoint_type resource_group_name s)) =
           [set_routing h (r\<lparr>rp_endpoints :=
              delete_routing_endpoints ET endpoint_name endpoint_type (rp_endpoints r)\<rparr>)]"
proof -
  have quiet: "resubmitted_hubs t1 = []"
    using emits_calls [OF emits_fetch_hub assms(1)] by (rule no_resubmission_hubs)
  show ?thesis
    using assms quiet
    by (simp add: iot_hub_routing_endpoint_delete_fetch cli_bind_def routing_of_def
        cli_return_def hub_resubmit_def invoke_def calls_def resubmitted_hubs_append
        split: prod.splits)
       (simp add: resubmitted_hubs_def List.map_filter_simps)
qed

lemma delete_by_name_only:
  assumes "truthy endpoint_name"
  shows "delete_routing_endpoints ET endpoint_name None endpoints =
     (if named (the endpoint_name) (service_bus_queues endpoints)
      then endpoints\<lparr>service_bus_queues := unnamed (the endpoint_name) (service_bus_queues endpoints)\<rparr>
      else if named (the endpoint_name) (service_bus_topics endpoints)
      then endpoints\<lparr>service_bus_topics := unnamed (the endpoint_name) (service_bus_topics endpoints)\<rparr>
      else if named (the endpoint_name) (storage_containers endpoints)
      then endpoints\<lparr>storage_containers := unnamed (the endpoint_name) (storage_containers endpoints)\<rparr>
      else if named (the endpoint_name) (event_hubs endpoints)
      then endpoints\<lparr>event_hubs := unnamed (the endpoint_name) (event_hubs endpoints)\<rparr>
      else endpoints)"
  using assms by (simp add: delete_routing_endpoints_def named_def unnamed_def)

lemma delete_by_both:
  assumes "truthy endpoint_name" and "truthy endpoint_type"
  shows "delete_routing_endpoints ET endpoint_name endpoint_type endpoints =
           delete_routing_endpoints ET endpoint_name None
             (delete_routing_endpoints ET None endpoint_type endpoints)"
  using assms by (simp add: delete_routing_endpoints_def)

lemma next_by_name_find:
  "list_all (\<lambda>x. name_of x \<noteq> None) xs \<Longrightarrow>
   next_by_name name_of n xs = Inr (find (\<lambda>x. map_option lower (name_of x) = Some (lower n)) xs)"
  by (induction xs) auto

lemma iot_hub_route_delete_fetch:
  "iot_hub_route_delete client hub_name route_name source_type resource_group_name =
     cli_bind (fetch_hub client hub_name resource_group_name) (\<lambda>(g, h).
       cli_bind (routing_of h) (\<lambda>r.
           let routes1 = (if \<not> truthy route_name \<and> \<not> truthy source_type then [] else rp_routes r);
               routes2 = (if truthy route_name
                          then filter (\<lambda>route. lower (rt_name route) \<noteq> lower (the route_name)) routes1
                          else routes1);
               routes3 = (if truthy source_type
                          then filter (\<lambda>route. lower (rt_source route) \<noteq> lower (the source_type)) routes2
                          else routes2);
               h = set_routing h (r\<lparr>rp_routes := routes3\<rparr>)
           in hub_resubmit client g hub_name h))"
  by (simp add: iot_hub_route_delete_def fetch_hub_def cli_bind_assoc cli_bind_return)

lemma run_hub_resubmit:
  "hub_resubmit client g n h s =
     (fst (hub_create_or_update client g n h (Some [(''IF-MATCH'', h_etag h)]) s),
      snd (hub_create_or_update client g n h (Some [(''IF-MATCH'', h_etag h)]) s),
      [Hub_create_or_update g n h (Some [(''IF-MATCH'', h_etag h)])])"
  by (simp add: hub_resubmit_def invoke_def split: prod.splits)

section \<open>Commands on a provisioning service\<close>

lemma emits_iot_dps_get: "emits (\<lambda>c. \<not> is_resubmission c) (iot_dps_get client n g)"
  by (auto simp: iot_dps_get_def get_iot_dps_by_name_def iot_dps_list_def
      intro!: emits_intros split: option.splits sum.splits)

lemma emits_iot_dps_access_policy_list:
  "emits (\<lambda>c. \<not> is_resubmission c) (iot_dps_access_policy_list client n g)"
  by (auto simp: iot_dps_access_policy_list_def intro!: emits_intros emits_iot_dps_get)

lemma emits_iot_dps_access_policy_get:
  "emits (\<lambda>c. \<not> is_resubmission c) (iot_dps_access_policy_get client n g k)"
  by (auto simp: iot_dps_access_policy_get_def intro!: emits_intros emits_iot_dps_get)

lemma emits_iot_dps_linked_hub_list:
  "emits (\<lambda>c. \<not> is_resubmission c) (iot_dps_linked_hub_list client n g)"
  by (auto simp: iot_dps_linked_hub_list_def intro!: emits_intros emits_iot_dps_get)

lemma emits_iot_dps_linked_hub_get:
  "emits (\<lambda>c. \<not> is_resubmission c) (iot_dps_linked_hub_get client n g k)"
  by (auto simp: iot_dps_linked_hub_get_def intro!: emits_intros emits_iot_dps_get split: option.splits)

lemma emits_after_submit:
  assumes "emits (\<lambda>c. \<not> is_resubmission c) read_back"
  shows "emits (\<lambda>c. \<not> is_resubmission c)
           (cli_bind (LongRunningOperation client p) (\<lambda>_. cli_bind read_back (\<lambda>r. cli_return (Waited r))))"
  using assms by (auto simp: LongRunningOperation_def intro!: emits_intros)

lemma dps_submit_calls:
  assumes "emits (\<lambda>c. \<not> is_resubmission c) read_back"
  shows "resubmitted_descriptions (calls (dps_submit client g n description no_wait read_back s)) =
           [description]"
proof -
  have first: "resubmitted_descriptions [Dps_create_or_update g n description None] = [description]"
    by (simp add: resubmitted_descriptions_def List.map_filter_simps)
  have rest: "resubmitted_descriptions (calls (cli_bind (LongRunningOperation client p)
         (\<lambda>_. cli_bind read_back (\<lambda>r. cli_return (Waited r))) s1)) = []" for p s1
    using emits_after_submit [OF assms] by (rule quiet_descriptions)
  have none: "calls (cli_return x s1) = []" for x :: "'c returned" and s1 :: 'a
    by (simp add: cli_return_def calls_def)
  show ?thesis
    using first rest [unfolded resubmitted_descriptions_def]
    by (simp add: dps_submit_def calls_bind_invoke none resubmitted_descriptions_def
        List.map_filter_simps split: prod.splits sum.splits)
qed

lemma access_policy_update_run:
  assumes "iot_dps_access_policy_list client dps_name g s = (Inr listed, s1, t1)"
    and "is_policy_existed listed access_policy_name"
    and "iot_dps_get client dps_name (Some g) s1 = (Inr d, s2, t2)"
  shows "iot_dps_access_policy_update client dps_name g access_policy_name primary_key secondary_key
           rights no_wait s =
         (case dps_submit client g dps_name
                 (dps_description_of d
                    \<lparr>dp_iot_hubs = dp_iot_hubs (d_properties d),
                     dp_allocation_policy = dp_allocation_policy (d_properties d),
                     dp_authorization_policies =
                       map (access_policy_assign access_policy_name primary_key secondary_key rights)
                         listed\<rparr>)
                 no_wait (iot_dps_access_policy_get client dps_name g access_policy_name) s2 of
            (r, s3, t3) \<Rightarrow> (r, s3, t1 @ t2 @ t3))"
  using assms
  by (simp add: iot_dps_access_policy_update_def cli_bind_def split: prod.splits)

lemma linked_hub_update_run:
  assumes "iot_dps_linked_hub_list client dps_name g s = (Inr listed, s1, t1)"
    and "is_linked_hub_existed listed linked_hub = Inr True"
    and "iot_dps_get client dps_name (Some g) s1 = (Inr d, s2, t2)"
  shows "iot_dps_linked_hub_update client dps_name g linked_hub apply_allocation_policy
           allocation_weight no_wait s =
         (case dps_submit client g dps_name
                 (dps_description_of d
                    \<lparr>dp_iot_hubs =
                       map (linked_hub_assign linked_hub apply_allocation_policy allocation_weight) listed,
                     dp_allocation_policy = dp_allocation_policy (d_properties d),
                     dp_authorization_policies = dp_authorization_policies (d_properties d)\<rparr>)
                 no_wait (iot_dps_linked_hub_get client dps_name g linked_hub) s2 of
            (r, s3, t3) \<Rightarrow> (r, s3, t1 @ t2 @ t3))"
  using assms
  by (simp add: iot_dps_linked_hub_update_def cli_bind_def split: prod.splits)

lemma access_policy_assign_other:
  "access_policy_name \<notin> set (map pol_key_name listed) \<Longrightarrow>
   map (access_policy_assign access_policy_name primary_key secondary_key rights) listed = listed"
  by (induction listed) (auto simp: access_policy_assign_def)

lemma linked_hub_assign_other:
  "Some linked_hub \<notin> set (map lh_name listed) \<Longrightarrow>
   map (linked_hub_assign linked_hub apply_allocation_policy allocation_weight) listed = listed"
  by (induction listed) (auto simp: linked_hub_assign_def)

lemma demo_dps_reads:
  "iot_dps_get demo_sdk ''dps1'' (Some ''rg1'') s = (Inr demo_dps, s, [Dps_get ''dps1'' ''rg1''])"
  "iot_dps_access_policy_list demo_sdk ''dps1'' ''rg1'' s =
     (Inr [demo_dps_policy], s, [Dps_get ''dps1'' ''rg1'', Dps_list_keys ''dps1'' ''rg1''])"
  "iot_dps_linked_hub_list demo_sdk ''dps1'' ''rg1'' s =
     (Inr [demo_linked_hub], s, [Dps_get ''dps1'' ''rg1''])"
  by (simp_all add: iot_dps_get_def iot_dps_access_policy_list_def iot_dps_linked_hub_list_def
      cli_bind_def cli_return_def invoke_def demo_sdk_def demo_dps_def)

lemma demo_dps_submit_no_wait:
  "dps_submit demo_sdk g n description True read_back s =
     (Inr (NoWait (Poller s)), Suc s, [Dps_create_or_update g n description None])"
  by (simp add: dps_submit_def cli_bind_def cli_return_def invoke_def demo_sdk_def)

lemma demo_case_variants:
  "is_policy_existed [demo_dps_policy] ''Policy1''"
  "''Policy1'' \<notin> set (map pol_key_name [demo_dps_policy])"
  "is_linked_hub_existed [demo_linked_hub] ''HUB1.azure-devices.net'' = Inr True"
  "Some ''HUB1.azure-devices.net'' \<notin> set (map lh_name [demo_linked_hub])"
  by (simp_all add: is_policy_existed_def is_linked_hub_existed_def demo_dps_policy_def
      demo_linked_hub_def lower_def lower_char_def)

lemma and_then_Inr: "and_then (Inr x) f = f x"
  by (simp add: and_then_def)

lemma refused_and_then:
  assumes "\<And>e. r = Inl e \<Longrightarrow> refused m (Inl e)" and "\<And>x. refused m (f x)"
  shows "refused m (and_then r f)"
  using assms by (cases r) (simp_all add: and_then_def)

lemma refused_lookup:
  "lookup d k k = Inl e \<Longrightarrow> k = ''events'' \<or> k = ''fileNotifications'' \<Longrightarrow> refused m (Inl e)"
  by (auto simp: lookup_def refused_def split: option.splits)

lemma refused_step:
  "(case v of None \<Rightarrow> Inr i | Some x \<Rightarrow> and_then (lookup d k k) (g x)) = Inl e \<Longrightarrow>
   (\<And>x y. g x y \<noteq> Inl e) \<Longrightarrow> k = ''events'' \<or> k = ''fileNotifications'' \<Longrightarrow> refused m (Inl e)"
  by (auto simp: lookup_def refused_def and_then_def split: option.splits)

lemma update_refuses_half_a_storage_endpoint:
  assumes "(fileupload_storage_connectionstring \<noteq> None) \<noteq> (fileupload_storage_container_name \<noteq> None)"
  shows "refused
           (if fileupload_storage_connectionstring \<noteq> None
            then ''Please mention storage container name.''
            else ''Please mention storage connection string.'')
           (update_iot_hub_custom instance sku unit retention_day c2d_ttl c2d_max_delivery_count
              feedback_lock_duration feedback_ttl feedback_max_delivery_count
              enable_fileupload_notifications fileupload_notification_max_delivery_count
              fileupload_notification_ttl fileupload_storage_connectionstring
              fileupload_storage_container_name fileupload_sas_ttl)"
  unfolding update_iot_hub_custom_def
  apply (rule refused_and_then, simp)
  apply (rule refused_and_then, simp)
  apply (rule refused_and_then)
   apply (auto simp: lookup_def refused_def and_then_def split: option.splits)[1]
  apply (rule refused_and_then, simp)
  apply (rule refused_and_then, simp)
  apply (rule refused_and_then, simp)
  apply (rule refused_and_then, simp)
  apply (rule refused_and_then, simp)
  apply (rule refused_and_then, simp)
  apply (rule refused_and_then)
   apply (auto simp: lookup_def refused_def and_then_def split: option.splits)[1]
  apply (rule refused_and_then)
   apply (auto simp: lookup_def refused_def and_then_def split: option.splits)[1]
  using assms apply (auto simp: refused_def and_then_def)
  done

lemma create_refuses_unusable_storage_endpoint:
  assumes "(enable_fileupload_notifications \<and>
              (\<not> truthy fileupload_storage_connectionstring \<or> \<not> truthy fileupload_storage_container_name))
           \<or> truthy fileupload_storage_connectionstring \<noteq> truthy fileupload_storage_container_name"
  shows "iot_hub_create client hub_name resource_group_name location sku unit partition_count
           retention_day c2d_ttl c2d_max_delivery_count feedback_lock_duration feedback_ttl
           feedback_max_delivery_count enable_fileupload_notifications
           fileupload_notification_max_delivery_count fileupload_notification_ttl
           fileupload_storage_connectionstring fileupload_storage_container_name fileupload_sas_ttl s =
         (Inl (InvalidArgument
            (if enable_fileupload_notifications
             then ''Please specify storage endpoint(storage connection string and storage container name).''
             else if truthy fileupload_storage_connectionstring
             then ''Please mention storage container name.''
             else ''Please mention storage connection string.'')), s, [])"
proof (cases "enable_fileupload_notifications \<and>
              (\<not> truthy fileupload_storage_connectionstring \<or> \<not> truthy fileupload_storage_container_name)")
  case True
  then show ?thesis
    by (simp add: iot_hub_create_def cli_raise_def)
next
  case False
  with assms have "truthy fileupload_storage_connectionstring \<noteq> truthy fileupload_storage_container_name"
    by blast
  with False have "\<not> enable_fileupload_notifications"
    by blast
  show ?thesis
  proof (cases "truthy fileupload_storage_connectionstring")
    case True
    with \<open>truthy fileupload_storage_connectionstring \<noteq> truthy fileupload_storage_container_name\<close>
    have "\<not> truthy fileupload_storage_container_name"
      by simp
    with True \<open>\<not> enable_fileupload_notifications\<close> show ?thesis
      by (simp add: iot_hub_create_def cli_raise_def)
  next
    case no: False
    with \<open>truthy fileupload_storage_connectionstring \<noteq> truthy fileupload_storage_container_name\<close>
    have "truthy fileupload_storage_container_name"
      by simp
    with no \<open>\<not> enable_fileupload_notifications\<close> show ?thesis
      by (simp add: iot_hub_create_def cli_raise_def)
  qed
qed

section \<open>The calls of the commands on a hub and on a provisioning service\<close>

lemma resubmissions_append: "resubmissions (t @ u) = resubmissions t @ resubmissions u"
  by (simp add: resubmissions_def)

lemma no_resubmissions: "list_all (\<lambda>c. \<not> is_resubmission c) t \<Longrightarrow> resubmissions t = []"
  by (induction t) (auto simp: resubmissions_def)

lemma list_all_resubmissions:
  "list_all (\<lambda>c. is_resubmission c \<longrightarrow> Q c) t \<Longrightarrow> list_all Q (resubmissions t)"
  by (induction t) (auto simp: resubmissions_def)

lemma after_reads:
  assumes "m s = (Inr x, s1, t1)"
    and "emits (\<lambda>c. \<not> is_resubmission c) m"
    and "emits (\<lambda>c. is_resubmission c \<longrightarrow> Q c) (f x)"
  shows "list_all Q (resubmissions (calls (cli_bind m f s)))"
proof -
  have "resubmissions t1 = []"
    using emits_calls [OF assms(2,1)] by (rule no_resubmissions)
  moreover have "list_all Q (resubmissions (calls (f x s1)))"
    using assms(3) by (simp add: emits_def list_all_resubmissions)
  ultimately show ?thesis
    using assms(1) by (simp add: calls_bind resubmissions_append)
qed

lemma emits_routing_of: "emits P (routing_of h)"
  by (auto simp: routing_of_def intro: emits_intros split: option.splits)

lemma emits_resourcegroup_of: "emits P (resourcegroup_of h)"
  by (auto simp: resourcegroup_of_def intro: emits_intros split: option.splits)

lemma emits_hub_resubmit:
  "h_etag h = e \<Longrightarrow>
   emits (\<lambda>c. is_resubmission c \<longrightarrow> if_match c = Some e) (hub_resubmit client g n h)"
  by (auto simp: hub_resubmit_def intro: emits_intros)

lemma h_etag_set_routing: "h_etag (set_routing h r) = h_etag h"
  by (simp add: set_routing_def)

lemma emits_ensure_resource_group_name:
  "emits (\<lambda>c. \<not> is_resubmission c) (ensure_resource_group_name client g n)"
  by (auto simp: ensure_resource_group_name_def get_iot_hub_by_name_def iot_hub_list_def
      resourcegroup_of_def intro!: emits_intros split: option.splits sum.splits)

lemma emits_iot_hub_get: "emits (\<lambda>c. \<not> is_resubmission c) (iot_hub_get client n g)"
  by (auto simp: get_iot_hub_by_name_def iot_hub_list_def
      iot_hub_get_def ensure_resource_group_existence_def
      intro!: emits_intros split: option.splits sum.splits)

lemma emits_iot_hub_policy_list: "emits (\<lambda>c. \<not> is_resubmission c) (iot_hub_policy_list client n g)"
  by (auto simp: iot_hub_policy_list_def intro!: emits_intros emits_ensure_resource_group_name)

lemma emits_iot_hub_policy_get: "emits (\<lambda>c. \<not> is_resubmission c) (iot_hub_policy_get client n k g)"
  by (auto simp: iot_hub_policy_get_def intro!: emits_intros emits_ensure_resource_group_name)

lemma emits_fetch_hub_policies:
  "emits (\<lambda>c. \<not> is_resubmission c) (fetch_hub_policies client n g)"
  by (auto simp: fetch_hub_policies_def
      intro!: emits_intros emits_iot_hub_get emits_resourcegroup_of emits_iot_hub_policy_list)

lemma emits_weaken: "emits P m \<Longrightarrow> (\<And>c. P c \<Longrightarrow> Q c) \<Longrightarrow> emits Q m"
  by (auto simp: emits_def list_all_iff)

lemma after_fetch_hub:
  assumes "fetch_hub client n rg s = (Inr (g, h), s1, t1)"
    and "emits (\<lambda>c. is_resubmission c \<longrightarrow> Q c) (rest g h)"
  shows "list_all Q (resubmissions (calls
           (cli_bind (ensure_resource_group_name client rg n) (\<lambda>g.
              cli_bind (iot_hub_get client n (Some g)) (\<lambda>h. rest g h)) s)))"
proof -
  have eq: "cli_bind (ensure_resource_group_name client rg n) (\<lambda>g.
              cli_bind (iot_hub_get client n (Some g)) (\<lambda>h. rest g h)) =
            cli_bind (fetch_hub client n rg) (\<lambda>(g, h). rest g h)"
    by (simp add: fetch_hub_def cli_bind_assoc cli_bind_return)
  show ?thesis
    unfolding eq
    by (rule after_reads [where m = "fetch_hub client n rg" and s = s, OF assms(1) emits_fetch_hub])
       (simp add: assms(2))
qed

lemma after_fetch_hub_policies:
  assumes "fetch_hub_policies client n rg s = (Inr (g, h, listed), s1, t1)"
    and "emits (\<lambda>c. is_resubmission c \<longrightarrow> Q c) (rest h g listed)"
  shows "list_all Q (resubmissions (calls
           (cli_bind (iot_hub_get client n rg) (\<lambda>h.
              cli_bind (resourcegroup_of h) (\<lambda>g.
                cli_bind (iot_hub_policy_list client n (Some g)) (\<lambda>listed. rest h g listed))) s)))"
proof -
  have eq: "cli_bind (iot_hub_get client n rg) (\<lambda>h.
              cli_bind (resourcegroup_of h) (\<lambda>g.
                cli_bind (iot_hub_policy_list client n (Some g)) (\<lambda>listed. rest h g listed))) =
            cli_bind (fetch_hub_policies client n rg) (\<lambda>(g, h, listed). rest h g listed)"
    by (simp add: fetch_hub_policies_def cli_bind_assoc cli_bind_return)
  show ?thesis
    unfolding eq
    by (rule after_reads [where m = "fetch_hub_policies client n rg" and s = s,
          OF assms(1) emits_fetch_hub_policies])
       (simp add: assms(2))
qed

lemma emits_bind_post:
  assumes "emits P m"
    and "\<And>s x s1 t1. m s = (Inr x, s1, t1) \<Longrightarrow> R x"
    and "\<And>x. R x \<Longrightarrow> emits P (f x)"
  shows "emits P (cli_bind m f)"
proof -
  have "list_all P (calls (cli_bind m f s))" for s
  proof (cases "m s")
    case (fields r s1 t1)
    have t1: "list_all P t1"
      using assms(1) fields by (rule emits_calls)
    show ?thesis
    proof (cases r)
      case (Inl e)
      then show ?thesis
        using fields t1 by (simp add: calls_bind)
    next
      case (Inr x)
      then have "R x"
        using fields assms(2) by blast
      then have "list_all P (calls (f x s1))"
        using assms(3) by (simp add: emits_def)
      then show ?thesis
        using fields Inr t1 by (simp add: calls_bind)
    qed
  qed
  then show ?thesis
    by (simp add: emits_def)
qed

lemmas tagged_intros =
  emits_return emits_raise emits_bind emits_routing_of emits_resourcegroup_of emits_hub_resubmit

lemma route_create_tagged:
  assumes "fetch_hub client hub_name rg s = (Inr (g, h), s1, t1)"
  shows "list_all (\<lambda>c. if_match c = Some (h_etag h))
           (resubmissions (calls (iot_hub_route_create client hub_name route_name source_type
              endpoint_name enabled condition rg s)))"
  unfolding iot_hub_route_create_def
  by (rule after_fetch_hub [OF assms]) (auto intro!: tagged_intros simp: h_etag_set_routing Let_def)

lemma route_delete_tagged:
  assumes "fetch_hub client hub_name rg s = (Inr (g, h), s1, t1)"
  shows "list_all (\<lambda>c. if_match c = Some (h_etag h))
           (resubmissions (calls (iot_hub_route_delete client hub_name route_name source_type rg s)))"
  unfolding iot_hub_route_delete_def
  by (rule after_fetch_hub [OF assms]) (auto intro!: tagged_intros simp: h_etag_set_routing Let_def)

lemma route_update_tagged:
  assumes "fetch_hub client hub_name rg s = (Inr (g, h), s1, t1)"
  shows "list_all (\<lambda>c. if_match c = Some (h_etag h))
           (resubmissions (calls (iot_hub_route_update client hub_name route_name source_type
              endpoint_name enabled condition rg s)))"
  unfolding iot_hub_route_update_def
  by (rule after_fetch_hub [OF assms])
     (auto intro!: tagged_intros simp: h_etag_set_routing Let_def split: option.splits)

lemma routing_endpoint_create_tagged:
  assumes "fetch_hub client hub_name rg s = (Inr (g, h), s1, t1)"
  shows "list_all (\<lambda>c. if_match c = Some (h_etag h))
           (resubmissions (calls (iot_hub_routing_endpoint_create client ET avro hub_name endpoint_name
              endpoint_type endpoint_resource_group endpoint_subscription_id connection_string
              container_name encoding rg batch_frequency chunk_size_window file_name_format s)))"
  unfolding iot_hub_routing_endpoint_create_def Let_def
  apply (rule after_fetch_hub [OF assms])
  apply (rule emits_bind_post [where R = "\<lambda>x. h_etag x = h_etag h"])
    apply (auto intro!: tagged_intros)[1]
   apply (auto simp: cli_bind_def cli_return_def cli_raise_def routing_of_def set_routing_def
      split: if_splits option.splits)[1]
  apply (erule emits_hub_resubmit)
  done

lemma routing_endpoint_delete_tagged:
  assumes "fetch_hub client hub_name rg s = (Inr (g, h), s1, t1)"
  shows "list_all (\<lambda>c. if_match c = Some (h_etag h))
           (resubmissions (calls (iot_hub_routing_endpoint_delete client ET hub_name endpoint_name
              endpoint_type rg s)))"
  unfolding iot_hub_routing_endpoint_delete_def
  by (rule after_fetch_hub [OF assms])
     (auto intro!: tagged_intros simp: h_etag_set_routing Let_def split: option.splits)

lemma enrichment_tagged:
  assumes "fetch_hub client hub_name rg s = (Inr (g, h), s1, t1)"
  shows "list_all (\<lambda>c. if_match c = Some (h_etag h))
           (resubmissions (calls (iot_message_enrichment_create client hub_name key value endpoints rg s)))"
    and "list_all (\<lambda>c. if_match c = Some (h_etag h))
           (resubmissions (calls (iot_message_enrichment_update client hub_name key value endpoints rg s)))"
    and "list_all (\<lambda>c. if_match c = Some (h_etag h))
           (resubmissions (calls (iot_message_enrichment_delete client hub_name key rg s)))"
  unfolding iot_message_enrichment_create_def iot_message_enrichment_update_def
    iot_message_enrichment_delete_def
  by (rule after_fetch_hub [OF assms],
      auto intro!: tagged_intros simp: h_etag_set_routing Let_def split: option.splits)+

lemma emits_quiet:
  "emits (\<lambda>c. \<not> is_resubmission c) m \<Longrightarrow> emits (\<lambda>c. is_resubmission c \<longrightarrow> Q c) m"
  by (erule emits_weaken) simp

lemma emits_LongRunningOperation:
  "emits (\<lambda>c. is_resubmission c \<longrightarrow> Q c) (LongRunningOperation client p)"
  by (auto simp: LongRunningOperation_def intro: emits_intros)

lemma emits_silent: "emits P (\<lambda>s. case step s of (k, s1) \<Rightarrow> (Inr (f k), s1, []))"
  by (simp add: emits_def calls_def split: prod.splits)

lemma calls_cli_raise: "calls (cli_raise e s) = []"
  by (simp add: cli_raise_def calls_def)

lemma policy_create_tagged:
  assumes "fetch_hub_policies client hub_name rg s = (Inr (g, h, listed), s1, t1)"
  shows "list_all (\<lambda>c. if_match c = Some (h_etag h))
           (resubmissions (calls (iot_hub_policy_create client hub_name policy_name permissions rg s)))"
proof (cases "convert_perms_to_access_rights permissions")
  case (Inl e)
  then show ?thesis
    by (simp add: iot_hub_policy_create_def calls_cli_raise resubmissions_def)
next
  case (Inr rights)
  show ?thesis
    unfolding iot_hub_policy_create_def Inr sum.case
    by (rule after_fetch_hub_policies [OF assms]) (auto intro!: tagged_intros simp: Let_def)
qed

lemma policy_delete_tagged:
  assumes "fetch_hub_policies client hub_name rg s = (Inr (g, h, listed), s1, t1)"
  shows "list_all (\<lambda>c. if_match c = Some (h_etag h))
           (resubmissions (calls (iot_hub_policy_delete client hub_name policy_name rg s)))"
  unfolding iot_hub_policy_delete_def
  by (rule after_fetch_hub_policies [OF assms]) (auto intro!: tagged_intros simp: Let_def)

lemma policy_key_renew_tagged:
  assumes "fetch_hub_policies client hub_name rg s = (Inr (g, h, listed), s1, t1)"
  shows "list_all (\<lambda>c. if_match c = Some (h_etag h))
           (resubmissions (calls (iot_hub_policy_key_renew client RT generateKey hub_name policy_name
              regenerate_key rg no_wait s)))"
  unfolding iot_hub_policy_key_renew_def
  by (rule after_fetch_hub_policies [OF assms])
     (auto intro!: tagged_intros emits_silent emits_LongRunningOperation
        emits_quiet [OF emits_iot_hub_policy_get] simp: Let_def split: list.splits)

lemma hub_update_tagged:
  "list_all (\<lambda>c. if_match c = Some (h_etag parameters))
     (resubmissions (calls (iot_hub_update client hub_name parameters rg s)))"
proof -
  have "emits (\<lambda>c. is_resubmission c \<longrightarrow> if_match c = Some (h_etag parameters))
          (iot_hub_update client hub_name parameters rg)"
    unfolding iot_hub_update_def
    by (auto intro!: tagged_intros emits_quiet [OF emits_ensure_resource_group_name])
  then show ?thesis
    by (simp add: emits_def list_all_resubmissions)
qed

lemma emits_dps_reads:
  "emits (\<lambda>c. if_match c = None) (iot_dps_get client n g)"
  "emits (\<lambda>c. if_match c = None) (iot_dps_access_policy_list client n r)"
  "emits (\<lambda>c. if_match c = None) (iot_dps_access_policy_get client n r k)"
  "emits (\<lambda>c. if_match c = None) (iot_dps_linked_hub_list client n r)"
  "emits (\<lambda>c. if_match c = None) (iot_dps_linked_hub_get client n r k)"
  by (auto simp: iot_dps_get_def get_iot_dps_by_name_def iot_dps_list_def
      iot_dps_access_policy_list_def iot_dps_access_policy_get_def iot_dps_linked_hub_list_def
      iot_dps_linked_hub_get_def
      intro!: emits_intros split: option.splits sum.splits)

lemma emits_dps_submit:
  "emits (\<lambda>c. if_match c = None) read_back \<Longrightarrow>
   emits (\<lambda>c. if_match c = None) (dps_submit client g n description no_wait read_back)"
  by (auto simp: dps_submit_def LongRunningOperation_def intro!: emits_intros)

lemma emits_dps_commands:
  "emits (\<lambda>c. if_match c = None)
     (iot_dps_access_policy_create client n r k rights primary_key secondary_key no_wait)"
  "emits (\<lambda>c. if_match c = None)
     (iot_dps_access_policy_update client n r k primary_key secondary_key new_rights no_wait)"
  "emits (\<lambda>c. if_match c = None) (iot_dps_access_policy_delete client n r k no_wait)"
  "emits (\<lambda>c. if_match c = None)
     (iot_dps_linked_hub_create client n r connection_string location apply_allocation_policy
        allocation_weight no_wait)"
  "emits (\<lambda>c. if_match c = None)
     (iot_dps_linked_hub_update client n r linked_hub apply_allocation_policy allocation_weight no_wait)"
  "emits (\<lambda>c. if_match c = None) (iot_dps_linked_hub_delete client n r linked_hub no_wait)"
  by (auto simp: iot_dps_access_policy_create_def iot_dps_access_policy_update_def
      iot_dps_access_policy_delete_def iot_dps_linked_hub_create_def iot_dps_linked_hub_update_def
      iot_dps_linked_hub_delete_def Let_def
      intro!: emits_intros emits_dps_reads emits_dps_submit split: sum.splits)

lemma untagged:
  "emits (\<lambda>c. if_match c = None) m \<Longrightarrow> list_all (\<lambda>c. if_match c = None) (resubmissions (calls (m s)))"
  by (auto simp: emits_def resubmissions_def list_all_iff)

lemma access_policy_create_run:
  assumes "iot_dps_access_policy_list client dps_name g s = (Inr listed, s1, t1)"
  shows "is_policy_existed listed access_policy_name \<Longrightarrow>
         iot_dps_access_policy_create client dps_name g access_policy_name rights primary_key
           secondary_key no_wait s =
         (Inl (AlreadyExists (''Access policy '' @ access_policy_name @ '' already existed.'')), s1, t1)"
    and "\<not> is_policy_existed listed access_policy_name \<Longrightarrow>
         iot_dps_get client dps_name (Some g) s1 = (Inr d, s2, t2) \<Longrightarrow>
         iot_dps_access_policy_create client dps_name g access_policy_name rights primary_key
           secondary_key no_wait s =
         (case dps_submit client g dps_name
                 (dps_description_of d
                    \<lparr>dp_iot_hubs = dp_iot_hubs (d_properties d),
                     dp_allocation_policy = dp_allocation_policy (d_properties d),
                     dp_authorization_policies = listed @
                       [\<lparr>pol_key_name = access_policy_name,
                         pol_rights = convert_rights_to_access_rights rights,
                         pol_primary_key = primary_key, pol_secondary_key = secondary_key\<rparr>]\<rparr>)
                 no_wait (iot_dps_access_policy_get client dps_name g access_policy_name) s2 of
            (r, s3, t3) \<Rightarrow> (r, s3, t1 @ t2 @ t3))"
  using assms
  by (simp_all add: iot_dps_access_policy_create_def cli_bind_def cli_raise_def split: prod.splits)

lemma demo_dps_access_policy_create:
  "iot_dps_access_policy_create demo_sdk ''dps1'' ''rg1'' ''policy2'' [''ServiceConfig''] None None
     True 0 =
   (Inr (NoWait (Poller 0)), 1,
    [Dps_get ''dps1'' ''rg1'', Dps_list_keys ''dps1'' ''rg1'', Dps_get ''dps1'' ''rg1'',
     Dps_create_or_update ''rg1'' ''dps1''
       (dps_description_of demo_dps
          \<lparr>dp_iot_hubs = dp_iot_hubs (d_properties demo_dps),
           dp_allocation_policy = dp_allocation_policy (d_properties demo_dps),
           dp_authorization_policies =
             [demo_dps_policy,
              \<lparr>pol_key_name = ''policy2'', pol_rights = ''ServiceConfig'',
                pol_primary_key = None, pol_secondary_key = None\<rparr>]\<rparr>) None])"
proof -
  have new: "\<not> is_policy_existed [demo_dps_policy] ''policy2''"
    by (simp add: is_policy_existed_def demo_dps_policy_def lower_def lower_char_def)
  show ?thesis
    by (simp add: access_policy_create_run(2) [OF demo_dps_reads(2) new demo_dps_reads(1)]
        demo_dps_submit_no_wait convert_rights_to_access_rights_def)
qed

lemma demo_hub_group: "h_additional_properties demo_hub ''resourcegroup'' = Some ''rg1''"
  by (simp add: demo_hub_def)

lemma demo_hub_reads:
  "fetch_hub demo_sdk ''hub1'' (Some ''rg1'') s =
     (Inr (''rg1'', demo_hub), s,
      [Resource_groups_check_existence ''rg1'', Hub_check_name_availability ''hub1'',
       Hub_get ''rg1'' ''hub1''])"
  "fetch_hub_policies demo_sdk ''hub1'' (Some ''rg1'') s =
     (Inr (''rg1'', demo_hub, [demo_hub_policy]), s,
      [Resource_groups_check_existence ''rg1'', Hub_check_name_availability ''hub1'',
       Hub_get ''rg1'' ''hub1'', Hub_list_keys ''rg1'' ''hub1''])"
  by (simp_all add: fetch_hub_def fetch_hub_policies_def ensure_resource_group_name_def iot_hub_get_def
      iot_hub_policy_list_def resourcegroup_of_def ensure_resource_group_existence_def
      cli_bind_def cli_return_def cli_raise_def invoke_def demo_sdk_def demo_hub_group)

lemma run_after_fetch_hub:
  assumes "fetch_hub client n rg s = (Inr (g, h), s1, t1)"
  shows "cli_bind (ensure_resource_group_name client rg n) (\<lambda>g.
           cli_bind (iot_hub_get client n (Some g)) (\<lambda>h. rest g h)) s =
         (case rest g h s1 of (r, s2, t2) \<Rightarrow> (r, s2, t1 @ t2))"
proof -
  have eq: "cli_bind (ensure_resource_group_name client rg n) (\<lambda>g.
              cli_bind (iot_hub_get client n (Some g)) (\<lambda>h. rest g h)) =
            cli_bind (fetch_hub client n rg) (\<lambda>(g, h). rest g h)"
    by (simp add: fetch_hub_def cli_bind_assoc cli_bind_return)
  show ?thesis
    unfolding eq using assms by (simp add: cli_bind_def)
qed

lemma run_after_fetch_hub_policies:
  assumes "fetch_hub_policies client n rg s = (Inr (g, h, listed), s1, t1)"
  shows "cli_bind (iot_hub_get client n rg) (\<lambda>h.
              cli_bind (resourcegroup_of h) (\<lambda>g.
                cli_bind (iot_hub_policy_list client n (Some g)) (\<lambda>listed. rest h g listed))) s =
         (case rest h g listed s1 of (r, s2, t2) \<Rightarrow> (r, s2, t1 @ t2))"
proof -
  have eq: "cli_bind (iot_hub_get client n rg) (\<lambda>h.
              cli_bind (resourcegroup_of h) (\<lambda>g.
                cli_bind (iot_hub_policy_list client n (Some g)) (\<lambda>listed. rest h g listed))) =
            cli_bind (fetch_hub_policies client n rg) (\<lambda>(g, h, listed). rest h g listed)"
    by (simp add: fetch_hub_policies_def cli_bind_assoc cli_bind_return)
  show ?thesis
    unfolding eq using assms by (simp add: cli_bind_def)
qed

lemma route_create_run:
  assumes "fetch_hub client hub_name rg s = (Inr (g, h), s1, t1)"
    and "hp_routing (h_properties h) = Some r"
  shows "iot_hub_route_create client hub_name route_name source_type endpoint_name enabled condition
           rg s =
         (case hub_resubmit client g hub_name
                 (set_routing h (r\<lparr>rp_routes := rp_routes r @
                     [\<lparr>rt_name = route_name,
                       rt_source = source_type,
                       rt_endpoint_names = split endpoint_name,
                       rt_condition = (case condition of None \<Rightarrow> ''true'' | Some c \<Rightarrow> c),
                       rt_is_enabled = (case enabled of None \<Rightarrow> True | Some b \<Rightarrow> b)\<rparr>]\<rparr>)) s1 of
            (res, s2, t2) \<Rightarrow> (res, s2, t1 @ t2))"
  unfolding iot_hub_route_create_def run_after_fetch_hub [OF assms(1)]
  using assms(2) by (simp add: routing_of_def cli_bind_return)

lemma demo_hub_resubmit:
  "hub_resubmit demo_sdk g n h s =
     (Inr (Poller s), Suc s, [Hub_create_or_update g n h (Some [(''IF-MATCH'', h_etag h)])])"
  by (simp add: hub_resubmit_def invoke_def demo_sdk_def)

lemma demo_hub_facts:
  "h_etag demo_hub = Some ''AAAAAAAAAAA=''"
  "hp_routing (h_properties demo_hub) = Some demo_routing"
  by (simp_all add: demo_hub_def)

section \<open>Updates and deletes under a name that is not there\<close>




lemma set_routing_same: "hp_routing (h_properties h) = Some r \<Longrightarrow> set_routing h r = h"
  by (simp add: set_routing_def)






lemma delete_unknown_endpoint:
  assumes "endpoint_name \<noteq> []"
    and "\<not> named endpoint_name (service_bus_queues endpoints)"
    and "\<not> named endpoint_name (service_bus_topics endpoints)"
    and "\<not> named endpoint_name (storage_containers endpoints)"
    and "\<not> named endpoint_name (event_hubs endpoints)"
  shows "delete_routing_endpoints ET (Some endpoint_name) None endpoints = endpoints"
  using assms delete_by_name_only [of "Some endpoint_name" ET endpoints]
  by simp

lemma routing_endpoint_missing:
  assumes "fetch_hub client hub_name rg s = (Inr (g, h), s1, t1)"
    and "hp_routing (h_properties h) = Some r"
    and "endpoint_name \<noteq> []"
    and "\<not> named endpoint_name (service_bus_queues (rp_endpoints r))"
    and "\<not> named endpoint_name (service_bus_topics (rp_endpoints r))"
    and "\<not> named endpoint_name (storage_containers (rp_endpoints r))"
    and "\<not> named endpoint_name (event_hubs (rp_endpoints r))"
  shows "iot_hub_routing_endpoint_delete client ET hub_name (Some endpoint_name) None rg s =
         (case hub_resubmit client g hub_name h s1 of (res, s2, t2) \<Rightarrow> (res, s2, t1 @ t2))"
  unfolding iot_hub_routing_endpoint_delete_def run_after_fetch_hub [OF assms(1)]
  using assms(2)
  by (simp add: routing_of_def cli_bind_return delete_unknown_endpoint [OF assms(3-7)] set_routing_same)


section \<open>What a resubmitted hub holds\<close>

lemma hp_routing_set_routing: "hp_routing (h_properties (set_routing h r)) = Some r"
  by (simp add: set_routing_def)

lemma sent_routing_endpoint_delete:
  assumes "fetch_hub client hub_name resource_group_name s = (Inr (g, h), s1, t1)"
    and "hp_routing (h_properties h) = Some r"
  shows "map (\<lambda>x. hp_routing (h_properties x))
           (resubmitted_hubs (calls (iot_hub_routing_endpoint_delete client ET hub_name endpoint_name
              endpoint_type resource_group_name s))) =
         [Some (r\<lparr>rp_endpoints :=
            delete_routing_endpoints ET endpoint_name endpoint_type (rp_endpoints r)\<rparr>)]"
  by (simp add: routing_endpoint_delete_resubmits [OF assms] hp_routing_set_routing)

lemma delete_by_type_only:
  assumes "\<not> truthy endpoint_name" and "truthy endpoint_type"
  shows "delete_routing_endpoints ET endpoint_name endpoint_type endpoints =
      (if ServiceBusQueue ET = lower (the endpoint_type) then endpoints\<lparr>service_bus_queues := []\<rparr>
       else if ServiceBusTopic ET = lower (the endpoint_type) then endpoints\<lparr>service_bus_topics := []\<rparr>
       else if AzureStorageContainer ET = lower (the endpoint_type) then endpoints\<lparr>storage_containers := []\<rparr>
       else if EventHub ET = lower (the endpoint_type) then endpoints\<lparr>event_hubs := []\<rparr>
       else endpoints)"
  using assms by (simp add: delete_routing_endpoints_def)

lemma sent_after_fetch_hub:
  assumes "fetch_hub client n rg s = (Inr (g, h), s1, t1)"
  shows "resubmitted_hubs (calls (case hub_resubmit client g2 n2 x s1 of
           (res, s2, t2) \<Rightarrow> (res, s2, t1 @ t2))) = [x]"
proof -
  have quiet: "resubmitted_hubs t1 = []"
    using emits_calls [OF emits_fetch_hub assms] by (rule no_resubmission_hubs)
  show ?thesis
    by (simp add: calls_extend calls_hub_resubmit resubmitted_hubs_append quiet)
       (simp add: resubmitted_hubs_def List.map_filter_simps)
qed

lemma route_delete_run:
  assumes "fetch_hub client hub_name rg s = (Inr (g, h), s1, t1)"
    and "hp_routing (h_properties h) = Some r"
  shows "iot_hub_route_delete client hub_name route_name source_type rg s =
         (case hub_resubmit client g hub_name
                 (set_routing h (r\<lparr>rp_routes :=
                    (let routes1 = (if \<not> truthy route_name \<and> \<not> truthy source_type then []
                                    else rp_routes r);
                         routes2 = (if truthy route_name
                                    then filter (\<lambda>route. lower (rt_name route) \<noteq> lower (the route_name)) routes1
                                    else routes1)
                     in if truthy source_type
                        then filter (\<lambda>route. lower (rt_source route) \<noteq> lower (the source_type)) routes2
                        else routes2)\<rparr>)) s1 of
            (res, s2, t2) \<Rightarrow> (res, s2, t1 @ t2))"
  unfolding iot_hub_route_delete_def run_after_fetch_hub [OF assms(1)]
  using assms(2) by (simp add: routing_of_def cli_bind_return Let_def)

section \<open>What the create commands run\<close>

lemma resubmitted_descriptions_Cons:
  "resubmitted_descriptions (c # t) =
     (case resubmitted_description c of
        None \<Rightarrow> resubmitted_descriptions t
      | Some d \<Rightarrow> d # resubmitted_descriptions t)"
  by (simp add: resubmitted_descriptions_def List.map_filter_simps split: option.splits)

lemma resubmitted_after_reads:
  "list_all (\<lambda>c. \<not> is_resubmission c) t1 \<Longrightarrow>
   resubmitted_hubs (calls (case hub_resubmit client g n h s1 of
      (res, s2, t2) \<Rightarrow> (res, s2, t1 @ t2))) = [h]"
  by (simp add: calls_extend calls_hub_resubmit resubmitted_hubs_append no_resubmission_hubs)
     (simp add: resubmitted_hubs_def List.map_filter_simps)

lemma fetch_hub_policies_group:
  "fetch_hub_policies client n rg s = (Inr (g, h, listed), s1, t1) \<Longrightarrow>
   h_additional_properties h ''resourcegroup'' = Some g"
  by (auto simp: fetch_hub_policies_def cli_bind_def cli_return_def cli_raise_def resourcegroup_of_def
      split: prod.splits sum.splits option.splits)

lemma hub_policy_create_run:
  assumes "convert_perms_to_access_rights permissions = Inr access"
    and "fetch_hub_policies client hub_name rg s = (Inr (g, h, listed), s1, t1)"
  shows "is_policy_existed listed policy_name \<Longrightarrow>
         iot_hub_policy_create client hub_name policy_name permissions rg s =
         (Inl (AlreadyExists (''Policy '' @ policy_name @ '' already existed.'')), s1, t1)"
    and "\<not> is_policy_existed listed policy_name \<Longrightarrow>
         iot_hub_policy_create client hub_name policy_name permissions rg s =
         (case hub_resubmit client g hub_name
                 (h\<lparr>h_properties := (h_properties h)\<lparr>hp_authorization_policies := Some (listed @
                    [\<lparr>pol_key_name = policy_name, pol_rights = access,
                      pol_primary_key = None, pol_secondary_key = None\<rparr>])\<rparr>\<rparr>) s1 of
            (res, s2, t2) \<Rightarrow> (res, s2, t1 @ t2))"
  unfolding iot_hub_policy_create_def assms(1) sum.case run_after_fetch_hub_policies [OF assms(2)]
  using fetch_hub_policies_group [OF assms(2)]
  by (simp_all add: cli_raise_def resourcegroup_of_def cli_bind_return)

lemma linked_hub_create_run:
  assumes "iot_dps_linked_hub_list client dps_name g s = (Inr listed, s1, t1)"
    and "iot_dps_get client dps_name (Some g) (dps_set_api_version client ''2017-11-15'' s1) =
           (Inr d, s2, t2)"
  shows "iot_dps_linked_hub_create client dps_name g connection_string location
           apply_allocation_policy allocation_weight no_wait s =
         (case dps_submit client g dps_name
                 (dps_description_of d
                    \<lparr>dp_iot_hubs = listed @
                       [\<lparr>lh_name = None, lh_connection_string = connection_string,
                         lh_location = location,
                         lh_apply_allocation_policy = apply_allocation_policy,
                         lh_allocation_weight = allocation_weight\<rparr>],
                     dp_allocation_policy = dp_allocation_policy (d_properties d),
                     dp_authorization_policies = dp_authorization_policies (d_properties d)\<rparr>)
                 no_wait (iot_dps_linked_hub_list client dps_name g) s2 of
            (r, s3, t3) \<Rightarrow> (r, s3, t1 @ Dps_set_api_version ''2017-11-15'' # t2 @ t3))"
  using assms
  by (simp add: iot_dps_linked_hub_create_def cli_bind_def invoke_def split: prod.splits)

lemma enrichment_create_run:
  assumes "fetch_hub client hub_name rg s = (Inr (g, h), s1, t1)"
    and "hp_routing (h_properties h) = Some r"
  shows "iot_message_enrichment_create client hub_name key value endpoints rg s =
         (case hub_resubmit client g hub_name
                 (set_routing h (r\<lparr>rp_enrichments :=
                    Some ((case rp_enrichments r of None \<Rightarrow> [] | Some es \<Rightarrow> es) @
                      [\<lparr>enr_key = key, enr_value = value, enr_endpoint_names = endpoints\<rparr>])\<rparr>)) s1 of
            (res, s2, t2) \<Rightarrow> (res, s2, t1 @ t2))"
  unfolding iot_message_enrichment_create_def run_after_fetch_hub [OF assms(1)]
  using assms(2) by (simp add: routing_of_def cli_bind_return)

lemma routing_endpoint_create_run:
  assumes "fetch_hub client hub_name rg s = (Inr (g, h), s1, t1)"
    and "hp_routing (h_properties h) = Some r"
    and "truthy container_name"
  shows "iot_hub_routing_endpoint_create client ET avro hub_name endpoint_name endpoint_type
           endpoint_resource_group endpoint_subscription_id connection_string container_name
           encoding rg batch_frequency chunk_size_window file_name_format s =
         (case hub_resubmit client g hub_name
            (if EventHub ET = lower endpoint_type
             then set_routing h (r\<lparr>rp_endpoints := (rp_endpoints r)\<lparr>event_hubs :=
                    event_hubs (rp_endpoints r) @
                      [\<lparr>ep_name = endpoint_name, ep_connection_string = connection_string,
                        ep_subscription_id = endpoint_subscription_id,
                        ep_resource_group = endpoint_resource_group\<rparr>]\<rparr>\<rparr>)
             else if ServiceBusQueue ET = lower endpoint_type
             then set_routing h (r\<lparr>rp_endpoints := (rp_endpoints r)\<lparr>service_bus_queues :=
                    service_bus_queues (rp_endpoints r) @
                      [\<lparr>ep_name = endpoint_name, ep_connection_string = connection_string,
                        ep_subscription_id = endpoint_subscription_id,
                        ep_resource_group = endpoint_resource_group\<rparr>]\<rparr>\<rparr>)
             else if ServiceBusTopic ET = lower endpoint_type
             then set_routing h (r\<lparr>rp_endpoints := (rp_endpoints r)\<lparr>service_bus_topics :=
                    service_bus_topics (rp_endpoints r) @
                      [\<lparr>ep_name = endpoint_name, ep_connection_string = connection_string,
                        ep_subscription_id = endpoint_subscription_id,
                        ep_resource_group = endpoint_resource_group\<rparr>]\<rparr>\<rparr>)
             else if AzureStorageContainer ET = lower endpoint_type
             then set_routing h (r\<lparr>rp_endpoints := (rp_endpoints r)\<lparr>storage_containers :=
                    storage_containers (rp_endpoints r) @
                      [\<lparr>ep_name = endpoint_name, ep_connection_string = connection_string,
                        ep_subscription_id = endpoint_subscription_id,
                        ep_resource_group = endpoint_resource_group,
                        sc_container_name = the container_name,
                        sc_encoding = (if truthy encoding then lower (the encoding) else avro),
                        sc_file_name_format = file_name_format,
                        sc_batch_frequency_in_seconds = batch_frequency,
                        sc_max_chunk_size_in_bytes = chunk_size_window * 1048576\<rparr>]\<rparr>\<rparr>)
             else h) s1 of
            (res, s2, t2) \<Rightarrow> (res, s2, t1 @ t2))"
  unfolding iot_hub_routing_endpoint_create_def run_after_fetch_hub [OF assms(1)]
  using assms(2,3) by (simp add: routing_of_def cli_bind_return Let_def)

section \<open>Descriptions sent without entity tag\<close>

lemma quiet_untagged_description:
  "emits (\<lambda>c. \<not> is_resubmission c) m \<Longrightarrow>
   emits (\<lambda>c. Option.bind (resubmitted_description c) d_etag = None) m"
proof (erule emits_weaken)
  fix c
  show "\<not> is_resubmission c \<Longrightarrow> Option.bind (resubmitted_description c) d_etag = None"
    by (cases c) simp_all
qed

lemma emits_untagged_description_submit:
  "emits (\<lambda>c. Option.bind (resubmitted_description c) d_etag = None) read_back \<Longrightarrow>
   emits (\<lambda>c. Option.bind (resubmitted_description c) d_etag = None)
     (dps_submit client g n (dps_description_of d p) no_wait read_back)"
  by (auto simp: dps_submit_def LongRunningOperation_def dps_description_of_def intro!: emits_intros)

lemmas emits_untagged_description_reads =
  emits_iot_dps_get [THEN quiet_untagged_description]
  emits_iot_dps_access_policy_list [THEN quiet_untagged_description]
  emits_iot_dps_access_policy_get [THEN quiet_untagged_description]
  emits_iot_dps_linked_hub_list [THEN quiet_untagged_description]
  emits_iot_dps_linked_hub_get [THEN quiet_untagged_description]

lemma emits_untagged_descriptions:
  "emits (\<lambda>c. Option.bind (resubmitted_description c) d_etag = None)
     (iot_dps_access_policy_create client n r k rights primary_key secondary_key no_wait)"
  "emits (\<lambda>c. Option.bind (resubmitted_description c) d_etag = None)
     (iot_dps_access_policy_update client n r k primary_key secondary_key new_rights no_wait)"
  "emits (\<lambda>c. Option.bind (resubmitted_description c) d_etag = None)
     (iot_dps_access_policy_delete client n r k no_wait)"
  "emits (\<lambda>c. Option.bind (resubmitted_description c) d_etag = None)
     (iot_dps_linked_hub_create client n r connection_string location apply_allocation_policy
        allocation_weight no_wait)"
  "emits (\<lambda>c. Option.bind (resubmitted_description c) d_etag = None)
     (iot_dps_linked_hub_update client n r linked_hub apply_allocation_policy allocation_weight no_wait)"
  "emits (\<lambda>c. Option.bind (resubmitted_description c) d_etag = None)
     (iot_dps_linked_hub_delete client n r linked_hub no_wait)"
  by (auto simp: iot_dps_access_policy_create_def iot_dps_access_policy_update_def
      iot_dps_access_policy_delete_def iot_dps_linked_hub_create_def iot_dps_linked_hub_update_def
      iot_dps_linked_hub_delete_def Let_def
      intro!: emits_intros emits_untagged_description_reads emits_untagged_description_submit
      split: sum.splits)

lemma untagged_descriptions:
  assumes "emits (\<lambda>c. Option.bind (resubmitted_description c) d_etag = None) m"
  shows "list_all (\<lambda>d. d_etag d = None) (resubmitted_descriptions (calls (m s)))"
proof -
  have "list_all (\<lambda>c. Option.bind (resubmitted_description c) d_etag = None) t \<Longrightarrow>
        list_all (\<lambda>d. d_etag d = None) (resubmitted_descriptions t)" for t
    by (induction t)
       (auto simp: resubmitted_descriptions_Cons resubmitted_descriptions_def List.map_filter_simps
         split: option.splits)
  then show ?thesis
    using assms by (simp add: emits_def)
qed

section \<open>Deletes that filter\<close>







section \<open>C1: creating an entry under a name that is there\<close>

lemma is_policy_existed_iff:
  "is_policy_existed policies n = list_ex (\<lambda>p. lower (pol_key_name p) = lower n) policies"
  by (force simp: is_policy_existed_def list_ex_iff image_iff)

lemma dps_policy_create_checked:
  assumes "iot_dps_access_policy_list client dps_name dps_group s = (Inr policies, s1, t1)"
  shows "(list_ex (\<lambda>p. lower (pol_key_name p) = lower access_policy_name) policies \<longrightarrow>
            iot_dps_access_policy_create client dps_name dps_group access_policy_name rights
               primary_key secondary_key no_wait s =
              (Inl (AlreadyExists (''Access policy '' @ access_policy_name @ '' already existed.'')),
               s1, t1)
            \<and> resubmissions t1 = [])
       \<and> (\<not> list_ex (\<lambda>p. lower (pol_key_name p) = lower access_policy_name) policies
            \<and> iot_dps_get client dps_name (Some dps_group) s1 = (Inr d, s2, t2) \<longrightarrow>
            map (\<lambda>x. dp_authorization_policies (d_properties x))
              (resubmitted_descriptions (calls (iot_dps_access_policy_create client dps_name dps_group
                 access_policy_name rights primary_key secondary_key no_wait s))) =
              [policies @
                 [\<lparr>pol_key_name = access_policy_name,
                   pol_rights = convert_rights_to_access_rights rights,
                   pol_primary_key = primary_key, pol_secondary_key = secondary_key\<rparr>]])"
proof (intro conjI impI; (elim conjE)?)
  note q1 = emits_calls [OF emits_iot_dps_access_policy_list assms]
  {
    assume "list_ex (\<lambda>p. lower (pol_key_name p) = lower access_policy_name) policies"
    then have dup: "is_policy_existed policies access_policy_name"
      by (simp add: is_policy_existed_iff)
    show "iot_dps_access_policy_create client dps_name dps_group access_policy_name rights
               primary_key secondary_key no_wait s =
              (Inl (AlreadyExists (''Access policy '' @ access_policy_name @ '' already existed.'')),
               s1, t1)"
      by (rule access_policy_create_run(1) [OF assms dup])
    show "resubmissions t1 = []"
      by (rule no_resubmissions [OF q1])
  }
  {
    assume "\<not> list_ex (\<lambda>p. lower (pol_key_name p) = lower access_policy_name) policies"
      and get: "iot_dps_get client dps_name (Some dps_group) s1 = (Inr d, s2, t2)"
    then have new: "\<not> is_policy_existed policies access_policy_name"
      by (simp add: is_policy_existed_iff)
    note q2 = emits_calls [OF emits_iot_dps_get get]
    have "resubmitted_descriptions (t1 @ t2 @ t) = resubmitted_descriptions t" for t
      using q1 q2 by (simp add: resubmitted_descriptions_append no_resubmission_descriptions)
    then show "map (\<lambda>x. dp_authorization_policies (d_properties x))
              (resubmitted_descriptions (calls (iot_dps_access_policy_create client dps_name dps_group
                 access_policy_name rights primary_key secondary_key no_wait s))) =
              [policies @
                 [\<lparr>pol_key_name = access_policy_name,
                   pol_rights = convert_rights_to_access_rights rights,
                   pol_primary_key = primary_key, pol_secondary_key = secondary_key\<rparr>]]"
      by (simp add: access_policy_create_run(2) [OF assms new get] calls_extend
          dps_submit_calls [OF emits_iot_dps_access_policy_get] dps_description_of_def)
  }
qed

lemma hub_policy_create_checked:
  assumes "convert_perms_to_access_rights permissions = Inr access"
    and "fetch_hub_policies client hub_name rg s = (Inr (g', h', hub_policies), s3, t3)"
  shows "(list_ex (\<lambda>p. lower (pol_key_name p) = lower policy_name) hub_policies \<longrightarrow>
            iot_hub_policy_create client hub_name policy_name permissions rg s =
              (Inl (AlreadyExists (''Policy '' @ policy_name @ '' already existed.'')), s3, t3)
            \<and> resubmissions t3 = [])
       \<and> (\<not> list_ex (\<lambda>p. lower (pol_key_name p) = lower policy_name) hub_policies \<longrightarrow>
            map (\<lambda>x. hp_authorization_policies (h_properties x))
              (resubmitted_hubs (calls (iot_hub_policy_create client hub_name policy_name
                 permissions rg s))) =
              [Some (hub_policies @
                 [\<lparr>pol_key_name = policy_name, pol_rights = access,
                   pol_primary_key = None, pol_secondary_key = None\<rparr>])])"
proof (intro conjI impI)
  note q3 = emits_calls [OF emits_fetch_hub_policies assms(2)]
  {
    assume "list_ex (\<lambda>p. lower (pol_key_name p) = lower policy_name) hub_policies"
    then have dup: "is_policy_existed hub_policies policy_name"
      by (simp add: is_policy_existed_iff)
    show "iot_hub_policy_create client hub_name policy_name permissions rg s =
              (Inl (AlreadyExists (''Policy '' @ policy_name @ '' already existed.'')), s3, t3)"
      by (rule hub_policy_create_run(1) [OF assms dup])
    show "resubmissions t3 = []"
      by (rule no_resubmissions [OF q3])
  }
  {
    assume "\<not> list_ex (\<lambda>p. lower (pol_key_name p) = lower policy_name) hub_policies"
    then have new: "\<not> is_policy_existed hub_policies policy_name"
      by (simp add: is_policy_existed_iff)
    show "map (\<lambda>x. hp_authorization_policies (h_properties x))
              (resubmitted_hubs (calls (iot_hub_policy_create client hub_name policy_name
                 permissions rg s))) =
              [Some (hub_policies @
                 [\<lparr>pol_key_name = policy_name, pol_rights = access,
                   pol_primary_key = None, pol_secondary_key = None\<rparr>])]"
      by (simp add: hub_policy_create_run(2) [OF assms new] resubmitted_after_reads [OF q3])
  }
qed

lemma linked_hub_create_appends:
  assumes "iot_dps_linked_hub_list client dps_name dps_group s = (Inr hubs, s4, t4)"
    and "iot_dps_get client dps_name (Some dps_group) (dps_set_api_version client ''2017-11-15'' s4) =
           (Inr d', s5, t5)"
  shows "map (\<lambda>x. dp_iot_hubs (d_properties x))
           (resubmitted_descriptions (calls (iot_dps_linked_hub_create client dps_name dps_group
              connection_string location apply_allocation_policy allocation_weight no_wait s))) =
           [hubs @
              [\<lparr>lh_name = None, lh_connection_string = connection_string, lh_location = location,
                lh_apply_allocation_policy = apply_allocation_policy,
                lh_allocation_weight = allocation_weight\<rparr>]]"
proof -
  note q4 = emits_calls [OF emits_iot_dps_linked_hub_list assms(1)]
  note q5 = emits_calls [OF emits_iot_dps_get assms(2)]
  have "resubmitted_descriptions (t4 @ Dps_set_api_version ''2017-11-15'' # t5 @ t) =
      resubmitted_descriptions t" for t
    using q4 q5
    by (simp add: resubmitted_descriptions_append resubmitted_descriptions_Cons
        no_resubmission_descriptions)
  then show ?thesis
    by (simp add: linked_hub_create_run [OF assms] calls_extend
        dps_submit_calls [OF emits_iot_dps_linked_hub_list] dps_description_of_def)
qed

lemma routing_endpoint_create_runs:
  assumes "fetch_hub client hub_name rg s = (Inr (g, h), s1, t1)"
    and "hp_routing (h_properties h) = Some r"
    and "AzureStorageContainer ET = lower endpoint_type \<longrightarrow> truthy container_name"
  shows "iot_hub_routing_endpoint_create client ET avro hub_name endpoint_name endpoint_type
           endpoint_resource_group endpoint_subscription_id connection_string container_name
           encoding rg batch_frequency chunk_size_window file_name_format s =
         (case hub_resubmit client g hub_name
            (set_routing h (r\<lparr>rp_endpoints :=
               (if EventHub ET = lower endpoint_type
                then (rp_endpoints r)\<lparr>event_hubs := event_hubs (rp_endpoints r) @
                      [\<lparr>ep_name = endpoint_name, ep_connection_string = connection_string,
                        ep_subscription_id = endpoint_subscription_id,
                        ep_resource_group = endpoint_resource_group\<rparr>]\<rparr>
                else if ServiceBusQueue ET = lower endpoint_type
                then (rp_endpoints r)\<lparr>service_bus_queues := service_bus_queues (rp_endpoints r) @
                      [\<lparr>ep_name = endpoint_name, ep_connection_string = connection_string,
                        ep_subscription_id = endpoint_subscription_id,
                        ep_resource_group = endpoint_resource_group\<rparr>]\<rparr>
                else if ServiceBusTopic ET = lower endpoint_type
                then (rp_endpoints r)\<lparr>service_bus_topics := service_bus_topics (rp_endpoints r) @
                      [\<lparr>ep_name = endpoint_name, ep_connection_string = connection_string,
                        ep_subscription_id = endpoint_subscription_id,
                        ep_resource_group = endpoint_resource_group\<rparr>]\<rparr>
                else if AzureStorageContainer ET = lower endpoint_type
                then (rp_endpoints r)\<lparr>storage_containers := storage_containers (rp_endpoints r) @
                      [\<lparr>ep_name = endpoint_name, ep_connection_string = connection_string,
                        ep_subscription_id = endpoint_subscription_id,
                        ep_resource_group = endpoint_resource_group,
                        sc_container_name = the container_name,
                        sc_encoding = (if truthy encoding then lower (the encoding) else avro),
                        sc_file_name_format = file_name_format,
                        sc_batch_frequency_in_seconds = batch_frequency,
                        sc_max_chunk_size_in_bytes = chunk_size_window * 1048576\<rparr>]\<rparr>
                else rp_endpoints r)\<rparr>)) s1 of
            (res, s2, t2) \<Rightarrow> (res, s2, t1 @ t2))"
  unfolding iot_hub_routing_endpoint_create_def run_after_fetch_hub [OF assms(1)]
  using assms(2,3) by (simp add: routing_of_def cli_bind_return Let_def set_routing_same)

lemma routing_endpoint_create_refuses:
  assumes "fetch_hub client hub_name rg s = (Inr (g, h), s1, t1)"
    and "EventHub ET \<noteq> lower endpoint_type" and "ServiceBusQueue ET \<noteq> lower endpoint_type"
    and "ServiceBusTopic ET \<noteq> lower endpoint_type"
    and "AzureStorageContainer ET = lower endpoint_type" and "\<not> truthy container_name"
  shows "iot_hub_routing_endpoint_create client ET avro hub_name endpoint_name endpoint_type
           endpoint_resource_group endpoint_subscription_id connection_string container_name
           encoding rg batch_frequency chunk_size_window file_name_format s =
         (Inl (InvalidArgument ''Container name is required.''), s1, t1)"
  unfolding iot_hub_routing_endpoint_create_def run_after_fetch_hub [OF assms(1)]
  using assms(2-6) by (simp add: cli_bind_def cli_raise_def Let_def)

lemma creates_on_a_routing_append:
  assumes "fetch_hub client hub_name rg s = (Inr (g, h), s6, t6)"
    and "hp_routing (h_properties h) = Some r"
  shows "map (\<lambda>x. map_option rp_routes (hp_routing (h_properties x)))
           (resubmitted_hubs (calls (iot_hub_route_create client hub_name route_name source_type
              endpoint_names enabled condition rg s))) =
           [Some (rp_routes r @
              [\<lparr>rt_name = route_name, rt_source = source_type,
                rt_endpoint_names = split endpoint_names,
                rt_condition = (case condition of None \<Rightarrow> ''true'' | Some c \<Rightarrow> c),
                rt_is_enabled = (case enabled of None \<Rightarrow> True | Some b \<Rightarrow> b)\<rparr>])]"
    and "map (\<lambda>x. Option.bind (hp_routing (h_properties x)) rp_enrichments)
           (resubmitted_hubs (calls (iot_message_enrichment_create client hub_name key value endpoints
              rg s))) =
           [Some ((case rp_enrichments r of None \<Rightarrow> [] | Some es \<Rightarrow> es) @
              [\<lparr>enr_key = key, enr_value = value, enr_endpoint_names = endpoints\<rparr>])]"
    and "(AzureStorageContainer ET = lower endpoint_type \<longrightarrow> truthy container_name) \<Longrightarrow>
         map (\<lambda>x. map_option rp_endpoints (hp_routing (h_properties x)))
           (resubmitted_hubs (calls (iot_hub_routing_endpoint_create client ET avro hub_name
              endpoint_name endpoint_type endpoint_resource_group endpoint_subscription_id
              connection_string container_name encoding rg batch_frequency chunk_size_window
              file_name_format s))) =
           [Some (if EventHub ET = lower endpoint_type
                then (rp_endpoints r)\<lparr>event_hubs := event_hubs (rp_endpoints r) @
                      [\<lparr>ep_name = endpoint_name, ep_connection_string = connection_string,
                        ep_subscription_id = endpoint_subscription_id,
                        ep_resource_group = endpoint_resource_group\<rparr>]\<rparr>
                else if ServiceBusQueue ET = lower endpoint_type
                then (rp_endpoints r)\<lparr>service_bus_queues := service_bus_queues (rp_endpoints r) @
                      [\<lparr>ep_name = endpoint_name, ep_connection_string = connection_string,
                        ep_subscription_id = endpoint_subscription_id,
                        ep_resource_group = endpoint_resource_group\<rparr>]\<rparr>
                else if ServiceBusTopic ET = lower endpoint_type
                then (rp_endpoints r)\<lparr>service_bus_topics := service_bus_topics (rp_endpoints r) @
                      [\<lparr>ep_name = endpoint_name, ep_connection_string = connection_string,
                        ep_subscription_id = endpoint_subscription_id,
                        ep_resource_group = endpoint_resource_group\<rparr>]\<rparr>
                else if AzureStorageContainer ET = lower endpoint_type
                then (rp_endpoints r)\<lparr>storage_containers := storage_containers (rp_endpoints r) @
                      [\<lparr>ep_name = endpoint_name, ep_connection_string = connection_string,
                        ep_subscription_id = endpoint_subscription_id,
                        ep_resource_group = endpoint_resource_group,
                        sc_container_name = the container_name,
                        sc_encoding = (if truthy encoding then lower (the encoding) else avro),
                        sc_file_name_format = file_name_format,
                        sc_batch_frequency_in_seconds = batch_frequency,
                        sc_max_chunk_size_in_bytes = chunk_size_window * 1048576\<rparr>]\<rparr>
                else rp_endpoints r)]"
  unfolding route_create_run [OF assms] enrichment_create_run [OF assms]
    sent_after_fetch_hub [OF assms(1)]
  subgoal by (simp add: set_routing_def)
  subgoal by (simp add: set_routing_def)
  subgoal
    unfolding routing_endpoint_create_runs [OF assms] sent_after_fetch_hub [OF assms(1)]
    by (simp add: set_routing_def)
  done

text \<open>
  Claim C1, as the code has it. Two create commands check the name. Once the policies have
  been read, the create of an access policy of a provisioning service and the create of a
  shared access policy of a hub (given permissions that name a combination of rights) fail
  with \<open>AlreadyExists\<close>, having resubmitted nothing, if a policy read has a key name equal
  to the new name up to the case of letters; otherwise the parent resource is resubmitted
  once (the provisioning service after it has been read again), and the policies it is
  sent with are the policies read followed by the new one.

  The four other create commands make no check. Once the parent resource has been read
  (the hub with its routing; the linked hubs of the provisioning service listed and the
  service read again), the create of a linked hub, of a route, of a message enrichment
  and of a routing endpoint resubmit the parent once, and the list it is sent with is the
  list read followed by the new entry, whatever names the list read holds. A routing endpoint is appended to the list
  of its type; an endpoint type that is none of the four leaves the endpoints as read; a
  storage container given no container name is refused with \<open>InvalidArgument\<close>.
\<close>

theorem create_checks_policies_only:
  "(iot_dps_access_policy_list client dps_name dps_group s = (Inr policies, s1, t1) \<longrightarrow>
      (list_ex (\<lambda>p. lower (pol_key_name p) = lower access_policy_name) policies \<longrightarrow>
         iot_dps_access_policy_create client dps_name dps_group access_policy_name rights
            primary_key secondary_key no_wait s =
           (Inl (AlreadyExists (''Access policy '' @ access_policy_name @ '' already existed.'')),
            s1, t1)
         \<and> resubmissions t1 = [])
      \<and> (\<not> list_ex (\<lambda>p. lower (pol_key_name p) = lower access_policy_name) policies
           \<and> iot_dps_get client dps_name (Some dps_group) s1 = (Inr d, s2, t2) \<longrightarrow>
           map (\<lambda>x. dp_authorization_policies (d_properties x))
             (resubmitted_descriptions (calls (iot_dps_access_policy_create client dps_name dps_group
                access_policy_name rights primary_key secondary_key no_wait s))) =
             [policies @
                [\<lparr>pol_key_name = access_policy_name,
                  pol_rights = convert_rights_to_access_rights rights,
                  pol_primary_key = primary_key, pol_secondary_key = secondary_key\<rparr>]]))
   \<and> (convert_perms_to_access_rights permissions = Inr access
      \<and> fetch_hub_policies client hub_name rg s = (Inr (g', h', hub_policies), s3, t3) \<longrightarrow>
      (list_ex (\<lambda>p. lower (pol_key_name p) = lower policy_name) hub_policies \<longrightarrow>
         iot_hub_policy_create client hub_name policy_name permissions rg s =
           (Inl (AlreadyExists (''Policy '' @ policy_name @ '' already existed.'')), s3, t3)
         \<and> resubmissions t3 = [])
      \<and> (\<not> list_ex (\<lambda>p. lower (pol_key_name p) = lower policy_name) hub_policies \<longrightarrow>
           map (\<lambda>x. hp_authorization_policies (h_properties x))
             (resubmitted_hubs (calls (iot_hub_policy_create client hub_name policy_name
                permissions rg s))) =
             [Some (hub_policies @
                [\<lparr>pol_key_name = policy_name, pol_rights = access,
                  pol_primary_key = None, pol_secondary_key = None\<rparr>])]))
   \<and> (iot_dps_linked_hub_list client dps_name dps_group s = (Inr hubs, s4, t4)
      \<and> iot_dps_get client dps_name (Some dps_group) (dps_set_api_version client ''2017-11-15'' s4) =
          (Inr d', s5, t5) \<longrightarrow>
      map (\<lambda>x. dp_iot_hubs (d_properties x))
        (resubmitted_descriptions (calls (iot_dps_linked_hub_create client dps_name dps_group
           connection_string location apply_allocation_policy allocation_weight no_wait s))) =
        [hubs @
           [\<lparr>lh_name = None, lh_connection_string = connection_string, lh_location = location,
             lh_apply_allocation_policy = apply_allocation_policy,
             lh_allocation_weight = allocation_weight\<rparr>]])
   \<and> (fetch_hub client hub_name rg s = (Inr (g, h), s6, t6) \<longrightarrow>
      (hp_routing (h_properties h) = Some r \<longrightarrow>
         map (\<lambda>x. map_option rp_routes (hp_routing (h_properties x)))
           (resubmitted_hubs (calls (iot_hub_route_create client hub_name route_name source_type
              endpoint_names enabled condition rg s))) =
           [Some (rp_routes r @
              [\<lparr>rt_name = route_name, rt_source = source_type,
                rt_endpoint_names = split endpoint_names,
                rt_condition = (case condition of None \<Rightarrow> ''true'' | Some c \<Rightarrow> c),
                rt_is_enabled = (case enabled of None \<Rightarrow> True | Some b \<Rightarrow> b)\<rparr>])]
         \<and> map (\<lambda>x. Option.bind (hp_routing (h_properties x)) rp_enrichments)
             (resubmitted_hubs (calls (iot_message_enrichment_create client hub_name key
                enrichment_value endpoints rg s))) =
             [Some ((case rp_enrichments r of None \<Rightarrow> [] | Some es \<Rightarrow> es) @
                [\<lparr>enr_key = key, enr_value = enrichment_value, enr_endpoint_names = endpoints\<rparr>])]
         \<and> ((AzureStorageContainer ET = lower endpoint_type \<longrightarrow> truthy container_name) \<longrightarrow>
              map (\<lambda>x. map_option rp_endpoints (hp_routing (h_properties x)))
                (resubmitted_hubs (calls (iot_hub_routing_endpoint_create client ET avro hub_name
                   endpoint_name endpoint_type endpoint_resource_group endpoint_subscription_id
                   endpoint_connection_string container_name encoding rg batch_frequency
                   chunk_size_window file_name_format s))) =
                [Some (if EventHub ET = lower endpoint_type
                   then (rp_endpoints r)\<lparr>event_hubs := event_hubs (rp_endpoints r) @
                         [\<lparr>ep_name = endpoint_name,
                           ep_connection_string = endpoint_connection_string,
                           ep_subscription_id = endpoint_subscription_id,
                           ep_resource_group = endpoint_resource_group\<rparr>]\<rparr>
                   else if ServiceBusQueue ET = lower endpoint_type
                   then (rp_endpoints r)\<lparr>service_bus_queues := service_bus_queues (rp_endpoints r) @
                         [\<lparr>ep_name = endpoint_name,
                           ep_connection_string = endpoint_connection_string,
                           ep_subscription_id = endpoint_subscription_id,
                           ep_resource_group = endpoint_resource_group\<rparr>]\<rparr>
                   else if ServiceBusTopic ET = lower endpoint_type
                   then (rp_endpoints r)\<lparr>service_bus_topics := service_bus_topics (rp_endpoints r) @
                         [\<lparr>ep_name = endpoint_name,
                           ep_connection_string = endpoint_connection_string,
                           ep_subscription_id = endpoint_subscription_id,
                           ep_resource_group = endpoint_resource_group\<rparr>]\<rparr>
                   else if AzureStorageContainer ET = lower endpoint_type
                   then (rp_endpoints r)\<lparr>storage_containers := storage_containers (rp_endpoints r) @
                         [\<lparr>ep_name = endpoint_name,
                           ep_connection_string = endpoint_connection_string,
                           ep_subscription_id = endpoint_subscription_id,
                           ep_resource_group = endpoint_resource_group,
                           sc_container_name = the container_name,
                           sc_encoding = (if truthy encoding then lower (the encoding) else avro),
                           sc_file_name_format = file_name_format,
                           sc_batch_frequency_in_seconds = batch_frequency,
                           sc_max_chunk_size_in_bytes = chunk_size_window * 1048576\<rparr>]\<rparr>
                   else rp_endpoints r)]))
      \<and> (EventHub ET \<noteq> lower endpoint_type \<and> ServiceBusQueue ET \<noteq> lower endpoint_type
           \<and> ServiceBusTopic ET \<noteq> lower endpoint_type
           \<and> AzureStorageContainer ET = lower endpoint_type \<and> \<not> truthy container_name \<longrightarrow>
           iot_hub_routing_endpoint_create client ET avro hub_name endpoint_name endpoint_type
              endpoint_resource_group endpoint_subscription_id endpoint_connection_string
              container_name encoding rg batch_frequency chunk_size_window file_name_format s =
             (Inl (InvalidArgument ''Container name is required.''), s6, t6)))"
  apply (rule conjI)
   apply (rule impI, rule dps_policy_create_checked, assumption)
  apply (rule conjI)
   apply (rule impI, elim conjE, rule hub_policy_create_checked; assumption)
  apply (rule conjI)
   apply (rule impI, elim conjE, rule linked_hub_create_appends; assumption)
  apply (rule impI)
  apply (rule conjI)
   apply (rule impI)
   apply (rule conjI)
    apply (rule creates_on_a_routing_append(1); assumption)
   apply (rule conjI)
    apply (rule creates_on_a_routing_append(2); assumption)
   apply (rule impI, rule creates_on_a_routing_append(3); assumption)
  apply (rule impI, elim conjE, rule routing_endpoint_create_refuses; assumption)
  done

theorem create_checks_policies_only_witness:
  "iot_dps_access_policy_list demo_sdk ''dps1'' ''rg1'' 0 =
     (Inr [demo_dps_policy], 0, [Dps_get ''dps1'' ''rg1'', Dps_list_keys ''dps1'' ''rg1''])
   \<and> list_ex (\<lambda>p. lower (pol_key_name p) = lower ''Policy1'') [demo_dps_policy]
   \<and> iot_dps_access_policy_create demo_sdk ''dps1'' ''rg1'' ''Policy1'' [''ServiceConfig''] None None
         True 0 =
       (Inl (AlreadyExists ''Access policy Policy1 already existed.''), 0,
        [Dps_get ''dps1'' ''rg1'', Dps_list_keys ''dps1'' ''rg1''])
   \<and> \<not> list_ex (\<lambda>p. lower (pol_key_name p) = lower ''policy2'') [demo_dps_policy]
   \<and> iot_dps_get demo_sdk ''dps1'' (Some ''rg1'') 0 = (Inr demo_dps, 0, [Dps_get ''dps1'' ''rg1''])
   \<and> map (\<lambda>x. dp_authorization_policies (d_properties x))
       (resubmitted_descriptions (calls (iot_dps_access_policy_create demo_sdk ''dps1'' ''rg1''
          ''policy2'' [''ServiceConfig''] None None True 0))) =
       [[demo_dps_policy,
         \<lparr>pol_key_name = ''policy2'', pol_rights = ''ServiceConfig'', pol_primary_key = None,
           pol_secondary_key = None\<rparr>]]
   \<and> convert_perms_to_access_rights [''registryread''] = Inr registry_read
   \<and> fetch_hub_policies demo_sdk ''hub1'' (Some ''rg1'') 0 =
       (Inr (''rg1'', demo_hub, [demo_hub_policy]), 0,
        [Resource_groups_check_existence ''rg1'', Hub_check_name_availability ''hub1'',
         Hub_get ''rg1'' ''hub1'', Hub_list_keys ''rg1'' ''hub1''])
   \<and> list_ex (\<lambda>p. lower (pol_key_name p) = lower ''IotHubOwner'') [demo_hub_policy]
   \<and> iot_hub_policy_create demo_sdk ''hub1'' ''IotHubOwner'' [''registryread''] (Some ''rg1'') 0 =
       (Inl (AlreadyExists ''Policy IotHubOwner already existed.''), 0,
        [Resource_groups_check_existence ''rg1'', Hub_check_name_availability ''hub1'',
         Hub_get ''rg1'' ''hub1'', Hub_list_keys ''rg1'' ''hub1''])
   \<and> \<not> list_ex (\<lambda>p. lower (pol_key_name p) = lower ''reader'') [demo_hub_policy]
   \<and> map (\<lambda>x. hp_authorization_policies (h_properties x))
       (resubmitted_hubs (calls (iot_hub_policy_create demo_sdk ''hub1'' ''reader'' [''registryread'']
          (Some ''rg1'') 0))) =
       [Some [demo_hub_policy,
          \<lparr>pol_key_name = ''reader'', pol_rights = registry_read, pol_primary_key = None,
            pol_secondary_key = None\<rparr>]]
   \<and> iot_dps_linked_hub_list demo_sdk ''dps1'' ''rg1'' 0 =
       (Inr [demo_linked_hub], 0, [Dps_get ''dps1'' ''rg1''])
   \<and> iot_dps_get demo_sdk ''dps1'' (Some ''rg1'') (dps_set_api_version demo_sdk ''2017-11-15'' 0) =
       (Inr demo_dps, 0, [Dps_get ''dps1'' ''rg1''])
   \<and> lh_connection_string demo_linked_hub = ''HostName=hub1''
   \<and> map (\<lambda>x. dp_iot_hubs (d_properties x))
       (resubmitted_descriptions (calls (iot_dps_linked_hub_create demo_sdk ''dps1'' ''rg1''
          ''HostName=hub1'' ''westus'' None None True 0))) =
       [[demo_linked_hub,
         \<lparr>lh_name = None, lh_connection_string = ''HostName=hub1'', lh_location = ''westus'',
           lh_apply_allocation_policy = None, lh_allocation_weight = None\<rparr>]]
   \<and> fetch_hub demo_sdk ''hub1'' (Some ''rg1'') 0 =
       (Inr (''rg1'', demo_hub), 0,
        [Resource_groups_check_existence ''rg1'', Hub_check_name_availability ''hub1'',
         Hub_get ''rg1'' ''hub1''])
   \<and> hp_routing (h_properties demo_hub) = Some demo_routing
   \<and> map (\<lambda>x. map_option (map rt_name \<circ> rp_routes) (hp_routing (h_properties x)))
       (resubmitted_hubs (calls (iot_hub_route_create demo_sdk ''hub1'' ''route1'' ''DeviceMessages''
          ''E2'' None None (Some ''rg1'') 0))) =
       [Some [''route1'', ''route1'']]
   \<and> map (\<lambda>x. map_option (map enr_key) (Option.bind (hp_routing (h_properties x)) rp_enrichments))
       (resubmitted_hubs (calls (iot_message_enrichment_create demo_sdk ''hub1'' ''k1'' ''v2'' [''E2'']
          (Some ''rg1'') 0))) =
       [Some [''k1'', ''k1'']]
   \<and> AzureStorageContainer demo_types \<noteq> lower ''EventHub''
   \<and> map (\<lambda>x. map_option (map ep_name \<circ> event_hubs \<circ> rp_endpoints) (hp_routing (h_properties x)))
       (resubmitted_hubs (calls (iot_hub_routing_endpoint_create demo_sdk demo_types ''avro'' ''hub1''
          ''E1'' ''EventHub'' ''rg1'' ''sub1'' ''Endpoint=sb://y'' None None (Some ''rg1'') 300 300
          ''{iothub}/{partition}'' 0))) =
       [Some [''E1'', ''E2'', ''E1'']]
   \<and> EventHub demo_types \<noteq> lower ''AzureStorageContainer''
   \<and> ServiceBusQueue demo_types \<noteq> lower ''AzureStorageContainer''
   \<and> ServiceBusTopic demo_types \<noteq> lower ''AzureStorageContainer''
   \<and> AzureStorageContainer demo_types = lower ''AzureStorageContainer''
   \<and> \<not> truthy None
   \<and> iot_hub_routing_endpoint_create demo_sdk demo_types ''avro'' ''hub1'' ''S1''
         ''AzureStorageContainer'' ''rg1'' ''sub1'' ''Endpoint=sb://y'' None None (Some ''rg1'') 300 300
         ''{iothub}/{partition}'' 0 =
       (Inl (InvalidArgument ''Container name is required.''), 0,
        [Resource_groups_check_existence ''rg1'', Hub_check_name_availability ''hub1'',
         Hub_get ''rg1'' ''hub1''])"
proof -
  have dup: "list_ex (\<lambda>p. lower (pol_key_name p) = lower ''Policy1'') [demo_dps_policy]"
    "list_ex (\<lambda>p. lower (pol_key_name p) = lower ''IotHubOwner'') [demo_hub_policy]"
    by (simp_all add: demo_dps_policy_def demo_hub_policy_def lower_def lower_char_def)
  have new: "\<not> list_ex (\<lambda>p. lower (pol_key_name p) = lower ''policy2'') [demo_dps_policy]"
    "\<not> list_ex (\<lambda>p. lower (pol_key_name p) = lower ''reader'') [demo_hub_policy]"
    by (simp_all add: demo_dps_policy_def demo_hub_policy_def lower_def lower_char_def)
  have perms: "convert_perms_to_access_rights [''registryread''] = Inr registry_read"
    by (simp add: convert_perms_to_access_rights_def access_rights_mapping_def)
  have again: "iot_dps_get demo_sdk ''dps1'' (Some ''rg1'')
      (dps_set_api_version demo_sdk ''2017-11-15'' 0) = (Inr demo_dps, 0, [Dps_get ''dps1'' ''rg1''])"
    using demo_dps_reads(1) [of 0] by (simp add: demo_sdk_def)
  have types: "AzureStorageContainer demo_types \<noteq> lower ''EventHub''"
    "EventHub demo_types = lower ''EventHub''"
    "EventHub demo_types \<noteq> lower ''AzureStorageContainer''"
    "ServiceBusQueue demo_types \<noteq> lower ''AzureStorageContainer''"
    "ServiceBusTopic demo_types \<noteq> lower ''AzureStorageContainer''"
    "AzureStorageContainer demo_types = lower ''AzureStorageContainer''"
    by (simp_all add: demo_types_def lower_def lower_char_def)
  have none: "\<not> truthy (None :: string option)"
    by simp
  note claim = create_checks_policies_only [where s = 0 and client = demo_sdk
      and rights = "[''ServiceConfig'']" and primary_key = None and secondary_key = None
      and no_wait = True and permissions = "[''registryread'']"
      and connection_string = "''HostName=hub1''" and location = "''westus''"
      and apply_allocation_policy = None and allocation_weight = None
      and route_name = "''route1''" and source_type = "''DeviceMessages''"
      and endpoint_names = "''E2''" and enabled = None and condition = None
      and key = "''k1''" and enrichment_value = "''v2''" and endpoints = "[''E2'']"
      and ET = demo_types and container_name = None and avro = "''avro''"
      and endpoint_resource_group = "''rg1''" and endpoint_subscription_id = "''sub1''"
      and endpoint_connection_string = "''Endpoint=sb://y''" and encoding = None
      and batch_frequency = 300 and chunk_size_window = 300
      and file_name_format = "''{iothub}/{partition}''"]
  note taken = claim [where access_policy_name = "''Policy1''" and policy_name = "''IotHubOwner''"
      and endpoint_name = "''E1''" and endpoint_type = "''EventHub''"]
  note free = claim [where access_policy_name = "''policy2''" and policy_name = "''reader''"
      and endpoint_name = "''S1''" and endpoint_type = "''AzureStorageContainer''"]
  note dps_dup = taken [THEN conjunct1, THEN mp, OF demo_dps_reads(2) [of 0], THEN conjunct1,
      THEN mp, OF dup(1)]
  note dps_new = free [THEN conjunct1, THEN mp, OF demo_dps_reads(2) [of 0], THEN conjunct2,
      THEN mp, OF conjI [OF new(1) demo_dps_reads(1) [of 0]]]
  note policy_dup = taken [THEN conjunct2, THEN conjunct1, THEN mp,
      OF conjI [OF perms demo_hub_reads(2) [of 0]], THEN conjunct1, THEN mp, OF dup(2)]
  note policy_new = free [THEN conjunct2, THEN conjunct1, THEN mp,
      OF conjI [OF perms demo_hub_reads(2) [of 0]], THEN conjunct2, THEN mp, OF new(2)]
  note linked = taken [THEN conjunct2, THEN conjunct2, THEN conjunct1, THEN mp,
      OF conjI [OF demo_dps_reads(3) [of 0] again]]
  note routing = taken [THEN conjunct2, THEN conjunct2, THEN conjunct2, THEN mp,
      OF demo_hub_reads(1) [of 0], THEN conjunct1, THEN mp, OF demo_hub_facts(2)]
  note route = routing [THEN conjunct1]
  note enrichment = routing [THEN conjunct2, THEN conjunct1]
  note endpoint = routing [THEN conjunct2, THEN conjunct2, THEN mp]
  note refusal = free [THEN conjunct2, THEN conjunct2, THEN conjunct2, THEN mp,
      OF demo_hub_reads(1) [of 0], THEN conjunct2, THEN mp,
      OF conjI [OF types(3) conjI [OF types(4) conjI [OF types(5) conjI [OF types(6) none]]]]]
  have a: "map (\<lambda>x. dp_authorization_policies (d_properties x))
       (resubmitted_descriptions (calls (iot_dps_access_policy_create demo_sdk ''dps1'' ''rg1''
          ''policy2'' [''ServiceConfig''] None None True 0))) =
       [[demo_dps_policy,
         \<lparr>pol_key_name = ''policy2'', pol_rights = ''ServiceConfig'', pol_primary_key = None,
           pol_secondary_key = None\<rparr>]]"
    unfolding dps_new by (simp add: convert_rights_to_access_rights_def)
  have b: "map (\<lambda>x. hp_authorization_policies (h_properties x))
       (resubmitted_hubs (calls (iot_hub_policy_create demo_sdk ''hub1'' ''reader'' [''registryread'']
          (Some ''rg1'') 0))) =
       [Some [demo_hub_policy,
          \<lparr>pol_key_name = ''reader'', pol_rights = registry_read, pol_primary_key = None,
            pol_secondary_key = None\<rparr>]]"
    unfolding policy_new by simp
  have c: "map (\<lambda>x. dp_iot_hubs (d_properties x))
       (resubmitted_descriptions (calls (iot_dps_linked_hub_create demo_sdk ''dps1'' ''rg1''
          ''HostName=hub1'' ''westus'' None None True 0))) =
       [[demo_linked_hub,
         \<lparr>lh_name = None, lh_connection_string = ''HostName=hub1'', lh_location = ''westus'',
           lh_apply_allocation_policy = None, lh_allocation_weight = None\<rparr>]]"
    unfolding linked by simp
  have d: "map (\<lambda>x. map_option (map rt_name \<circ> rp_routes) (hp_routing (h_properties x)))
       (resubmitted_hubs (calls (iot_hub_route_create demo_sdk ''hub1'' ''route1'' ''DeviceMessages''
          ''E2'' None None (Some ''rg1'') 0))) =
       [Some [''route1'', ''route1'']]"
    using route [THEN arg_cong, where f = "map (map_option (map rt_name))"]
    by (simp add: option.map_comp comp_def demo_routing_def demo_route_def)
  have e: "map (\<lambda>x. map_option (map enr_key) (Option.bind (hp_routing (h_properties x)) rp_enrichments))
       (resubmitted_hubs (calls (iot_message_enrichment_create demo_sdk ''hub1'' ''k1'' ''v2'' [''E2'']
          (Some ''rg1'') 0))) =
       [Some [''k1'', ''k1'']]"
    using enrichment [THEN arg_cong, where f = "map (map_option (map enr_key))"]
    by (simp add: comp_def demo_routing_def demo_enrichment_def)
  have f: "map (\<lambda>x. map_option (map ep_name \<circ> event_hubs \<circ> rp_endpoints) (hp_routing (h_properties x)))
       (resubmitted_hubs (calls (iot_hub_routing_endpoint_create demo_sdk demo_types ''avro'' ''hub1''
          ''E1'' ''EventHub'' ''rg1'' ''sub1'' ''Endpoint=sb://y'' None None (Some ''rg1'') 300 300
          ''{iothub}/{partition}'' 0))) =
       [Some [''E1'', ''E2'', ''E1'']]"
    using endpoint [THEN arg_cong, where f = "map (map_option (map ep_name \<circ> event_hubs))"]
      types(1,2)
    by (simp add: option.map_comp comp_def demo_routing_def demo_endpoints_def demo_endpoint_def)
  have conn: "lh_connection_string demo_linked_hub = ''HostName=hub1''"
    by (simp add: demo_linked_hub_def)
  show ?thesis
    unfolding a b c d e f
    using demo_dps_reads [of 0] demo_hub_reads [of 0] demo_hub_facts(2) dup new perms again types none
      conn dps_dup policy_dup refusal
    by simp
qed

text \<open>
  The claim as the specification states it, for every create, fails for the create of a
  route: under a name that a route of the hub carries up to case it succeeds, and the hub
  it resubmits lists both routes.
\<close>

theorem route_create_takes_a_duplicate_counterexample:
  "list_ex (\<lambda>route. lower (rt_name route) = lower ''Route1'') (rp_routes demo_routing)
   \<and> outcome (iot_hub_route_create demo_sdk ''hub1'' ''Route1'' ''DeviceMessages'' ''E2'' None None
        (Some ''rg1'') 0) = Inr (Poller 0)
   \<and> map (\<lambda>h. map rt_name (case hp_routing (h_properties h) of None \<Rightarrow> [] | Some r \<Rightarrow> rp_routes r))
        (resubmitted_hubs (calls (iot_hub_route_create demo_sdk ''hub1'' ''Route1'' ''DeviceMessages''
           ''E2'' None None (Some ''rg1'') 0))) =
       [[''route1'', ''Route1'']]"
  by (simp add: route_create_run [OF demo_hub_reads(1) demo_hub_facts(2)] demo_hub_resubmit
      outcome_def calls_def resubmitted_hubs_def List.map_filter_simps set_routing_def)
     (simp add: demo_routing_def demo_route_def lower_def lower_char_def)

section \<open>C2: updates and deletes under a name that is not there\<close>










section \<open>C3: a partial update\<close>

text \<open>
  Claim C3 asks that an update gives every supplied field its new value and leaves the
  omitted fields alone. The access policy \<open>policy1\<close> has the primary key \<open>A\<close> and the
  secondary key \<open>B\<close>. An update under the name \<open>Policy1\<close> that supplies the secondary key
  \<open>C\<close> passes the existence check, succeeds, and resubmits the policy with the secondary
  key \<open>B\<close>: the supplied value is dropped.
\<close>

theorem access_policy_update_drops_supplied_key:
  "pol_key_name demo_dps_policy = ''policy1''
   \<and> pol_primary_key demo_dps_policy = Some ''A''
   \<and> pol_secondary_key demo_dps_policy = Some ''B''
   \<and> is_policy_existed [demo_dps_policy] ''Policy1''
   \<and> outcome (iot_dps_access_policy_update demo_sdk ''dps1'' ''rg1'' ''Policy1'' None (Some ''C'')
         None True 0) = Inr (NoWait (Poller 0))
   \<and> map (\<lambda>d. map (\<lambda>p. (pol_key_name p, pol_primary_key p, pol_secondary_key p))
                (dp_authorization_policies (d_properties d)))
       (resubmitted_descriptions (calls (iot_dps_access_policy_update demo_sdk ''dps1'' ''rg1''
          ''Policy1'' None (Some ''C'') None True 0))) =
       [[(''policy1'', Some ''A'', Some ''B'')]]"
proof -
  have run: "iot_dps_access_policy_update demo_sdk ''dps1'' ''rg1'' ''Policy1'' None (Some ''C'')
         None True 0 =
       (Inr (NoWait (Poller 0)), 1,
        [Dps_get ''dps1'' ''rg1'', Dps_list_keys ''dps1'' ''rg1'', Dps_get ''dps1'' ''rg1'',
         Dps_create_or_update ''rg1'' ''dps1''
           (dps_description_of demo_dps
              \<lparr>dp_iot_hubs = dp_iot_hubs (d_properties demo_dps),
               dp_allocation_policy = dp_allocation_policy (d_properties demo_dps),
               dp_authorization_policies = [demo_dps_policy]\<rparr>) None])"
    using access_policy_assign_other [OF demo_case_variants(2), of None "Some ''C''" None]
    by (simp add: access_policy_update_run [OF demo_dps_reads(2) demo_case_variants(1) demo_dps_reads(1)]
        demo_dps_submit_no_wait)
  show ?thesis
    unfolding run
    by (simp add: outcome_def calls_def resubmitted_descriptions_def List.map_filter_simps
        dps_description_of_def demo_case_variants) (simp add: demo_dps_policy_def)
qed

section \<open>C4: a delete by name and type\<close>

text \<open>
  Claim C4, as the code has it. When a routing-endpoint delete is given both an endpoint
  name and an endpoint type, the list of the given type is emptied first (no list, when
  the type is none of the four); the removal by name then works on the lists that are
  left, in the order service bus queues, service bus topics, storage containers, event
  hubs, and only the first of them that holds a name equal up to case loses its entries
  of that name. The hub is resubmitted once, and the routing of the hub sent holds the
  result.
\<close>

theorem delete_by_type_then_by_name:
  assumes "truthy endpoint_name" and "truthy endpoint_type"
    and "fetch_hub client hub_name resource_group_name s = (Inr (g, h), s1, t1)"
    and "hp_routing (h_properties h) = Some r"
  shows "map (\<lambda>x. hp_routing (h_properties x))
           (resubmitted_hubs (calls (iot_hub_routing_endpoint_delete client ET hub_name endpoint_name
              endpoint_type resource_group_name s))) =
           [Some (r\<lparr>rp_endpoints :=
              delete_routing_endpoints ET endpoint_name endpoint_type (rp_endpoints r)\<rparr>)]
     \<and> delete_routing_endpoints ET endpoint_name endpoint_type endpoints =
           delete_routing_endpoints ET endpoint_name None
             (delete_routing_endpoints ET None endpoint_type endpoints)
     \<and> delete_routing_endpoints ET None endpoint_type endpoints =
         (if ServiceBusQueue ET = lower (the endpoint_type)
          then endpoints\<lparr>service_bus_queues := []\<rparr>
          else if ServiceBusTopic ET = lower (the endpoint_type)
          then endpoints\<lparr>service_bus_topics := []\<rparr>
          else if AzureStorageContainer ET = lower (the endpoint_type)
          then endpoints\<lparr>storage_containers := []\<rparr>
          else if EventHub ET = lower (the endpoint_type)
          then endpoints\<lparr>event_hubs := []\<rparr>
          else endpoints)
     \<and> delete_routing_endpoints ET endpoint_name None cleared =
         (if named (the endpoint_name) (service_bus_queues cleared)
          then cleared\<lparr>service_bus_queues := unnamed (the endpoint_name) (service_bus_queues cleared)\<rparr>
          else if named (the endpoint_name) (service_bus_topics cleared)
          then cleared\<lparr>service_bus_topics := unnamed (the endpoint_name) (service_bus_topics cleared)\<rparr>
          else if named (the endpoint_name) (storage_containers cleared)
          then cleared\<lparr>storage_containers := unnamed (the endpoint_name) (storage_containers cleared)\<rparr>
          else if named (the endpoint_name) (event_hubs cleared)
          then cleared\<lparr>event_hubs := unnamed (the endpoint_name) (event_hubs cleared)\<rparr>
          else cleared)"
proof -
  have none: "\<not> truthy (None :: string option)"
    by simp
  show ?thesis
    using sent_routing_endpoint_delete [OF assms(3,4)] delete_by_both [OF assms(1,2)]
      delete_by_type_only [OF none assms(2)] delete_by_name_only [OF assms(1)]
    by simp
qed

theorem delete_by_type_then_by_name_witness:
  "truthy (Some ''e1'') \<and> truthy (Some ''ServiceBusQueue'')
   \<and> fetch_hub demo_sdk ''hub1'' (Some ''rg1'') 0 =
       (Inr (''rg1'', demo_hub), 0,
        [Resource_groups_check_existence ''rg1'', Hub_check_name_availability ''hub1'',
         Hub_get ''rg1'' ''hub1''])
   \<and> hp_routing (h_properties demo_hub) = Some demo_routing
   \<and> map ep_name (service_bus_queues (rp_endpoints demo_routing)) = [''Q1'']
   \<and> map ep_name (event_hubs (rp_endpoints demo_routing)) = [''E1'', ''E2'']
   \<and> map (map_option (\<lambda>r. (map ep_name (service_bus_queues (rp_endpoints r)),
                             map ep_name (service_bus_topics (rp_endpoints r)),
                             map ep_name (storage_containers (rp_endpoints r)),
                             map ep_name (event_hubs (rp_endpoints r)))))
       (map (\<lambda>x. hp_routing (h_properties x))
          (resubmitted_hubs (calls (iot_hub_routing_endpoint_delete demo_sdk demo_types ''hub1''
             (Some ''e1'') (Some ''ServiceBusQueue'') (Some ''rg1'') 0)))) =
       [Some ([], [], [], [''E2''])]
   \<and> delete_routing_endpoints demo_types None (Some ''ServiceBusQueue'') demo_endpoints =
       demo_endpoints\<lparr>service_bus_queues := []\<rparr>
   \<and> delete_routing_endpoints demo_types (Some ''e1'') None (demo_endpoints\<lparr>service_bus_queues := []\<rparr>) =
       demo_endpoints\<lparr>service_bus_queues := [], event_hubs := [demo_endpoint ''E2'']\<rparr>
   \<and> delete_routing_endpoints demo_types (Some ''e1'') None demo_endpoints_twice = demo_endpoints_twice
   \<and> delete_routing_endpoints demo_types (Some ''q1'') None demo_endpoints_twice =
       demo_endpoints_twice\<lparr>service_bus_queues := []\<rparr>"
proof -
  have h1: "truthy (Some ''e1'')" and h2: "truthy (Some ''ServiceBusQueue'')"
    by simp_all
  have r: "rp_endpoints demo_routing = demo_endpoints"
    by (simp add: demo_routing_def)
  have t: "lower (the (Some ''ServiceBusQueue'')) = ServiceBusQueue demo_types"
    by (simp add: lower_def lower_char_def demo_types_def)
  have n: "\<not> named (the (Some ''e1'')) (service_bus_queues (demo_endpoints\<lparr>service_bus_queues := []\<rparr>))"
    "\<not> named (the (Some ''e1'')) (service_bus_topics (demo_endpoints\<lparr>service_bus_queues := []\<rparr>))"
    "\<not> named (the (Some ''e1'')) (storage_containers (demo_endpoints\<lparr>service_bus_queues := []\<rparr>))"
    "named (the (Some ''e1'')) (event_hubs (demo_endpoints\<lparr>service_bus_queues := []\<rparr>))"
    "unnamed (the (Some ''e1'')) (event_hubs (demo_endpoints\<lparr>service_bus_queues := []\<rparr>)) =
       [demo_endpoint ''E2'']"
    by (simp_all add: named_def unnamed_def demo_endpoints_def demo_endpoint_def lower_def lower_char_def)
  have m: "\<not> named (the (Some ''e1'')) (service_bus_queues demo_endpoints_twice)"
    "\<not> named (the (Some ''e1'')) (service_bus_topics demo_endpoints_twice)"
    "\<not> named (the (Some ''e1'')) (storage_containers demo_endpoints_twice)"
    "\<not> named (the (Some ''e1'')) (event_hubs demo_endpoints_twice)"
    by (simp_all add: named_def demo_endpoints_twice_def demo_endpoint_def lower_def lower_char_def)
  have q: "named (the (Some ''q1'')) (service_bus_queues demo_endpoints_twice)"
    "unnamed (the (Some ''q1'')) (service_bus_queues demo_endpoints_twice) = []"
    by (simp_all add: named_def unnamed_def demo_endpoints_twice_def demo_endpoint_def lower_def
        lower_char_def)
  note run = delete_by_type_then_by_name [OF h1 h2 demo_hub_reads(1) demo_hub_facts(2),
      where s = 0 and ET = demo_types and endpoints = demo_endpoints]
  note sent = run [THEN conjunct1]
  note both = run [THEN conjunct2, THEN conjunct1]
  note by_type = run [THEN conjunct2, THEN conjunct2, THEN conjunct1]
  note by_name = run [THEN conjunct2, THEN conjunct2, THEN conjunct2]
  have p1: "delete_routing_endpoints demo_types None (Some ''ServiceBusQueue'') demo_endpoints =
       demo_endpoints\<lparr>service_bus_queues := []\<rparr>"
    unfolding by_type t by simp
  have p2: "delete_routing_endpoints demo_types (Some ''e1'') None
        (demo_endpoints\<lparr>service_bus_queues := []\<rparr>) =
       demo_endpoints\<lparr>service_bus_queues := [], event_hubs := [demo_endpoint ''E2'']\<rparr>"
    unfolding by_name [of "demo_endpoints\<lparr>service_bus_queues := []\<rparr>"] using n by simp
  have p3: "delete_routing_endpoints demo_types (Some ''e1'') None demo_endpoints_twice =
      demo_endpoints_twice"
    unfolding by_name [of demo_endpoints_twice] using m by simp
  have p4: "delete_routing_endpoints demo_types (Some ''q1'') None demo_endpoints_twice =
       demo_endpoints_twice\<lparr>service_bus_queues := []\<rparr>"
    using delete_by_type_then_by_name [OF _ h2 demo_hub_reads(1) demo_hub_facts(2),
      where s = 0 and endpoint_name = "Some ''q1''" and ET = demo_types
        and cleared = demo_endpoints_twice] q
    by simp
  have p: "delete_routing_endpoints demo_types (Some ''e1'') (Some ''ServiceBusQueue'') demo_endpoints =
       demo_endpoints\<lparr>service_bus_queues := [], event_hubs := [demo_endpoint ''E2'']\<rparr>"
    unfolding both p1 p2 by (rule refl)
  have s: "map (\<lambda>x. hp_routing (h_properties x))
          (resubmitted_hubs (calls (iot_hub_routing_endpoint_delete demo_sdk demo_types ''hub1''
             (Some ''e1'') (Some ''ServiceBusQueue'') (Some ''rg1'') 0))) =
       [Some (demo_routing\<lparr>rp_endpoints :=
          demo_endpoints\<lparr>service_bus_queues := [], event_hubs := [demo_endpoint ''E2'']\<rparr>\<rparr>)]"
    unfolding sent r p by (rule refl)
  show ?thesis
    unfolding s p1 p2 p3 p4
    using h1 h2 demo_hub_reads(1) [of 0] demo_hub_facts(2)
    by (simp add: r) (simp add: demo_endpoints_def demo_endpoint_def)
qed

text \<open>
  The claim as the specification states it (the removal by name comes first, and only the
  first list that holds the name changes) fails where a queue and an event hub carry the
  given name and the type is that of the queues. Removal by name first takes the queue,
  the first list that holds the name, and leaves the event hub, whether or not the list
  of queues is emptied afterwards; the code empties the queues first, so that the removal
  by name finds the event hub and removes it.
\<close>

theorem delete_by_name_first_counterexample:
  "map ep_name (service_bus_queues demo_endpoints_twice) = [''Q1'']
   \<and> map ep_name (event_hubs demo_endpoints_twice) = [''Q1'']
   \<and> map ep_name (event_hubs (delete_routing_endpoints demo_types (Some ''Q1'') None
         demo_endpoints_twice)) = [''Q1'']
   \<and> map ep_name (event_hubs (delete_routing_endpoints demo_types None (Some ''servicebusqueue'')
         (delete_routing_endpoints demo_types (Some ''Q1'') None demo_endpoints_twice))) = [''Q1'']
   \<and> map ep_name (event_hubs (delete_routing_endpoints demo_types (Some ''Q1'')
         (Some ''servicebusqueue'') demo_endpoints_twice)) = []
   \<and> delete_routing_endpoints demo_types (Some ''Q1'') (Some ''servicebusqueue'') demo_endpoints_twice \<noteq>
       delete_routing_endpoints demo_types None (Some ''servicebusqueue'')
         (delete_routing_endpoints demo_types (Some ''Q1'') None demo_endpoints_twice)
   \<and> delete_routing_endpoints demo_types (Some ''Q1'') (Some ''servicebusqueue'') demo_endpoints_twice \<noteq>
       delete_routing_endpoints demo_types (Some ''Q1'') None demo_endpoints_twice"
proof -
  have both: "delete_routing_endpoints demo_types (Some ''Q1'') (Some ''servicebusqueue'')
      demo_endpoints_twice =
      \<lparr>service_bus_queues = [], service_bus_topics = [], event_hubs = [], storage_containers = []\<rparr>"
    by (simp add: delete_routing_endpoints_def demo_types_def demo_endpoints_twice_def
        demo_endpoint_def lower_def lower_char_def)
  have name_only: "delete_routing_endpoints demo_types (Some ''Q1'') None demo_endpoints_twice =
      \<lparr>service_bus_queues = [], service_bus_topics = [],
       event_hubs = [demo_endpoint ''Q1''], storage_containers = []\<rparr>"
    by (simp add: delete_routing_endpoints_def demo_types_def demo_endpoints_twice_def
        demo_endpoint_def lower_def lower_char_def)
  have name_first: "delete_routing_endpoints demo_types None (Some ''servicebusqueue'')
      \<lparr>service_bus_queues = [], service_bus_topics = [],
       event_hubs = [demo_endpoint ''Q1''], storage_containers = []\<rparr> =
      \<lparr>service_bus_queues = [], service_bus_topics = [],
       event_hubs = [demo_endpoint ''Q1''], storage_containers = []\<rparr>"
    by (simp add: delete_routing_endpoints_def demo_types_def lower_def lower_char_def)
  show ?thesis
    unfolding both name_only name_first
    by (simp add: demo_endpoints_twice_def demo_endpoint_def)
qed

section \<open>C5: a lookup by name alone\<close>

text \<open>
  Claim C5. With the resource group omitted, \<open>iot_hub_get\<close> and \<open>iot_dps_get\<close> make one
  call, the listing of the whole subscription, and return the first listed resource whose
  name equals the requested name up to the case of letters; when no listed resource
  matches they fail with \<open>NotFound\<close>. The listed resources carry their names, as the
  service fills them.
\<close>

theorem lookup_by_name_takes_first_match:
  assumes "hub_list_by_subscription client s = (Inr (Some hubs), s1)"
    and "list_all (\<lambda>x. h_name x \<noteq> None) hubs"
    and "dps_list_by_subscription client s = (Inr (Some services), s2)"
    and "list_all (\<lambda>x. d_name x \<noteq> None) services"
  shows "iot_hub_get client hub_name None s =
           ((case find (\<lambda>x. map_option lower (h_name x) = Some (lower hub_name)) hubs of
               Some target_hub \<Rightarrow> Inr target_hub
             | None \<Rightarrow> Inl (NotFound (''No IoT Hub found with name '' @ hub_name @
                                      '' in current subscription.''))),
            s1, [Hub_list_by_subscription])
       \<and> iot_dps_get client dps_name None s =
           ((case find (\<lambda>x. map_option lower (d_name x) = Some (lower dps_name)) services of
               Some target_dps \<Rightarrow> Inr target_dps
             | None \<Rightarrow> Inl (NotFound (''No DPS found with name '' @ dps_name @
                                      '' in current subscription.''))),
            s2, [Dps_list_by_subscription])"
  using assms
  by (simp add: iot_hub_get_def get_iot_hub_by_name_def iot_hub_list_def iot_dps_get_def
      get_iot_dps_by_name_def iot_dps_list_def cli_bind_def cli_return_def cli_raise_def invoke_def
      next_by_name_find split: option.splits)

theorem lookup_by_name_takes_first_match_witness:
  "hub_list_by_subscription demo_subscription 0 = (Inr (Some demo_hubs), 0)
   \<and> list_all (\<lambda>x. h_name x \<noteq> None) demo_hubs
   \<and> dps_list_by_subscription demo_subscription 0 = (Inr (Some demo_services), 0)
   \<and> list_all (\<lambda>x. d_name x \<noteq> None) demo_services
   \<and> map (\<lambda>x. (h_name x, h_location x)) demo_hubs =
       [(Some ''hub0'', ''westus''), (Some ''hub1'', ''westus''), (Some ''HUB1'', ''eastus'')]
   \<and> map (\<lambda>x. (d_name x, d_location x)) demo_services =
       [(Some ''dps0'', ''westus''), (Some ''dps1'', ''westus''), (Some ''DPS1'', ''eastus'')]
   \<and> iot_hub_get demo_subscription ''Hub1'' None 0 = (Inr (demo_hubs ! 1), 0, [Hub_list_by_subscription])
   \<and> iot_dps_get demo_subscription ''Dps1'' None 0 =
       (Inr (demo_services ! 1), 0, [Dps_list_by_subscription])
   \<and> iot_hub_get demo_subscription ''hub9'' None 0 =
       (Inl (NotFound ''No IoT Hub found with name hub9 in current subscription.''), 0,
        [Hub_list_by_subscription])
   \<and> iot_dps_get demo_subscription ''dps9'' None 0 =
       (Inl (NotFound ''No DPS found with name dps9 in current subscription.''), 0,
        [Dps_list_by_subscription])"
proof -
  have h1: "hub_list_by_subscription demo_subscription 0 = (Inr (Some demo_hubs), 0)"
    and h3: "dps_list_by_subscription demo_subscription 0 = (Inr (Some demo_services), 0)"
    by (simp_all add: demo_subscription_def)
  have h2: "list_all (\<lambda>x. h_name x \<noteq> None) demo_hubs"
    and h4: "list_all (\<lambda>x. d_name x \<noteq> None) demo_services"
    by (simp_all add: demo_hubs_def demo_services_def demo_hub_def demo_dps_def)
  have names: "map (\<lambda>x. (h_name x, h_location x)) demo_hubs =
       [(Some ''hub0'', ''westus''), (Some ''hub1'', ''westus''), (Some ''HUB1'', ''eastus'')]"
    "map (\<lambda>x. (d_name x, d_location x)) demo_services =
       [(Some ''dps0'', ''westus''), (Some ''dps1'', ''westus''), (Some ''DPS1'', ''eastus'')]"
    by (simp_all add: demo_hubs_def demo_services_def demo_hub_def demo_dps_def)
  have f1: "find (\<lambda>x. map_option lower (h_name x) = Some (lower ''Hub1'')) demo_hubs =
      Some (demo_hubs ! 1)"
    by (simp add: demo_hubs_def demo_hub_def lower_def lower_char_def)
  have f2: "find (\<lambda>x. map_option lower (d_name x) = Some (lower ''Dps1'')) demo_services =
      Some (demo_services ! 1)"
    by (simp add: demo_services_def demo_dps_def lower_def lower_char_def)
  have f3: "find (\<lambda>x. map_option lower (h_name x) = Some (lower ''hub9'')) demo_hubs = None"
    by (simp add: demo_hubs_def demo_hub_def lower_def lower_char_def)
  have f4: "find (\<lambda>x. map_option lower (d_name x) = Some (lower ''dps9'')) demo_services = None"
    by (simp add: demo_services_def demo_dps_def lower_def lower_char_def)
  note found = lookup_by_name_takes_first_match [OF h1 h2 h3 h4, of "''Hub1''" "''Dps1''",
      unfolded f1 f2]
  note missing = lookup_by_name_takes_first_match [OF h1 h2 h3 h4, of "''hub9''" "''dps9''",
      unfolded f3 f4]
  show ?thesis
    using h1 h2 h3 h4 names found missing by simp
qed

section \<open>C6: the entity tag on a resubmission\<close>

text \<open>
  Claim C6, as the code has it. Every command on a part of a hub (routing endpoints, routes,
  message enrichments, shared access policies) passes, on each \<^verbatim>\<open>create_or_update\<close> it
  makes, the entity tag of the hub it has read under the header \<^verbatim>\<open>IF-MATCH\<close>; the update
  of the hub itself passes the entity tag of the hub it is given. The commands on a part
  of a provisioning service (access policies, linked hubs) pass no such header on any
  \<^verbatim>\<open>create_or_update\<close> they make, and every description they send carries no entity tag.
\<close>

theorem hub_resubmissions_carry_the_entity_tag:
  "(fetch_hub client hub_name rg s = (Inr (g, h), s1, t1) \<longrightarrow>
      list_all (\<lambda>c. if_match c = Some (h_etag h))
          (resubmissions (calls (iot_hub_routing_endpoint_create client ET avro hub_name endpoint_name
             endpoint_type endpoint_resource_group endpoint_subscription_id connection_string
             container_name encoding rg batch_frequency chunk_size_window file_name_format s)))
      \<and> list_all (\<lambda>c. if_match c = Some (h_etag h))
          (resubmissions (calls (iot_hub_routing_endpoint_delete client ET hub_name
             optional_endpoint_name optional_endpoint_type rg s)))
      \<and> list_all (\<lambda>c. if_match c = Some (h_etag h))
          (resubmissions (calls (iot_hub_route_create client hub_name route_name source_type
             endpoint_names enabled condition rg s)))
      \<and> list_all (\<lambda>c. if_match c = Some (h_etag h))
          (resubmissions (calls (iot_hub_route_update client hub_name route_name optional_source_type
             optional_endpoint_names enabled condition rg s)))
      \<and> list_all (\<lambda>c. if_match c = Some (h_etag h))
          (resubmissions (calls (iot_hub_route_delete client hub_name optional_route_name
             optional_source_type rg s)))
      \<and> list_all (\<lambda>c. if_match c = Some (h_etag h))
          (resubmissions (calls (iot_message_enrichment_create client hub_name key value endpoints rg s)))
      \<and> list_all (\<lambda>c. if_match c = Some (h_etag h))
          (resubmissions (calls (iot_message_enrichment_update client hub_name key value endpoints rg s)))
      \<and> list_all (\<lambda>c. if_match c = Some (h_etag h))
          (resubmissions (calls (iot_message_enrichment_delete client hub_name key rg s))))
   \<and> (fetch_hub_policies client hub_name rg s = (Inr (g', h', listed), s2, t2) \<longrightarrow>
      list_all (\<lambda>c. if_match c = Some (h_etag h'))
          (resubmissions (calls (iot_hub_policy_create client hub_name policy_name permissions rg s)))
      \<and> list_all (\<lambda>c. if_match c = Some (h_etag h'))
          (resubmissions (calls (iot_hub_policy_delete client hub_name policy_name rg s)))
      \<and> list_all (\<lambda>c. if_match c = Some (h_etag h'))
          (resubmissions (calls (iot_hub_policy_key_renew client RT generateKey hub_name policy_name
             regenerate_key rg no_wait s))))
   \<and> list_all (\<lambda>c. if_match c = Some (h_etag parameters))
       (resubmissions (calls (iot_hub_update client hub_name parameters rg s)))
   \<and> list_all (\<lambda>c. if_match c = None)
       (resubmissions (calls (iot_dps_access_policy_create client dps_name dps_group
          access_policy_name rights primary_key secondary_key no_wait s)))
   \<and> list_all (\<lambda>c. if_match c = None)
       (resubmissions (calls (iot_dps_access_policy_update client dps_name dps_group
          access_policy_name primary_key secondary_key optional_rights no_wait s)))
   \<and> list_all (\<lambda>c. if_match c = None)
       (resubmissions (calls (iot_dps_access_policy_delete client dps_name dps_group
          access_policy_name no_wait s)))
   \<and> list_all (\<lambda>c. if_match c = None)
       (resubmissions (calls (iot_dps_linked_hub_create client dps_name dps_group connection_string
          location apply_allocation_policy allocation_weight no_wait s)))
   \<and> list_all (\<lambda>c. if_match c = None)
       (resubmissions (calls (iot_dps_linked_hub_update client dps_name dps_group linked_hub
          apply_allocation_policy allocation_weight no_wait s)))
   \<and> list_all (\<lambda>c. if_match c = None)
       (resubmissions (calls (iot_dps_linked_hub_delete client dps_name dps_group linked_hub
          no_wait s)))
   \<and> list_all (\<lambda>d. d_etag d = None)
       (resubmitted_descriptions (calls (iot_dps_access_policy_create client dps_name dps_group
          access_policy_name rights primary_key secondary_key no_wait s)))
   \<and> list_all (\<lambda>d. d_etag d = None)
       (resubmitted_descriptions (calls (iot_dps_access_policy_update client dps_name dps_group
          access_policy_name primary_key secondary_key optional_rights no_wait s)))
   \<and> list_all (\<lambda>d. d_etag d = None)
       (resubmitted_descriptions (calls (iot_dps_access_policy_delete client dps_name dps_group
          access_policy_name no_wait s)))
   \<and> list_all (\<lambda>d. d_etag d = None)
       (resubmitted_descriptions (calls (iot_dps_linked_hub_create client dps_name dps_group connection_string
          location apply_allocation_policy allocation_weight no_wait s)))
   \<and> list_all (\<lambda>d. d_etag d = None)
       (resubmitted_descriptions (calls (iot_dps_linked_hub_update client dps_name dps_group linked_hub
          apply_allocation_policy allocation_weight no_wait s)))
   \<and> list_all (\<lambda>d. d_etag d = None)
       (resubmitted_descriptions (calls (iot_dps_linked_hub_delete client dps_name dps_group linked_hub
          no_wait s)))"
  by (intro conjI impI routing_endpoint_create_tagged routing_endpoint_delete_tagged
        route_create_tagged route_update_tagged route_delete_tagged enrichment_tagged
        policy_create_tagged policy_delete_tagged policy_key_renew_tagged
        hub_update_tagged untagged emits_dps_commands untagged_descriptions
        emits_untagged_descriptions)

theorem hub_resubmissions_carry_the_entity_tag_witness:
  "fetch_hub demo_sdk ''hub1'' (Some ''rg1'') 0 =
     (Inr (''rg1'', demo_hub), 0,
      [Resource_groups_check_existence ''rg1'', Hub_check_name_availability ''hub1'',
       Hub_get ''rg1'' ''hub1''])
   \<and> fetch_hub_policies demo_sdk ''hub1'' (Some ''rg1'') 0 =
     (Inr (''rg1'', demo_hub, [demo_hub_policy]), 0,
      [Resource_groups_check_existence ''rg1'', Hub_check_name_availability ''hub1'',
       Hub_get ''rg1'' ''hub1'', Hub_list_keys ''rg1'' ''hub1''])
   \<and> h_etag demo_hub = Some ''AAAAAAAAAAA=''
   \<and> length (resubmissions (calls (iot_hub_route_create demo_sdk ''hub1'' ''route2''
         ''DeviceMessages'' ''E1 E2'' None None (Some ''rg1'') 0))) = 1
   \<and> list_all (\<lambda>c. if_match c = Some (Some ''AAAAAAAAAAA=''))
       (resubmissions (calls (iot_hub_route_create demo_sdk ''hub1'' ''route2'' ''DeviceMessages''
          ''E1 E2'' None None (Some ''rg1'') 0)))
   \<and> length (resubmissions (calls (iot_hub_policy_create demo_sdk ''hub1'' ''reader''
         [''registryread''] (Some ''rg1'') 0))) = 1
   \<and> list_all (\<lambda>c. if_match c = Some (Some ''AAAAAAAAAAA=''))
       (resubmissions (calls (iot_hub_policy_create demo_sdk ''hub1'' ''reader'' [''registryread'']
          (Some ''rg1'') 0)))
   \<and> length (resubmissions (calls (iot_hub_update demo_sdk ''hub1'' demo_hub (Some ''rg1'') 0))) = 1
   \<and> list_all (\<lambda>c. if_match c = Some (Some ''AAAAAAAAAAA=''))
       (resubmissions (calls (iot_hub_update demo_sdk ''hub1'' demo_hub (Some ''rg1'') 0)))
   \<and> d_etag demo_dps = Some ''BBBBBBBBBBB=''
   \<and> length (resubmissions (calls (iot_dps_access_policy_create demo_sdk ''dps1'' ''rg1''
         ''policy2'' [''ServiceConfig''] None None True 0))) = 1
   \<and> list_all (\<lambda>c. if_match c = None)
       (resubmissions (calls (iot_dps_access_policy_create demo_sdk ''dps1'' ''rg1'' ''policy2''
          [''ServiceConfig''] None None True 0)))
   \<and> length (resubmitted_descriptions (calls (iot_dps_access_policy_create demo_sdk ''dps1'' ''rg1''
         ''policy2'' [''ServiceConfig''] None None True 0))) = 1
   \<and> list_all (\<lambda>d. d_etag d = None)
       (resubmitted_descriptions (calls (iot_dps_access_policy_create demo_sdk ''dps1'' ''rg1''
          ''policy2'' [''ServiceConfig''] None None True 0)))"
proof -
  have n1: "length (resubmissions (calls (iot_hub_route_create demo_sdk ''hub1'' ''route2''
         ''DeviceMessages'' ''E1 E2'' None None (Some ''rg1'') 0))) = 1"
    by (simp add: route_create_run [OF demo_hub_reads(1) demo_hub_facts(2)] demo_hub_resubmit
        calls_def resubmissions_def)
  have perms: "convert_perms_to_access_rights [''registryread''] = Inr registry_read"
    by (simp add: convert_perms_to_access_rights_def access_rights_mapping_def)
  have new: "\<not> is_policy_existed [demo_hub_policy] ''reader''"
    by (simp add: is_policy_existed_def demo_hub_policy_def lower_def lower_char_def)
  have n2: "length (resubmissions (calls (iot_hub_policy_create demo_sdk ''hub1'' ''reader''
         [''registryread''] (Some ''rg1'') 0))) = 1"
    by (simp add: hub_policy_create_run(2) [OF perms demo_hub_reads(2) new] demo_hub_resubmit
        calls_def resubmissions_def)
  have n3: "length (resubmissions (calls (iot_hub_update demo_sdk ''hub1'' demo_hub (Some ''rg1'') 0))) = 1"
    by (simp add: iot_hub_update_def ensure_resource_group_name_def cli_bind_def cli_return_def
        demo_hub_resubmit calls_def resubmissions_def)
  have n4: "length (resubmissions (calls (iot_dps_access_policy_create demo_sdk ''dps1'' ''rg1''
         ''policy2'' [''ServiceConfig''] None None True 0))) = 1"
    "length (resubmitted_descriptions (calls (iot_dps_access_policy_create demo_sdk ''dps1'' ''rg1''
         ''policy2'' [''ServiceConfig''] None None True 0))) = 1"
    by (simp_all add: demo_dps_access_policy_create calls_def resubmissions_def
        resubmitted_descriptions_def List.map_filter_simps)
  have e: "d_etag demo_dps = Some ''BBBBBBBBBBB=''"
    by (simp add: demo_dps_def)
  show ?thesis
    using n1 n2 n3 n4 e demo_hub_reads [of 0]
      hub_resubmissions_carry_the_entity_tag [where client = demo_sdk and hub_name = "''hub1''"
          and rg = "Some ''rg1''" and g = "''rg1''" and h = demo_hub and ?s1.0 = 0
          and ?t1.0 = "[Resource_groups_check_existence ''rg1'', Hub_check_name_availability ''hub1'',
             Hub_get ''rg1'' ''hub1'']"
          and g' = "''rg1''" and h' = demo_hub and listed = "[demo_hub_policy]" and ?s2.0 = 0
          and ?t2.0 = "[Resource_groups_check_existence ''rg1'', Hub_check_name_availability ''hub1'',
             Hub_get ''rg1'' ''hub1'', Hub_list_keys ''rg1'' ''hub1'']"
          and parameters = demo_hub
          and s = 0 and route_name = "''route2''" and source_type = "''DeviceMessages''"
          and endpoint_names = "''E1 E2''" and enabled = None and condition = None
          and policy_name = "''reader''" and permissions = "[''registryread'']"
          and dps_name = "''dps1''" and dps_group = "''rg1''" and access_policy_name = "''policy2''"
          and rights = "[''ServiceConfig'']" and primary_key = None and secondary_key = None
          and no_wait = True]
    by (simp add: demo_hub_facts)
qed

text \<open>
  The claim as the specification states it, for both families, fails on a provisioning
  service: the service read has an entity tag, and the creation of an access policy
  resubmits a description without entity tag and passes no \<^verbatim>\<open>IF-MATCH\<close>.
\<close>

theorem dps_resubmission_without_if_match_counterexample:
  "d_etag demo_dps = Some ''BBBBBBBBBBB=''
   \<and> map if_match (resubmissions (calls (iot_dps_access_policy_create demo_sdk ''dps1'' ''rg1''
         ''policy2'' [''ServiceConfig''] None None True 0))) = [None]
   \<and> map d_etag (resubmitted_descriptions (calls (iot_dps_access_policy_create demo_sdk ''dps1''
         ''rg1'' ''policy2'' [''ServiceConfig''] None None True 0))) = [None]"
  by (simp add: demo_dps_access_policy_create calls_def resubmissions_def
      resubmitted_descriptions_def List.map_filter_simps dps_description_of_def)
     (simp add: demo_dps_def)

section \<open>C7: a delete by type alone\<close>

text \<open>
  Claim C7. A routing-endpoint delete that is given an endpoint type and no endpoint name
  empties exactly the endpoint list of that type. The command resubmits the hub once, and
  the routing of the hub it sends holds the endpoints that \<open>delete_routing_endpoints\<close>
  returns; these are the endpoints that were read with the list of the given type emptied
  and the three other lists as they were. (The hub and its routing have been read; the
  four values of \<^verbatim>\<open>EndpointType\<close> are distinct.)
\<close>

theorem type_only_delete_clears_that_type:
  assumes "\<not> truthy endpoint_name" and "truthy endpoint_type"
    and "distinct [ServiceBusQueue ET, ServiceBusTopic ET, AzureStorageContainer ET, EventHub ET]"
    and "fetch_hub client hub_name resource_group_name s = (Inr (g, h), s1, t1)"
    and "hp_routing (h_properties h) = Some r"
  shows "map (\<lambda>x. hp_routing (h_properties x))
           (resubmitted_hubs (calls (iot_hub_routing_endpoint_delete client ET hub_name endpoint_name
              endpoint_type resource_group_name s))) =
           [Some (r\<lparr>rp_endpoints :=
              delete_routing_endpoints ET endpoint_name endpoint_type (rp_endpoints r)\<rparr>)]
         \<and> (lower (the endpoint_type) = ServiceBusQueue ET \<longrightarrow>
              delete_routing_endpoints ET endpoint_name endpoint_type endpoints =
                endpoints\<lparr>service_bus_queues := []\<rparr>)
         \<and> (lower (the endpoint_type) = ServiceBusTopic ET \<longrightarrow>
              delete_routing_endpoints ET endpoint_name endpoint_type endpoints =
                endpoints\<lparr>service_bus_topics := []\<rparr>)
         \<and> (lower (the endpoint_type) = AzureStorageContainer ET \<longrightarrow>
              delete_routing_endpoints ET endpoint_name endpoint_type endpoints =
                endpoints\<lparr>storage_containers := []\<rparr>)
         \<and> (lower (the endpoint_type) = EventHub ET \<longrightarrow>
              delete_routing_endpoints ET endpoint_name endpoint_type endpoints =
                endpoints\<lparr>event_hubs := []\<rparr>)"
  using sent_routing_endpoint_delete [OF assms(4,5)] delete_by_type_only [OF assms(1,2)] assms(3)
  by auto

theorem type_only_delete_clears_that_type_witness:
  "\<not> truthy None \<and> truthy (Some ''EventHub'')
   \<and> distinct [ServiceBusQueue demo_types, ServiceBusTopic demo_types,
                AzureStorageContainer demo_types, EventHub demo_types]
   \<and> fetch_hub demo_sdk ''hub1'' (Some ''rg1'') 0 =
       (Inr (''rg1'', demo_hub), 0,
        [Resource_groups_check_existence ''rg1'', Hub_check_name_availability ''hub1'',
         Hub_get ''rg1'' ''hub1''])
   \<and> hp_routing (h_properties demo_hub) = Some demo_routing
   \<and> map ep_name (service_bus_queues (rp_endpoints demo_routing)) = [''Q1'']
   \<and> map ep_name (event_hubs (rp_endpoints demo_routing)) = [''E1'', ''E2'']
   \<and> map (map_option (\<lambda>r. (map ep_name (service_bus_queues (rp_endpoints r)),
                             map ep_name (service_bus_topics (rp_endpoints r)),
                             map ep_name (storage_containers (rp_endpoints r)),
                             map ep_name (event_hubs (rp_endpoints r)))))
       (map (\<lambda>x. hp_routing (h_properties x))
          (resubmitted_hubs (calls (iot_hub_routing_endpoint_delete demo_sdk demo_types ''hub1'' None
             (Some ''EventHub'') (Some ''rg1'') 0)))) =
       [Some ([''Q1''], [], [], [])]
   \<and> delete_routing_endpoints demo_types None (Some ''EventHub'') demo_endpoints =
       demo_endpoints\<lparr>event_hubs := []\<rparr>"
proof -
  have h1: "\<not> truthy None" and h2: "truthy (Some ''EventHub'')"
    by simp_all
  have h3: "distinct [ServiceBusQueue demo_types, ServiceBusTopic demo_types,
                AzureStorageContainer demo_types, EventHub demo_types]"
    by (simp add: demo_types_def)
  have t: "lower (the (Some ''EventHub'')) = EventHub demo_types"
    by (simp add: lower_def lower_char_def demo_types_def)
  have r: "rp_endpoints demo_routing = demo_endpoints"
    by (simp add: demo_routing_def)
  note run = type_only_delete_clears_that_type
    [OF h1 h2 h3 demo_hub_reads(1) demo_hub_facts(2), where s = 0 and endpoints = demo_endpoints]
  have pure: "delete_routing_endpoints demo_types None (Some ''EventHub'') demo_endpoints =
       demo_endpoints\<lparr>event_hubs := []\<rparr>"
    using run t by simp
  have sent: "map (\<lambda>x. hp_routing (h_properties x))
          (resubmitted_hubs (calls (iot_hub_routing_endpoint_delete demo_sdk demo_types ''hub1'' None
             (Some ''EventHub'') (Some ''rg1'') 0))) =
       [Some (demo_routing\<lparr>rp_endpoints := demo_endpoints\<lparr>event_hubs := []\<rparr>\<rparr>)]"
    using run by (simp add: r pure)
  show ?thesis
    unfolding sent
    using h1 h2 h3 demo_hub_reads(1) [of 0] demo_hub_facts(2) pure
    by (simp add: r) (simp add: demo_endpoints_def demo_endpoint_def)
qed

section \<open>C8: the storage endpoint of file uploads\<close>

text \<open>
  Claim C8, as the code has it. \<open>iot_hub_create\<close> fails with \<open>InvalidArgument\<close>, before any
  client call and with the service untouched, when file-upload notifications are enabled
  without both a storage connection string and a container name, or when exactly one of
  the two is given (an empty string counts as not given). \<open>update_iot_hub_custom\<close>, which
  calls no client, fails when exactly one of the two is supplied (is not \<^verbatim>\<open>None\<close>): with
  \<open>InvalidArgument\<close>, unless the instance lacks a dictionary entry that an earlier
  assignment needs. Enabling the notifications is not checked by the update.
\<close>

theorem storage_endpoint_is_validated_first:
  assumes "(enable_fileupload_notifications \<and>
              (\<not> truthy fileupload_storage_connectionstring \<or> \<not> truthy fileupload_storage_container_name))
           \<or> truthy fileupload_storage_connectionstring \<noteq> truthy fileupload_storage_container_name"
    and "(connectionstring \<noteq> None) \<noteq> (container_name \<noteq> None)"
  shows "iot_hub_create client hub_name resource_group_name location sku unit partition_count
           retention_day c2d_ttl c2d_max_delivery_count feedback_lock_duration feedback_ttl
           feedback_max_delivery_count enable_fileupload_notifications
           fileupload_notification_max_delivery_count fileupload_notification_ttl
           fileupload_storage_connectionstring fileupload_storage_container_name fileupload_sas_ttl s =
         (Inl (InvalidArgument
            (if enable_fileupload_notifications
             then ''Please specify storage endpoint(storage connection string and storage container name).''
             else if truthy fileupload_storage_connectionstring
             then ''Please mention storage container name.''
             else ''Please mention storage connection string.'')), s, [])
       \<and> refused
           (if connectionstring \<noteq> None
            then ''Please mention storage container name.''
            else ''Please mention storage connection string.'')
           (update_iot_hub_custom instance new_sku new_unit new_retention_day new_c2d_ttl
              new_c2d_max_delivery_count new_feedback_lock_duration new_feedback_ttl
              new_feedback_max_delivery_count enable new_max_delivery_count new_ttl
              connectionstring container_name new_sas_ttl)"
  by (rule conjI [OF create_refuses_unusable_storage_endpoint [OF assms(1)]
        update_refuses_half_a_storage_endpoint [OF assms(2)]])

text \<open>
  The claim as the specification states it fails for the update: enabling the
  notifications with neither connection string nor container name returns the instance
  with the notifications enabled.
\<close>

theorem update_enables_notifications_unchecked_counterexample:
  "\<not> truthy None
   \<and> update_iot_hub_custom demo_hub None None None None None None None None (Some True) None None
       None None None =
     Inr (demo_hub\<lparr>h_properties := (h_properties demo_hub)\<lparr>hp_enable_file_upload_notifications := True\<rparr>\<rparr>)"
  by (simp add: update_iot_hub_custom_def and_then_def)

theorem storage_endpoint_is_validated_first_witness:
  "((True \<and> (\<not> truthy None \<or> \<not> truthy None)) \<or> truthy None \<noteq> truthy None)
   \<and> (Some ''DefaultEndpointsProtocol=https'' \<noteq> None) \<noteq> ((None :: string option) \<noteq> None)
   \<and> iot_hub_create demo_sdk ''hub2'' ''rg1'' None ''F1'' 1 4 1 1 10 5 1 10 True 10 1 None None 1 0 =
       (Inl (InvalidArgument
          ''Please specify storage endpoint(storage connection string and storage container name).''),
        0, [])
   \<and> update_iot_hub_custom demo_hub None None None None None None None None None None None
       (Some ''DefaultEndpointsProtocol=https'') None None =
       Inl (InvalidArgument ''Please mention storage container name.'')"
proof -
  have h1: "(True \<and> (\<not> truthy None \<or> \<not> truthy None)) \<or> truthy None \<noteq> truthy None"
    by simp
  have h2: "(Some ''DefaultEndpointsProtocol=https'' \<noteq> None) \<noteq> ((None :: string option) \<noteq> None)"
    by simp
  have u: "update_iot_hub_custom demo_hub None None None None None None None None None None None
       (Some ''DefaultEndpointsProtocol=https'') None None =
       Inl (InvalidArgument ''Please mention storage container name.'')"
    using storage_endpoint_is_validated_first [OF h1 h2, of demo_sdk]
    by (simp add: refused_def update_iot_hub_custom_def and_then_def)
  show ?thesis
    using h1 h2 u
      storage_endpoint_is_validated_first [OF h1 h2, of demo_sdk "''hub2''" "''rg1''" None "''F1''" 1 4 1 1
        10 5 1 10 10 1 1 0]
    by simp
qed

section \<open>C9: a route delete without arguments\<close>

text \<open>
  Claim C9. A route delete that is given neither a route name nor a source type raises
  nothing of its own: after the two reads it resubmits the hub once, the hub it sends is
  the hub that was read with the list of routes of its routing replaced by the empty list
  (so the routes of the hub sent are none, whatever the routes read were), and its result
  is the answer of that \<^verbatim>\<open>create_or_update\<close>.
\<close>

theorem route_delete_without_arguments_deletes_all:
  assumes "\<not> truthy route_name" and "\<not> truthy source_type"
    and "fetch_hub client hub_name resource_group_name s = (Inr (g, h), s1, t1)"
    and "hp_routing (h_properties h) = Some r"
  shows "iot_hub_route_delete client hub_name route_name source_type resource_group_name s =
           (fst (hub_create_or_update client g hub_name
                   (h\<lparr>h_properties := (h_properties h)\<lparr>hp_routing := Some (r\<lparr>rp_routes := []\<rparr>)\<rparr>\<rparr>)
                   (Some [(''IF-MATCH'', h_etag h)]) s1),
            snd (hub_create_or_update client g hub_name
                   (h\<lparr>h_properties := (h_properties h)\<lparr>hp_routing := Some (r\<lparr>rp_routes := []\<rparr>)\<rparr>\<rparr>)
                   (Some [(''IF-MATCH'', h_etag h)]) s1),
            t1 @ [Hub_create_or_update g hub_name
                   (h\<lparr>h_properties := (h_properties h)\<lparr>hp_routing := Some (r\<lparr>rp_routes := []\<rparr>)\<rparr>\<rparr>)
                   (Some [(''IF-MATCH'', h_etag h)])])
     \<and> map (\<lambda>x. map_option rp_routes (hp_routing (h_properties x)))
         (resubmitted_hubs (calls (iot_hub_route_delete client hub_name route_name source_type
            resource_group_name s))) = [Some []]"
proof -
  note run = route_delete_run [OF assms(3,4), of route_name source_type]
  have sent: "resubmitted_hubs (calls (iot_hub_route_delete client hub_name route_name source_type
            resource_group_name s)) = [set_routing h (r\<lparr>rp_routes := []\<rparr>)]"
    unfolding run sent_after_fetch_hub [OF assms(3)] using assms(1,2) by simp
  have whole: "iot_hub_route_delete client hub_name route_name source_type resource_group_name s =
           (fst (hub_create_or_update client g hub_name (set_routing h (r\<lparr>rp_routes := []\<rparr>))
                   (Some [(''IF-MATCH'', h_etag h)]) s1),
            snd (hub_create_or_update client g hub_name (set_routing h (r\<lparr>rp_routes := []\<rparr>))
                   (Some [(''IF-MATCH'', h_etag h)]) s1),
            t1 @ [Hub_create_or_update g hub_name (set_routing h (r\<lparr>rp_routes := []\<rparr>))
                   (Some [(''IF-MATCH'', h_etag h)])])"
    unfolding run using assms(1,2) by (simp add: run_hub_resubmit h_etag_set_routing)
  show ?thesis
    apply (intro conjI)
    subgoal using whole by (simp add: set_routing_def)
    subgoal unfolding sent by (simp add: set_routing_def)
    done
qed

theorem route_delete_without_arguments_deletes_all_witness:
  "\<not> truthy None
   \<and> fetch_hub demo_sdk ''hub1'' (Some ''rg1'') 0 =
       (Inr (''rg1'', demo_hub), 0,
        [Resource_groups_check_existence ''rg1'', Hub_check_name_availability ''hub1'',
         Hub_get ''rg1'' ''hub1''])
   \<and> hp_routing (h_properties demo_hub) = Some demo_routing
   \<and> map rt_name (rp_routes demo_routing) = [''route1'']
   \<and> outcome (iot_hub_route_delete demo_sdk ''hub1'' None None (Some ''rg1'') 0) = Inr (Poller 0)
   \<and> map (\<lambda>x. map_option rp_routes (hp_routing (h_properties x)))
         (resubmitted_hubs (calls (iot_hub_route_delete demo_sdk ''hub1'' None None (Some ''rg1'') 0))) =
       [Some []]
   \<and> map if_match (resubmissions (calls (iot_hub_route_delete demo_sdk ''hub1'' None None
         (Some ''rg1'') 0))) = [Some (Some ''AAAAAAAAAAA='')]"
proof -
  have h1: "\<not> truthy None"
    by simp
  have u: "hub_create_or_update demo_sdk g n h headers 0 = (Inr (Poller 0), 1)" for g n h headers
    by (simp add: demo_sdk_def)
  note run = route_delete_without_arguments_deletes_all
    [OF h1 h1 demo_hub_reads(1) demo_hub_facts(2), where s = 0]
  note whole = run [THEN conjunct1]
  note c = run [THEN conjunct2]
  have quiet: "resubmissions [Resource_groups_check_existence ''rg1'',
      Hub_check_name_availability ''hub1'', Hub_get ''rg1'' ''hub1''] = []"
    by (simp add: resubmissions_def)
  have a: "outcome (iot_hub_route_delete demo_sdk ''hub1'' None None (Some ''rg1'') 0) = Inr (Poller 0)"
    using whole by (simp add: u outcome_def)
  have b: "map if_match (resubmissions (calls (iot_hub_route_delete demo_sdk ''hub1'' None None
         (Some ''rg1'') 0))) = [Some (Some ''AAAAAAAAAAA='')]"
    using whole by (simp add: calls_def resubmissions_def demo_hub_facts(1))
  show ?thesis
    using h1 demo_hub_reads(1) [of 0] demo_hub_facts(2) a b c
    by (simp add: demo_routing_def demo_route_def)
qed

section \<open>C10: an update under a name of another case\<close>

text \<open>
  Claim C10. Take an update of an access policy, or of a linked hub, of a provisioning
  service under a name that the existence check accepts (it compares lowered names) and
  that no listed entry carries letter for letter. The loop that assigns the new values
  compares with \<^verbatim>\<open>==\<close> and so changes no entry: the command raises nothing, and the
  description it resubmits holds the listed entries unchanged. Its result is that of the
  resubmission.
\<close>

theorem update_by_name_of_other_case_changes_nothing:
  assumes "iot_dps_access_policy_list client dps_name g s = (Inr policies, s1, t1)"
    and "is_policy_existed policies access_policy_name"
    and "access_policy_name \<notin> set (map pol_key_name policies)"
    and "iot_dps_get client dps_name (Some g) s1 = (Inr d, s2, t2)"
    and "iot_dps_linked_hub_list client dps_name g s = (Inr hubs, s3, t3)"
    and "is_linked_hub_existed hubs linked_hub = Inr True"
    and "Some linked_hub \<notin> set (map lh_name hubs)"
    and "iot_dps_get client dps_name (Some g) s3 = (Inr d', s4, t4)"
  shows "resubmitted_descriptions (calls (iot_dps_access_policy_update client dps_name g
             access_policy_name primary_key secondary_key rights no_wait s)) =
           [dps_description_of d
              \<lparr>dp_iot_hubs = dp_iot_hubs (d_properties d),
               dp_allocation_policy = dp_allocation_policy (d_properties d),
               dp_authorization_policies = policies\<rparr>]
       \<and> outcome (iot_dps_access_policy_update client dps_name g access_policy_name primary_key
             secondary_key rights no_wait s) =
           outcome (dps_submit client g dps_name
              (dps_description_of d
                 \<lparr>dp_iot_hubs = dp_iot_hubs (d_properties d),
                  dp_allocation_policy = dp_allocation_policy (d_properties d),
                  dp_authorization_policies = policies\<rparr>)
              no_wait (iot_dps_access_policy_get client dps_name g access_policy_name) s2)
       \<and> resubmitted_descriptions (calls (iot_dps_linked_hub_update client dps_name g linked_hub
             apply_allocation_policy allocation_weight no_wait s)) =
           [dps_description_of d'
              \<lparr>dp_iot_hubs = hubs,
               dp_allocation_policy = dp_allocation_policy (d_properties d'),
               dp_authorization_policies = dp_authorization_policies (d_properties d')\<rparr>]
       \<and> outcome (iot_dps_linked_hub_update client dps_name g linked_hub apply_allocation_policy
             allocation_weight no_wait s) =
           outcome (dps_submit client g dps_name
              (dps_description_of d'
                 \<lparr>dp_iot_hubs = hubs,
                  dp_allocation_policy = dp_allocation_policy (d_properties d'),
                  dp_authorization_policies = dp_authorization_policies (d_properties d')\<rparr>)
              no_wait (iot_dps_linked_hub_get client dps_name g linked_hub) s4)"
proof -
  have q: "resubmitted_descriptions t1 = []" "resubmitted_descriptions t2 = []"
    "resubmitted_descriptions t3 = []" "resubmitted_descriptions t4 = []"
    using emits_calls [OF emits_iot_dps_access_policy_list assms(1)]
      emits_calls [OF emits_iot_dps_get assms(4)]
      emits_calls [OF emits_iot_dps_linked_hub_list assms(5)]
      emits_calls [OF emits_iot_dps_get assms(8)]
    by (simp_all add: no_resubmission_descriptions)
  show ?thesis
    by (simp add: access_policy_update_run [OF assms(1,2,4)] linked_hub_update_run [OF assms(5,6,8)]
        access_policy_assign_other [OF assms(3)] linked_hub_assign_other [OF assms(7)]
        calls_extend outcome_extend resubmitted_descriptions_append q
        dps_submit_calls [OF emits_iot_dps_access_policy_get]
        dps_submit_calls [OF emits_iot_dps_linked_hub_get])
qed

theorem update_by_name_of_other_case_changes_nothing_witness:
  "iot_dps_access_policy_list demo_sdk ''dps1'' ''rg1'' 0 =
     (Inr [demo_dps_policy], 0, [Dps_get ''dps1'' ''rg1'', Dps_list_keys ''dps1'' ''rg1''])
   \<and> is_policy_existed [demo_dps_policy] ''Policy1''
   \<and> ''Policy1'' \<notin> set (map pol_key_name [demo_dps_policy])
   \<and> iot_dps_get demo_sdk ''dps1'' (Some ''rg1'') 0 = (Inr demo_dps, 0, [Dps_get ''dps1'' ''rg1''])
   \<and> iot_dps_linked_hub_list demo_sdk ''dps1'' ''rg1'' 0 =
       (Inr [demo_linked_hub], 0, [Dps_get ''dps1'' ''rg1''])
   \<and> is_linked_hub_existed [demo_linked_hub] ''HUB1.azure-devices.net'' = Inr True
   \<and> Some ''HUB1.azure-devices.net'' \<notin> set (map lh_name [demo_linked_hub])
   \<and> resubmitted_descriptions (calls (iot_dps_access_policy_update demo_sdk ''dps1'' ''rg1''
         ''Policy1'' None (Some ''C'') None True 0)) =
       [dps_description_of demo_dps
          \<lparr>dp_iot_hubs = dp_iot_hubs (d_properties demo_dps),
           dp_allocation_policy = dp_allocation_policy (d_properties demo_dps),
           dp_authorization_policies = [demo_dps_policy]\<rparr>]
   \<and> outcome (iot_dps_access_policy_update demo_sdk ''dps1'' ''rg1'' ''Policy1'' None (Some ''C'')
         None True 0) = Inr (NoWait (Poller 0))
   \<and> resubmitted_descriptions (calls (iot_dps_linked_hub_update demo_sdk ''dps1'' ''rg1''
         ''HUB1.azure-devices.net'' (Some False) (Some 5) True 0)) =
       [dps_description_of demo_dps
          \<lparr>dp_iot_hubs = [demo_linked_hub],
           dp_allocation_policy = dp_allocation_policy (d_properties demo_dps),
           dp_authorization_policies = dp_authorization_policies (d_properties demo_dps)\<rparr>]
   \<and> outcome (iot_dps_linked_hub_update demo_sdk ''dps1'' ''rg1'' ''HUB1.azure-devices.net''
         (Some False) (Some 5) True 0) = Inr (NoWait (Poller 0))"
  using demo_dps_reads [of 0] demo_case_variants
    update_by_name_of_other_case_changes_nothing
      [OF demo_dps_reads(2) demo_case_variants(1,2) demo_dps_reads(1) demo_dps_reads(3)
          demo_case_variants(3,4) demo_dps_reads(1),
       where primary_key = None and secondary_key = "Some ''C''" and rights = None
         and no_wait = True and apply_allocation_policy = "Some False"
         and allocation_weight = "Some 5"]
  by (simp add: demo_dps_submit_no_wait outcome_def)

end
